theory Spec2Isabelle
  imports Complex_Main
begin

section \<open>Time\<close>

text \<open>
  A Python \<open>datetime\<close> is modelled as an instant: the number of microseconds since
  1970-01-01T00:00:00. Comparison of datetimes is comparison of instants, a
  \<open>timedelta\<close> is a difference of instants, and \<open>ensure_utc\<close> is the identity on
  instants.

  \<open>get_utc_now()\<close> is an argument: an operation takes the reading of the clock as
  \<open>now\<close>. Where the source reads the clock again in each round of a loop that builds
  time buckets, the readings of the loop are the argument \<open>clock\<close>.
\<close>

type_synonym datetime = int

definition usec_per_day :: int where
  "usec_per_day = 86400000000"

definition timedelta_days :: "int \<Rightarrow> int" where
  "timedelta_days d = d * usec_per_day"

definition timedelta_weeks :: "int \<Rightarrow> int" where
  "timedelta_weeks w = timedelta_days (7 * w)"

text \<open>The \<open>.days\<close> attribute of a timedelta: Python normalises so that it is the floor.\<close>

definition days :: "int \<Rightarrow> int" where
  "days delta = delta div usec_per_day"

text \<open>
  The proleptic Gregorian calendar of \<open>datetime\<close>: year, month and day of the day
  with the given number (day 0 is 1970-01-01).
\<close>

definition civil_from_days :: "int \<Rightarrow> int \<times> int \<times> int" where
  "civil_from_days z0 =
     (let z = z0 + 719468;
          era = z div 146097;
          doe = z mod 146097;
          yoe = (doe - doe div 1460 + doe div 36524 - doe div 146096) div 365;
          doy = doe - (365 * yoe + yoe div 4 - yoe div 100);
          mp = (5 * doy + 2) div 153;
          d = doy - (153 * mp + 2) div 5 + 1;
          m = (if mp < 10 then mp + 3 else mp - 9);
          y = yoe + era * 400 + (if m \<le> 2 then 1 else 0)
      in (y, m, d))"

definition day_of :: "datetime \<Rightarrow> int" where
  "day_of t = snd (snd (civil_from_days (t div usec_per_day)))"

text \<open>\<open>t.replace(day=1)\<close>: the same time of day on the first day of the month of \<open>t\<close>.\<close>

definition replace_day1 :: "datetime \<Rightarrow> datetime" where
  "replace_day1 t = t - timedelta_days (day_of t - 1)"

text \<open>\<open>t.strftime('%Y-%m')\<close>, as the pair of the year and the month.\<close>

definition month_key :: "datetime \<Rightarrow> int \<times> int" where
  "month_key t = (case civil_from_days (t div usec_per_day) of (y, m, d) \<Rightarrow> (y, m))"

section \<open>Numbers\<close>

text \<open>Python's \<open>round(x, n)\<close>: to \<open>n\<close> decimals, a tie going to the even neighbour.\<close>

definition py_round :: "nat \<Rightarrow> real \<Rightarrow> real" where
  "py_round n x =
     (let y = x * 10 ^ n;
          f = \<lfloor>y\<rfloor>;
          d = y - of_int f
      in of_int (if d < 1 / 2 then f
                 else if 1 / 2 < d then f + 1
                 else if even f then f else f + 1) / 10 ^ n)"

text \<open>
  The three ways in which the operations below can end in an OverflowError: a
  \<open>timedelta\<close> of more than 999999999 days (the message quotes the number of days), a
  date outside the years 1 to 9999 (\<open>date value out of range\<close>), and an integer too
  large to convert to a float.
\<close>

datatype overflow = TimedeltaDays int | DateValueOutOfRange | IntTooLarge

datatype error =
    NotFound
  | PermissionError string
  | ValueError string
  | ZeroDivisionError
  | AttributeError
  | OverflowError overflow

section \<open>Floating point\<close>

text \<open>
  A Python float is an IEEE 754 binary64 number. A finite float is modelled as the real
  number it denotes, and an operation on floats as the exact operation on these reals
  followed by the rounding \<open>fl\<close> to the nearest float, a tie going to the float whose
  significand is even. The two zeros of the format, which compare equal, are the one
  real 0.

  The rounding is modelled in the expense operations and in the project health. The
  aggregations of the analyses (the sums of the buckets, means, variances and trends)
  are taken as exact reals: the theorems about them are about which records are counted
  and which branch is taken.

  \<open>rnd\<close> rounds a real to the nearest integer, a tie going to the even one.
\<close>

definition rnd :: "real \<Rightarrow> int" where
  "rnd y =
     (let f = \<lfloor>y\<rfloor>; d = y - of_int f
      in if d < 1 / 2 then f else if 1 / 2 < d then f + 1 else if even f then f else f + 1)"

text \<open>The binary exponent of a positive real: \<open>2 ^ expo x \<le> x < 2 ^ (expo x + 1)\<close>.\<close>

function expo :: "real \<Rightarrow> int" where
  "expo x = (if 2 \<le> x then expo (x / 2) + 1
             else if 0 < x \<and> x < 1 then expo (x * 2) - 1
             else 0)"
  by pat_completeness auto
termination
proof (relation "measure (\<lambda>x. 2 * nat \<lceil>1 / x\<rceil> + nat \<lfloor>x\<rfloor>)")
  show "wf (measure (\<lambda>x. 2 * nat \<lceil>1 / x\<rceil> + nat \<lfloor>x\<rfloor>))" by simp
next
  fix x :: real assume a: "2 \<le> x"
  have 1: "\<lceil>1 / (x / 2)\<rceil> = 1" using a by (simp add: ceiling_eq_iff)
  have 2: "\<lceil>1 / x\<rceil> = 1" using a by (simp add: ceiling_eq_iff)
  have "x / 2 \<le> x - 1" using a by simp
  then have "\<lfloor>x / 2\<rfloor> \<le> \<lfloor>x - 1\<rfloor>" by (rule floor_mono)
  then have 3: "\<lfloor>x / 2\<rfloor> < \<lfloor>x\<rfloor>" by simp
  have "0 \<le> \<lfloor>x / 2\<rfloor>" using a by simp
  then show "(x / 2, x) \<in> measure (\<lambda>x. 2 * nat \<lceil>1 / x\<rceil> + nat \<lfloor>x\<rfloor>)"
    using a 1 2 3 by simp
next
  fix x :: real assume "\<not> 2 \<le> x" and a: "0 < x \<and> x < 1"
  let ?t = "1 / x"
  have t: "1 < ?t" using a by simp
  have c2: "2 \<le> \<lceil>?t\<rceil>" using t by linarith
  have "?t / 2 \<le> of_int \<lceil>?t\<rceil> / 2" by simp
  also have "\<dots> \<le> of_int (\<lceil>?t\<rceil> - 1)" using c2 by simp
  finally have "?t / 2 \<le> of_int (\<lceil>?t\<rceil> - 1)" .
  then have "\<lceil>?t / 2\<rceil> \<le> \<lceil>?t\<rceil> - 1" by (rule ceiling_le)
  moreover have "1 / (x * 2) = ?t / 2" by simp
  ultimately have 1: "\<lceil>1 / (x * 2)\<rceil> \<le> \<lceil>1 / x\<rceil> - 1" by (simp only:)
  have 0: "0 < \<lceil>1 / (x * 2)\<rceil>" using a by simp
  have 2: "\<lfloor>x\<rfloor> = 0" using a by (simp add: floor_eq_iff)
  have 3: "\<lfloor>x * 2\<rfloor> \<le> 1" using a by (simp add: floor_le_iff)
  have 4: "nat \<lceil>1 / (x * 2)\<rceil> < nat \<lceil>1 / x\<rceil>" using 0 1 by linarith
  have 5: "nat \<lfloor>x * 2\<rfloor> \<le> 1" using 3 by linarith
  have "2 * nat \<lceil>1 / (x * 2)\<rceil> + nat \<lfloor>x * 2\<rfloor> < 2 * nat \<lceil>1 / x\<rceil> + nat \<lfloor>x\<rfloor>"
    using 4 5 by linarith
  then show "(x * 2, x) \<in> measure (\<lambda>x. 2 * nat \<lceil>1 / x\<rceil> + nat \<lfloor>x\<rfloor>)"
    by simp
qed

declare expo.simps [simp del]

text \<open>
  The spacing of the floats around \<open>x\<close> is 2 to the power \<open>qexp x\<close>: a significand of
  53 bits, and the spacing of the subnormal numbers below the exponent - 1022.
\<close>

definition qexp :: "real \<Rightarrow> int" where
  "qexp x = max (expo \<bar>x\<bar>) (- 1022) - 52"

text \<open>
  The float nearest to a real. The exponent is not bounded above: a result beyond
  \<open>max_float\<close>, which Python replaces by \<open>inf\<close>, and the values \<open>inf\<close> and \<open>nan\<close>
  themselves are outside the model, and a theorem about an operation whose result can
  be that large has the hypothesis that it is not (\<open>finite_float\<close>).
\<close>

definition fl :: "real \<Rightarrow> real" where
  "fl x = (if x = 0 then 0 else of_int (rnd (x / 2 powi qexp x)) * 2 powi qexp x)"

definition max_float :: real where
  "max_float = (2 ^ 53 - 1) * 2 ^ 971"

definition finite_float :: "real \<Rightarrow> bool" where
  "finite_float x = (\<bar>x\<bar> \<le> max_float)"


text \<open>\<open>a + b\<close>, \<open>a - b\<close> and \<open>a * b\<close> on floats (an \<open>int\<close> operand is converted first).\<close>

definition float_add :: "real \<Rightarrow> real \<Rightarrow> real" where
  "float_add a b = fl (a + b)"

definition float_sub :: "real \<Rightarrow> real \<Rightarrow> real" where
  "float_sub a b = fl (a - b)"

definition float_mul :: "real \<Rightarrow> real \<Rightarrow> real" where
  "float_mul a b = fl (a * b)"

text \<open>
  \<open>a / b\<close> of two integers with \<open>b\<close> not zero: the quotient, correctly rounded.
\<close>

definition int_truediv :: "int \<Rightarrow> int \<Rightarrow> real" where
  "int_truediv a b = fl (of_int a / of_int b)"

text \<open>Python's \<open>a / b\<close> on floats raises when \<open>b\<close> is zero.\<close>

definition py_truediv :: "real \<Rightarrow> real \<Rightarrow> error + real" where
  "py_truediv a b = (if b = 0 then Inl ZeroDivisionError else Inr (fl (a / b)))"

text \<open>
  \<open>round(x, n)\<close> of a float is the float nearest to the decimal that \<open>py_round\<close>
  gives for the exact value of \<open>x\<close>.
\<close>

definition round_float :: "nat \<Rightarrow> real \<Rightarrow> real" where
  "round_float n x = fl (py_round n x)"

text \<open>
  \<open>float(v)\<close> of a number \<open>v\<close>, an \<open>int\<close> or a finite float: the nearest float, and
  an OverflowError for an integer beyond the range of the floats.
\<close>

definition to_float :: "real \<Rightarrow> error + real" where
  "to_float v = (if finite_float (fl v) then Inr (fl v) else Inl (OverflowError IntTooLarge))"


section \<open>Data model\<close>

text \<open>
  The status of a task is one of the three values of the enumeration; the guards
  \<open>t.status and hasattr(t.status, 'value')\<close> of the source hold for each of them.
\<close>

datatype task_status = pending | in_progress | completed

record task =
  t_id :: nat
  title :: string
  t_project_id :: nat
  t_owner_id :: nat
  status :: task_status
  created_at :: "datetime option"
  due_date :: "datetime option"
  last_progress_update :: "datetime option"
  subtasks :: "nat list"

record user =
  u_id :: nat
  email :: string
  notify_email :: bool

record project =
  p_id :: nat
  name :: string
  deadline :: "datetime option"
  members :: "user list"
  owner_id :: nat

record budget =
  b_id :: nat
  b_project_id :: nat
  allocated_amount :: real
  spent_amount :: real
  currency :: string

record expense =
  e_id :: nat
  e_project_id :: nat
  e_task_id :: "nat option"
  amount :: real
  description :: string
  category :: "string option"
  created_by :: nat
  incurred_at :: datetime

text \<open>
  The text of the budget overrun notification, as the values it interpolates: project
  name, currency, overrun amount, overrun percentage.
\<close>

datatype notice = BudgetOverrun string string real real

record notification =
  n_user_id :: nat
  n_message :: notice

record db =
  projects :: "project list"
  tasks :: "task list"
  budgets :: "budget list"
  expenses :: "expense list"
  notifications :: "notification list"

text \<open>
  Modelled from the spec: \<open>Task.is_overdue\<close> of the models module, which is not part of
  the sources: it holds iff the status is not completed and a due date exists and is
  strictly before the current time.
\<close>

definition is_overdue :: "datetime \<Rightarrow> task \<Rightarrow> bool" where
  "is_overdue now t =
     (status t \<noteq> completed \<and> (case due_date t of None \<Rightarrow> False | Some d \<Rightarrow> d < now))"

text \<open>
  Modelled from the spec: the properties \<open>Budget.utilization_percentage\<close> and
  \<open>Budget.remaining_amount\<close> of the models module, which is not part of the sources:
  utilization is spent / allocated * 100, guarded to 0 when nothing is allocated;
  remaining is allocated - spent.
\<close>

definition utilization_percentage :: "budget \<Rightarrow> real" where
  "utilization_percentage b =
     (if allocated_amount b > 0 then spent_amount b / allocated_amount b * 100 else 0)"

definition remaining_amount :: "budget \<Rightarrow> real" where
  "remaining_amount b = allocated_amount b - spent_amount b"

section \<open>Queries\<close>

text \<open>\<open>Project.query.get_or_404(project_id)\<close>\<close>

definition get_project_or_404 :: "db \<Rightarrow> nat \<Rightarrow> error + project" where
  "get_project_or_404 d pid =
     (case find (\<lambda>p. p_id p = pid) (projects d) of
        None \<Rightarrow> Inl NotFound
      | Some p \<Rightarrow> Inr p)"

text \<open>\<open>Expense.query.get_or_404(expense_id)\<close>\<close>

definition get_expense_or_404 :: "db \<Rightarrow> nat \<Rightarrow> error + expense" where
  "get_expense_or_404 d eid =
     (case find (\<lambda>e. e_id e = eid) (expenses d) of
        None \<Rightarrow> Inl NotFound
      | Some e \<Rightarrow> Inr e)"

text \<open>\<open>Budget.query.filter_by(project_id=project_id).first()\<close>\<close>

definition budget_first :: "db \<Rightarrow> nat \<Rightarrow> budget option" where
  "budget_first d pid = find (\<lambda>b. b_project_id b = pid) (budgets d)"

text \<open>\<open>Expense.query.filter_by(project_id=project_id).all()\<close>\<close>

definition expenses_of :: "db \<Rightarrow> nat \<Rightarrow> expense list" where
  "expenses_of d pid = filter (\<lambda>e. e_project_id e = pid) (expenses d)"

text \<open>\<open>Task.query.filter_by(project_id=project_id).all()\<close>\<close>

definition tasks_of :: "db \<Rightarrow> nat \<Rightarrow> task list" where
  "tasks_of d pid = filter (\<lambda>t. t_project_id t = pid) (tasks d)"

text \<open>\<open>any(member.id == user_id for member in project.members)\<close>\<close>

definition any_member :: "project \<Rightarrow> nat \<Rightarrow> bool" where
  "any_member p uid = list_ex (\<lambda>m. u_id m = uid) (members p)"

text \<open>
  The object a query returned is mutated in place: the first row that matches is the
  one that changes, or the one that is deleted.
\<close>

fun replace_first :: "('a \<Rightarrow> bool) \<Rightarrow> ('a \<Rightarrow> 'a) \<Rightarrow> 'a list \<Rightarrow> 'a list" where
  "replace_first P f [] = []"
| "replace_first P f (x # xs) = (if P x then f x # xs else x # replace_first P f xs)"

fun delete_first :: "('a \<Rightarrow> bool) \<Rightarrow> 'a list \<Rightarrow> 'a list" where
  "delete_first P [] = []"
| "delete_first P (x # xs) = (if P x then xs else x # delete_first P xs)"

text \<open>The primary key the database gives a new row.\<close>

definition next_id :: "nat list \<Rightarrow> nat" where
  "next_id ids = Suc (fold max ids 0)"

section \<open>Expenses and the budget's running total\<close>

text \<open>
  The \<open>data\<close> dictionary of a request, with its values already parsed. \<open>None\<close> is a
  key that is absent; \<open>task_id\<close> and \<open>category\<close> may be present with the value
  \<open>None\<close>. The amount is a number, an \<open>int\<close> or a finite float; the amounts stored in
  the budget and expense rows are floats.
\<close>

record expense_data =
  d_task_id :: "nat option option"
  d_amount :: "real option"
  d_description :: "string option"
  d_category :: "string option option"

text \<open>
  \<open>FinanceService._create_budget_overrun_notification\<close>: one notification for each
  member. The result is the list of notifications added to the session. Sending the
  e-mail is an external effect whose failure the source catches and logs.
\<close>

definition create_budget_overrun_notification ::
    "project \<Rightarrow> budget \<Rightarrow> nat \<Rightarrow> error + notification list" where
  "create_budget_overrun_notification project budget user_id =
     (let overrun_amount = float_sub (spent_amount budget) (allocated_amount budget)
      in case py_truediv overrun_amount (allocated_amount budget) of
           Inl e \<Rightarrow> Inl e
         | Inr q \<Rightarrow>
             (let overrun_percentage = float_mul q 100;
                  message = BudgetOverrun (name project) (currency budget)
                              overrun_amount overrun_percentage
              in Inr (map (\<lambda>member. \<lparr>n_user_id = u_id member, n_message = message\<rparr>)
                        (members project))))"

text \<open>
  \<open>FinanceService.add_expense\<close>. The session is committed by the last statement only:
  an exception before it leaves the stored state as it was, so the model returns the
  error alone. The new row gets the current time as \<open>incurred_at\<close>.
\<close>

definition add_expense ::
    "db \<Rightarrow> datetime \<Rightarrow> nat \<Rightarrow> nat \<Rightarrow> expense_data \<Rightarrow> error + (expense \<times> db)" where
  "add_expense d now user_id project_id data =
     (case get_project_or_404 d project_id of
        Inl e \<Rightarrow> Inl e
      | Inr project \<Rightarrow>
          if \<not> any_member project user_id
          then Inl (PermissionError ''User is not a member of this project'')
          else
            (case to_float (case d_amount data of None \<Rightarrow> 0 | Some a \<Rightarrow> a) of
               Inl e \<Rightarrow> Inl e
             | Inr amount_value \<Rightarrow>
                 (let expense =
                        \<lparr>e_id = next_id (map e_id (expenses d)),
                         e_project_id = project_id,
                         e_task_id = (case d_task_id data of None \<Rightarrow> None | Some v \<Rightarrow> v),
                         amount = amount_value,
                         description = (case d_description data of None \<Rightarrow> [] | Some s \<Rightarrow> s),
                         category =
                           (case d_category data of None \<Rightarrow> Some ''General'' | Some c \<Rightarrow> c),
                         created_by = user_id,
                         incurred_at = now\<rparr>;
                      d1 = d\<lparr>expenses := expenses d @ [expense]\<rparr>
                  in case budget_first d project_id of
                       None \<Rightarrow> Inr (expense, d1)
                     | Some budget0 \<Rightarrow>
                         (let budget = budget0\<lparr>spent_amount :=
                                                 float_add (spent_amount budget0) (amount expense)\<rparr>;
                              d2 = d1\<lparr>budgets :=
                                        replace_first (\<lambda>b. b_project_id b = project_id)
                                          (\<lambda>b. b\<lparr>spent_amount :=
                                                    float_add (spent_amount b) (amount expense)\<rparr>)
                                          (budgets d1)\<rparr>
                          in if spent_amount budget > allocated_amount budget
                             then (case create_budget_overrun_notification project budget user_id of
                                     Inl e \<Rightarrow> Inl e
                                   | Inr ns \<Rightarrow>
                                       Inr (expense, d2\<lparr>notifications := notifications d2 @ ns\<rparr>))
                             else Inr (expense, d2)))))"

text \<open>
  \<open>FinanceService.update_expense\<close>. \<open>expense.project\<close> is the project the row refers
  to; reading \<open>.members\<close> of a missing one is an AttributeError.
\<close>

definition update_expense ::
    "db \<Rightarrow> nat \<Rightarrow> nat \<Rightarrow> expense_data \<Rightarrow> error + (expense \<times> db)" where
  "update_expense d user_id expense_id data =
     (case get_expense_or_404 d expense_id of
        Inl e \<Rightarrow> Inl e
      | Inr expense0 \<Rightarrow>
          (case find (\<lambda>p. p_id p = e_project_id expense0) (projects d) of
             None \<Rightarrow> Inl AttributeError
           | Some project \<Rightarrow>
               if \<not> any_member project user_id
               then Inl (PermissionError ''User is not a member of this project'')
               else
                 (case (case d_amount data of
                          None \<Rightarrow> Inr (amount expense0)
                        | Some a \<Rightarrow> to_float a) of
                    Inl e \<Rightarrow> Inl e
                  | Inr amount_value \<Rightarrow>
                      (let old_amount = amount expense0;
                           expense = expense0
                             \<lparr>e_task_id :=
                                (case d_task_id data of None \<Rightarrow> e_task_id expense0 | Some v \<Rightarrow> v),
                              amount := amount_value,
                              description :=
                                (case d_description data of
                                   None \<Rightarrow> description expense0 | Some s \<Rightarrow> s),
                              category :=
                                (case d_category data of None \<Rightarrow> category expense0 | Some c \<Rightarrow> c)\<rparr>;
                           d1 = d\<lparr>expenses :=
                                     replace_first (\<lambda>e. e_id e = expense_id) (\<lambda>_. expense)
                                       (expenses d)\<rparr>
                       in case budget_first d (e_project_id expense) of
                            None \<Rightarrow> Inr (expense, d1)
                          | Some budget \<Rightarrow>
                              (let amount_difference = float_sub (amount expense) old_amount
                               in Inr (expense,
                                       d1\<lparr>budgets :=
                                            replace_first
                                              (\<lambda>b. b_project_id b = e_project_id expense)
                                              (\<lambda>b. b\<lparr>spent_amount :=
                                                        float_add (spent_amount b) amount_difference\<rparr>)
                                              (budgets d1)\<rparr>))))))"

text \<open>\<open>FinanceService.delete_expense\<close>\<close>

definition delete_expense :: "db \<Rightarrow> nat \<Rightarrow> nat \<Rightarrow> error + (bool \<times> db)" where
  "delete_expense d user_id expense_id =
     (case get_expense_or_404 d expense_id of
        Inl e \<Rightarrow> Inl e
      | Inr expense \<Rightarrow>
          (case find (\<lambda>p. p_id p = e_project_id expense) (projects d) of
             None \<Rightarrow> Inl AttributeError
           | Some project \<Rightarrow>
               if \<not> any_member project user_id
               then Inl (PermissionError ''User is not a member of this project'')
               else
                 (let d1 = (case budget_first d (e_project_id expense) of
                              None \<Rightarrow> d
                            | Some budget \<Rightarrow>
                                d\<lparr>budgets :=
                                    replace_first (\<lambda>b. b_project_id b = e_project_id expense)
                                      (\<lambda>b. b\<lparr>spent_amount :=
                                                float_sub (spent_amount b) (amount expense)\<rparr>)
                                      (budgets d)\<rparr>)
                  in Inr (True,
                          d1\<lparr>expenses := delete_first (\<lambda>e. e_id e = expense_id) (expenses d1)\<rparr>))))"



section \<open>Project health\<close>

record bottleneck =
  bn_id :: nat
  bn_title :: string
  subtask_count :: nat
  days_overdue :: int

text \<open>
  The mapping \<open>get_project_health\<close> returns. The keys \<open>completed_tasks\<close> and
  \<open>overdue_tasks\<close> are absent from the mapping returned for a project without tasks.
\<close>

record health_result =
  h_total_tasks :: nat
  h_completed_tasks :: "nat option"
  h_overdue_tasks :: "nat option"
  overdue_percentage :: real
  on_time_completion_rate :: real
  average_delay_days :: real
  health_score :: real
  h_status :: string
  bottleneck_tasks :: "bottleneck list"

text \<open>
  One round of the loop over the completed tasks, on the pair of the counters
  \<open>on_time_completed\<close> and \<open>total_delays\<close>.
\<close>

definition on_time_step :: "task \<Rightarrow> nat \<times> int \<Rightarrow> nat \<times> int" where
  "on_time_step task acc =
     (case acc of (on_time_completed, total_delays) \<Rightarrow>
        (case due_date task of
           None \<Rightarrow> acc
         | Some due \<Rightarrow>
             (case last_progress_update task of
                None \<Rightarrow> acc
              | Some completion_date \<Rightarrow>
                  if completion_date \<le> due
                  then (on_time_completed + 1, total_delays)
                  else (on_time_completed, total_delays + days (completion_date - due)))))"

definition on_time_rate :: "task list \<Rightarrow> real" where
  "on_time_rate ts =
     (let completed_tasks = filter (\<lambda>t. status t = completed) ts;
          on_time_completed = fst (fold on_time_step completed_tasks (0, 0))
      in if completed_tasks \<noteq> []
         then float_mul (int_truediv (int on_time_completed) (int (length completed_tasks))) 100
         else 100)"

definition avg_delay :: "task list \<Rightarrow> real" where
  "avg_delay ts =
     (let completed_tasks = filter (\<lambda>t. status t = completed) ts;
          acc = fold on_time_step completed_tasks (0, 0);
          on_time_completed = fst acc;
          total_delays = snd acc
      in if int (length completed_tasks) - int on_time_completed > 0
         then int_truediv total_delays (int (length completed_tasks) - int on_time_completed)
         else 0)"

definition bottlenecks :: "datetime \<Rightarrow> task list \<Rightarrow> bottleneck list" where
  "bottlenecks now ts =
     sort_key (\<lambda>b. - (int (subtask_count b) * days_overdue b))
       (map (\<lambda>task. \<lparr>bn_id = t_id task, bn_title = title task,
                      subtask_count = length (subtasks task),
                      days_overdue = (case due_date task of
                                        None \<Rightarrow> 0
                                      | Some due \<Rightarrow> days (now - due))\<rparr>)
          (filter (\<lambda>task. subtasks task \<noteq> [] \<and> is_overdue now task) ts))"

text \<open>
  The overdue percentage of a non-empty list of tasks and the health score, before they
  are rounded for output.
\<close>

definition overdue_pct :: "datetime \<Rightarrow> task list \<Rightarrow> real" where
  "overdue_pct now ts =
     float_mul (int_truediv (int (length (filter (is_overdue now) ts))) (int (length ts))) 100"

text \<open>
  \<open>100 - (overdue_percentage * 2) - ((100 - on_time_rate) * 0.5)\<close>, each operation in
  floating point.
\<close>

definition health_formula :: "real \<Rightarrow> real \<Rightarrow> real" where
  "health_formula overdue on_time =
     float_sub (float_sub 100 (float_mul overdue 2)) (float_mul (float_sub 100 on_time) 0.5)"

definition raw_health_score :: "datetime \<Rightarrow> task list \<Rightarrow> real" where
  "raw_health_score now ts =
     max 0 (health_formula (overdue_pct now ts) (on_time_rate ts))"

text \<open>The body of \<open>get_project_health\<close> after the permission check.\<close>

definition project_health :: "datetime \<Rightarrow> task list \<Rightarrow> health_result" where
  "project_health now ts =
     (if ts = [] then
        \<lparr>h_total_tasks = 0, h_completed_tasks = None, h_overdue_tasks = None,
         overdue_percentage = 0, on_time_completion_rate = 100, average_delay_days = 0,
         health_score = 100, h_status = ''healthy'', bottleneck_tasks = []\<rparr>
      else
        (let total_tasks = length ts;
             overdue_tasks = filter (is_overdue now) ts;
             completed_tasks = filter (\<lambda>t. status t = completed) ts;
             hs = raw_health_score now ts;
             st = (if hs \<ge> 80 then ''healthy'' else if hs \<ge> 60 then ''warning'' else ''critical'')
         in \<lparr>h_total_tasks = total_tasks,
             h_completed_tasks = Some (length completed_tasks),
             h_overdue_tasks = Some (length overdue_tasks),
             overdue_percentage = round_float 1 (overdue_pct now ts),
             on_time_completion_rate = round_float 1 (on_time_rate ts),
             average_delay_days = round_float 1 (avg_delay ts),
             health_score = round_float 1 hs,
             h_status = st,
             bottleneck_tasks = take 5 (bottlenecks now ts)\<rparr>))"

definition get_project_health :: "db \<Rightarrow> datetime \<Rightarrow> nat \<Rightarrow> nat \<Rightarrow> error + health_result" where
  "get_project_health d now project_id user_id =
     (case get_project_or_404 d project_id of
        Inl e \<Rightarrow> Inl e
      | Inr project \<Rightarrow>
          if \<not> any_member project user_id
          then Inl (PermissionError ''User is not a member of this project'')
          else Inr (project_health now (tasks_of d project_id)))"

section \<open>Recommendations\<close>

text \<open>
  An advisory string. The fixed texts are kept (without their leading pictograph); a text
  that interpolates values is a constructor carrying the values.
\<close>

datatype advice =
    Advice string
  | ExceedBudgetBy real
  | MonitorSpending string real
  | UnderBudget string
  | PotentialSavings real
  | LargestCategory string

section \<open>Risk assessment\<close>

text \<open>The message of a risk factor, as the values it interpolates.\<close>

datatype risk_message =
    DeadlinePassed int
  | DeadlineNear int nat
  | TasksOverdue nat real
  | BudgetExceeded real
  | BudgetApproaching real
  | BudgetMonitor real
  | HighTaskLoad real
  | LowCompletionRate real

record risk_factor =
  rf_type :: string
  severity :: string
  rf_message :: risk_message
  impact :: int

text \<open>
  The four analyses of \<open>get_risk_assessment\<close> run one after the other on the pair of
  \<open>risk_factors\<close> and \<open>risk_score\<close>; each is a function on that pair.
\<close>

type_synonym risk_state = "risk_factor list \<times> int"

definition deadline_risk :: "datetime \<Rightarrow> project \<Rightarrow> task list \<Rightarrow> risk_state \<Rightarrow> risk_state" where
  "deadline_risk now project ts st =
     (case st of (risk_factors, risk_score) \<Rightarrow>
        (case deadline project of
           None \<Rightarrow> st
         | Some project_deadline \<Rightarrow>
             (let days_to_deadline = days (project_deadline - now);
                  incomplete_tasks = filter (\<lambda>t. status t \<noteq> completed) ts;
                  overdue_tasks = filter (is_overdue now) ts
              in if days_to_deadline \<le> 0 then
                   (risk_factors @
                      [\<lparr>rf_type = ''deadline'', severity = ''critical'',
                        rf_message = DeadlinePassed \<bar>days_to_deadline\<bar>, impact = 90\<rparr>],
                    risk_score + 40)
                 else if days_to_deadline \<le> 7 \<and> incomplete_tasks \<noteq> [] then
                   (risk_factors @
                      [\<lparr>rf_type = ''deadline'', severity = ''high'',
                        rf_message = DeadlineNear days_to_deadline (length incomplete_tasks),
                        impact = 70\<rparr>],
                    risk_score + 30)
                 else if real (length overdue_tasks) > real (length ts) * 0.3 then
                   (risk_factors @
                      [\<lparr>rf_type = ''task_overdue'', severity = ''medium'',
                        rf_message = TasksOverdue (length overdue_tasks)
                                       (real (length overdue_tasks) / real (length ts) * 100),
                        impact = 50\<rparr>],
                    risk_score + 20)
                 else st)))"

definition budget_risk :: "budget option \<Rightarrow> risk_state \<Rightarrow> risk_state" where
  "budget_risk budget st =
     (case st of (risk_factors, risk_score) \<Rightarrow>
        (case budget of
           None \<Rightarrow> st
         | Some b \<Rightarrow>
             (let utilization = utilization_percentage b
              in if utilization > 100 then
                   (risk_factors @
                      [\<lparr>rf_type = ''budget'', severity = ''critical'',
                        rf_message = BudgetExceeded (utilization - 100), impact = 80\<rparr>],
                    risk_score + 35)
                 else if utilization > 90 then
                   (risk_factors @
                      [\<lparr>rf_type = ''budget'', severity = ''high'',
                        rf_message = BudgetApproaching utilization, impact = 60\<rparr>],
                    risk_score + 25)
                 else if utilization > 75 then
                   (risk_factors @
                      [\<lparr>rf_type = ''budget'', severity = ''medium'',
                        rf_message = BudgetMonitor utilization, impact = 40\<rparr>],
                    risk_score + 15)
                 else st)))"

definition workload_risk :: "project \<Rightarrow> task list \<Rightarrow> risk_state \<Rightarrow> risk_state" where
  "workload_risk project ts st =
     (case st of (risk_factors, risk_score) \<Rightarrow>
        (let team_size = length (members project) + 1;
             tasks_per_member = (if team_size > 0 then real (length ts) / real team_size
                                 else real (length ts))
         in if tasks_per_member > 10 then
              (risk_factors @
                 [\<lparr>rf_type = ''workload'', severity = ''medium'',
                   rf_message = HighTaskLoad tasks_per_member, impact = 45\<rparr>],
               risk_score + 15)
            else st))"

definition velocity_risk :: "task list \<Rightarrow> risk_state \<Rightarrow> risk_state" where
  "velocity_risk ts st =
     (case st of (risk_factors, risk_score) \<Rightarrow>
        (let completion_rate =
               (if ts \<noteq> []
                then real (length (filter (\<lambda>t. status t = completed) ts)) / real (length ts) * 100
                else 0)
         in if completion_rate < 30 then
              (risk_factors @
                 [\<lparr>rf_type = ''velocity'', severity = ''high'',
                   rf_message = LowCompletionRate completion_rate, impact = 65\<rparr>],
               risk_score + 25)
            else st))"

text \<open>\<open>AnalyticsService._generate_risk_recommendations\<close>: the advice one factor adds.\<close>

definition risk_advice :: "risk_factor \<Rightarrow> advice list" where
  "risk_advice risk =
     (if rf_type risk = ''deadline'' \<and> (severity risk = ''critical'' \<or> severity risk = ''high'') then
        [Advice ''Prioritize critical tasks and consider deadline extension'',
         Advice ''Consider adding team members or redistributing tasks'']
      else if rf_type risk = ''budget'' \<and> (severity risk = ''critical'' \<or> severity risk = ''high'') then
        [Advice ''Review and optimize expenses immediately'',
         Advice ''Implement stricter budget monitoring and approval processes'']
      else if rf_type risk = ''workload'' then
        [Advice ''Redistribute tasks more evenly across team members'',
         Advice ''Consider using task automation or outsourcing'']
      else if rf_type risk = ''velocity'' then
        [Advice ''Focus on completing existing tasks before starting new ones'',
         Advice ''Analyze blockers and remove impediments'']
      else [])"

text \<open>
  The result is \<open>list(set(recommendations))\<close>: the duplicates are gone and Python fixes
  no order; the model keeps the order of the last occurrences.
\<close>

definition generate_risk_recommendations ::
    "risk_factor list \<Rightarrow> project \<Rightarrow> task list \<Rightarrow> advice list" where
  "generate_risk_recommendations risk_factors project ts =
     (let recommendations = concat (map risk_advice risk_factors);
          recommendations =
            (if recommendations = []
             then [Advice ''Project is on track - maintain current practices'']
             else recommendations)
      in remdups recommendations)"

record risk_result =
  overall_risk_score :: int
  risk_level :: string
  risk_factors :: "risk_factor list"
  r_recommendations :: "advice list"

text \<open>
  The body of \<open>get_risk_assessment\<close> after the permission check and the queries:
  the four analyses in the order of the source, starting from no factor and score 0, then
  the cap, the level and the ranking.
\<close>

definition run_risk :: "datetime \<Rightarrow> project \<Rightarrow> task list \<Rightarrow> budget option \<Rightarrow> risk_state" where
  "run_risk now project ts budget =
     velocity_risk ts
       (workload_risk project ts
          (budget_risk budget
             (deadline_risk now project ts ([], 0))))"

definition risk_assessment ::
    "datetime \<Rightarrow> project \<Rightarrow> task list \<Rightarrow> budget option \<Rightarrow> risk_result" where
  "risk_assessment now project ts budget =
     (let st = run_risk now project ts budget;
          risk_factors = fst st;
          risk_score = min (snd st) 100;
          risk_level = (if risk_score < 30 then ''low''
                        else if risk_score < 60 then ''medium''
                        else if risk_score < 80 then ''high''
                        else ''critical'')
      in \<lparr>overall_risk_score = risk_score,
          risk_level = risk_level,
          risk_factors = sort_key (\<lambda>x. - impact x) risk_factors,
          r_recommendations = generate_risk_recommendations risk_factors project ts\<rparr>)"

definition get_risk_assessment :: "db \<Rightarrow> datetime \<Rightarrow> nat \<Rightarrow> nat \<Rightarrow> error + risk_result" where
  "get_risk_assessment d now project_id user_id =
     (case get_project_or_404 d project_id of
        Inl e \<Rightarrow> Inl e
      | Inr project \<Rightarrow>
          (let is_member = (any_member project user_id \<or> owner_id project = user_id)
           in if \<not> is_member
              then Inl (PermissionError ''User is not a member of this project'')
              else Inr (risk_assessment now project (tasks_of d project_id)
                          (budget_first d project_id))))"

text \<open>
  The points the source adds to the score when it appends a factor, as a table on the
  type and the severity of the factor.
\<close>

definition points :: "string \<times> string \<Rightarrow> int" where
  "points k =
     (if k = (''deadline'', ''critical'') then 40
      else if k = (''deadline'', ''high'') then 30
      else if k = (''task_overdue'', ''medium'') then 20
      else if k = (''budget'', ''critical'') then 35
      else if k = (''budget'', ''high'') then 25
      else if k = (''budget'', ''medium'') then 15
      else if k = (''workload'', ''medium'') then 15
      else if k = (''velocity'', ''high'') then 25
      else 0)"

definition kind :: "risk_factor \<Rightarrow> string \<times> string" where
  "kind f = (rf_type f, severity f)"

text \<open>
  \<open>AnalyticsService._generate_performance_recommendations\<close>
\<close>

definition generate_performance_recommendations :: "string \<Rightarrow> real \<Rightarrow> string \<Rightarrow> advice list" where
  "generate_performance_recommendations trend predicted_rate confidence =
     (if trend = ''declining'' then
        [Advice ''Review current task prioritization and focus areas'',
         Advice ''Identify and address potential blockers or distractions'']
      else if trend = ''improving'' then
        [Advice ''Great progress! Document successful practices for consistency'']
      else [])
     @
     (if predicted_rate < 50 then
        [Advice ''Consider reducing task complexity or breaking down larger tasks'',
         Advice ''Implement time-blocking techniques for better focus'']
      else if predicted_rate > 80 then
        [Advice ''Excellent productivity! Consider taking on additional responsibilities'']
      else [])
     @
     (if confidence = ''low'' then
        [Advice ''Build more consistent work patterns for better predictability'']
      else [])"

text \<open>
  The family of a kind of factor: 1 for the deadline analysis (which includes the overdue
  ratio), 2 for the budget, 3 for the workload, 4 for the velocity.
\<close>

definition family :: "string \<times> string \<Rightarrow> nat" where
  "family k =
     (if fst k = ''deadline'' \<or> fst k = ''task_overdue'' then 1
      else if fst k = ''budget'' then 2
      else if fst k = ''workload'' then 3
      else if fst k = ''velocity'' then 4
      else 0)"

text \<open>The score is the sum of the points of the factors collected so far.\<close>

definition score_inv :: "risk_state \<Rightarrow> bool" where
  "score_inv st = (snd st = sum_list (map (points \<circ> kind) (fst st)))"

section \<open>The health figures as the specification words them\<close>

text \<open>A task with both a due date and a completion timestamp, the latter not after the former.\<close>

definition completed_on_time :: "task \<Rightarrow> bool" where
  "completed_on_time t =
     (case due_date t of
        None \<Rightarrow> False
      | Some due \<Rightarrow>
          (case last_progress_update t of
             None \<Rightarrow> False
           | Some completion_date \<Rightarrow> completion_date \<le> due))"

definition has_both_dates :: "task \<Rightarrow> bool" where
  "has_both_dates t = (due_date t \<noteq> None \<and> last_progress_update t \<noteq> None)"

text \<open>
  The on-time rate in the words of the specification: among the completed tasks that
  have both dates, the percentage completed on time.
\<close>

definition claimed_on_time_rate :: "task list \<Rightarrow> real" where
  "claimed_on_time_rate ts =
     (let dated = filter (\<lambda>t. status t = completed \<and> has_both_dates t) ts
      in real (length (filter completed_on_time dated)) / real (length dated) * 100)"

definition clamp :: "real \<Rightarrow> real \<Rightarrow> real \<Rightarrow> real" where
  "clamp lo hi x = max lo (min hi x)"

section \<open>Time buckets\<close>

text \<open>
  The test the three bucketing loops of the source apply to a timestamp, for the bucket
  with the given start and end: \<open>start <= t <= end\<close>.
\<close>

definition counted :: "datetime \<times> datetime \<Rightarrow> datetime \<Rightarrow> bool" where
  "counted b t = (fst b \<le> t \<and> t \<le> snd b)"

text \<open>The half-open interval of the specification.\<close>

definition half_open :: "datetime \<times> datetime \<Rightarrow> datetime \<Rightarrow> bool" where
  "half_open b t = (fst b \<le> t \<and> t < snd b)"

subsection \<open>Weekly completed tasks\<close>

text \<open>
  The weekly loop of \<open>get_productivity_metrics\<close> reads the clock twice in each round:
  \<open>clock k\<close> is the \<open>k\<close>-th reading the loop makes. Round \<open>i\<close> takes its start from
  reading \<open>2 i\<close> and its end from reading \<open>2 i + 1\<close>.
\<close>

definition week_bucket :: "(nat \<Rightarrow> datetime) \<Rightarrow> nat \<Rightarrow> datetime \<times> datetime" where
  "week_bucket clock i =
     (let week_start = clock (2 * i) - timedelta_weeks (int i + 1);
          week_end = clock (2 * i + 1) - timedelta_weeks (int i)
      in (week_start, week_end))"

definition week_completed :: "datetime \<times> datetime \<Rightarrow> task list \<Rightarrow> nat" where
  "week_completed b ts =
     length (filter (\<lambda>t. status t = completed \<and>
                         (case last_progress_update t of
                            None \<Rightarrow> False
                          | Some u \<Rightarrow> counted b u)) ts)"

text \<open>\<open>t.strftime('%Y-%m-%d')\<close>, as the triple of year, month and day.\<close>

definition date_key :: "datetime \<Rightarrow> int \<times> int \<times> int" where
  "date_key t = civil_from_days (t div usec_per_day)"

definition week_data :: "(nat \<Rightarrow> datetime) \<Rightarrow> task list \<Rightarrow> ((int \<times> int \<times> int) \<times> nat) list" where
  "week_data clock ts =
     rev (map (\<lambda>i. (date_key (fst (week_bucket clock i)), week_completed (week_bucket clock i) ts))
            [0..<12])"

record productivity_result =
  pm_total_tasks :: nat
  pm_completed_tasks :: nat
  in_progress_tasks :: nat
  pending_tasks :: nat
  pm_overdue_tasks :: nat
  completion_rate :: real
  avg_completion_time_days :: real
  tasks_completed_per_week :: "((int \<times> int \<times> int) \<times> nat) list"

text \<open>
  \<open>AnalyticsService.get_productivity_metrics\<close>. It checks no membership: the tasks are
  those the user owns. \<open>now\<close> stands for the readings of the clock before the weekly
  loop. A project id of \<open>None\<close> or 0 does not filter.
\<close>

definition get_productivity_metrics ::
    "db \<Rightarrow> datetime \<Rightarrow> (nat \<Rightarrow> datetime) \<Rightarrow> nat \<Rightarrow> nat option \<Rightarrow> productivity_result" where
  "get_productivity_metrics d now clock user_id project_id =
     (let owned = filter (\<lambda>t. t_owner_id t = user_id) (tasks d);
          ts = (case project_id of
                  None \<Rightarrow> owned
                | Some pid \<Rightarrow> if pid = 0 then owned else filter (\<lambda>t. t_project_id t = pid) owned);
          total_tasks = length ts;
          completed_tasks = length (filter (\<lambda>t. status t = completed) ts);
          completion_rate = (if total_tasks > 0
                             then real completed_tasks / real total_tasks * 100 else 0);
          completed_task_times =
            concat (map (\<lambda>t. case created_at t of
                                 None \<Rightarrow> []
                               | Some c \<Rightarrow> if status t = completed then [days (now - c)] else []) ts);
          avg_completion_time =
            (if completed_task_times \<noteq> []
             then real_of_int (sum_list completed_task_times) / real (length completed_task_times)
             else 0)
      in \<lparr>pm_total_tasks = total_tasks,
          pm_completed_tasks = completed_tasks,
          in_progress_tasks = length (filter (\<lambda>t. status t = in_progress) ts),
          pending_tasks = length (filter (\<lambda>t. status t = pending) ts),
          pm_overdue_tasks = length (filter (is_overdue now) ts),
          completion_rate = py_round 1 completion_rate,
          avg_completion_time_days = py_round 1 avg_completion_time,
          tasks_completed_per_week = week_data clock ts\<rparr>)"

subsection \<open>Monthly expenses\<close>

text \<open>
  A thirty-day bucket that starts \<open>i\<close> times thirty days before the first day of the
  month of \<open>now\<close>, at the time of day of \<open>now\<close>.
\<close>

definition month_bucket :: "datetime \<Rightarrow> nat \<Rightarrow> datetime \<times> datetime" where
  "month_bucket now i =
     (let month_start = replace_day1 now - timedelta_days (int i * 30);
          month_end = month_start + timedelta_days 30
      in (month_start, month_end))"

definition month_total :: "datetime \<times> datetime \<Rightarrow> expense list \<Rightarrow> real" where
  "month_total b es = sum_list (map amount (filter (\<lambda>e. counted b (incurred_at e)) es))"

text \<open>
  The monthly loop of \<open>get_resource_utilization\<close> reads the clock once in each round:
  \<open>clock i\<close> is the reading of round \<open>i\<close>.
\<close>

definition monthly_expenses_trend ::
    "(nat \<Rightarrow> datetime) \<Rightarrow> expense list \<Rightarrow> ((int \<times> int) \<times> real) list" where
  "monthly_expenses_trend clock es =
     rev (map (\<lambda>i. (month_key (fst (month_bucket (clock i) i)),
                     month_total (month_bucket (clock i) i) es))
            [0..<12])"

text \<open>A dictionary that keeps the order in which its keys were first written.\<close>

fun add_to :: "'k \<Rightarrow> real \<Rightarrow> ('k \<times> real) list \<Rightarrow> ('k \<times> real) list" where
  "add_to k v [] = [(k, v)]"
| "add_to k v ((k', v') # kvs) =
     (if k' = k then (k', v' + v) # kvs else (k', v') # add_to k v kvs)"

text \<open>\<open>expense.category or default\<close>: \<open>None\<close> and the empty string give the default.\<close>

definition category_or :: "string \<Rightarrow> expense \<Rightarrow> string" where
  "category_or dflt e =
     (case category e of None \<Rightarrow> dflt | Some c \<Rightarrow> if c = [] then dflt else c)"

record budget_data =
  bd_allocated_amount :: real
  bd_spent_amount :: real
  bd_remaining_amount :: real
  bd_utilization_percentage :: real
  bd_is_over_budget :: bool

record resource_result =
  ru_budget :: "budget_data option"
  ru_total_expenses :: real
  ru_expenses_by_category :: "(string \<times> real) list"
  ru_monthly_expenses :: "((int \<times> int) \<times> real) list"
  cost_per_completed_task :: real
  ru_expenses_count :: nat

text \<open>\<open>AnalyticsService.get_resource_utilization\<close>\<close>

definition get_resource_utilization ::
    "db \<Rightarrow> (nat \<Rightarrow> datetime) \<Rightarrow> nat \<Rightarrow> nat \<Rightarrow> error + resource_result" where
  "get_resource_utilization d clock project_id user_id =
     (case get_project_or_404 d project_id of
        Inl e \<Rightarrow> Inl e
      | Inr project \<Rightarrow>
          if \<not> any_member project user_id
          then Inl (PermissionError ''User is not a member of this project'')
          else
            (let es = expenses_of d project_id;
                 ts = tasks_of d project_id;
                 budget_data =
                   (case budget_first d project_id of
                      None \<Rightarrow> None
                    | Some b \<Rightarrow>
                        Some \<lparr>bd_allocated_amount = allocated_amount b,
                              bd_spent_amount = spent_amount b,
                              bd_remaining_amount = remaining_amount b,
                              bd_utilization_percentage = utilization_percentage b,
                              bd_is_over_budget = (spent_amount b > allocated_amount b)\<rparr>);
                 expenses_by_category =
                   fold (\<lambda>e. add_to (category_or ''Uncategorized'' e) (amount e)) es [];
                 completed_tasks = filter (\<lambda>t. status t = completed) ts;
                 total_expenses = sum_list (map amount es);
                 cost_per_task = (if completed_tasks \<noteq> []
                                  then total_expenses / real (length completed_tasks) else 0)
             in Inr \<lparr>ru_budget = budget_data,
                     ru_total_expenses = total_expenses,
                     ru_expenses_by_category = expenses_by_category,
                     ru_monthly_expenses = monthly_expenses_trend clock es,
                     cost_per_completed_task = py_round 2 cost_per_task,
                     ru_expenses_count = length es\<rparr>))"

section \<open>Statistics\<close>

text \<open>\<open>np.mean\<close>, \<open>np.var\<close> and \<open>np.std\<close> of a non-empty list.\<close>

definition mean :: "real list \<Rightarrow> real" where
  "mean xs = sum_list xs / real (length xs)"

definition var :: "real list \<Rightarrow> real" where
  "var xs = mean (map (\<lambda>x. (x - mean xs)\<^sup>2) xs)"

definition std :: "real list \<Rightarrow> real" where
  "std xs = sqrt (var xs)"

text \<open>
  The coefficient of variation as the source computes it, 0 when the mean is not
  positive, and the two tests the source makes with a standard deviation: that the
  coefficient is below a bound, and that a value is more than two standard deviations
  above the mean.
\<close>

definition cv :: "real list \<Rightarrow> real" where
  "cv xs = (if mean xs > 0 then sqrt (var xs) / mean xs else 0)"

definition cv_less :: "real list \<Rightarrow> real \<Rightarrow> bool" where
  "cv_less xs c = (cv xs < c)"

definition exceeds_two_std :: "real list \<Rightarrow> real \<Rightarrow> bool" where
  "exceeds_two_std xs a = (a > mean xs + 2 * std xs)"

text \<open>
  The least-squares slope both forecasts compute, with the positions 0, 1, ... as x:
  0 when the denominator is 0.
\<close>

definition trend_slope_of :: "real list \<Rightarrow> real" where
  "trend_slope_of y =
     (let x = map real [0..<length y];
          n = real (length x);
          sum_x = sum_list x;
          sum_y = sum_list y;
          sum_xy = sum_list (map (\<lambda>(xi, yi). xi * yi) (zip x y));
          sum_x2 = sum_list (map (\<lambda>xi. xi * xi) x)
      in if n * sum_x2 - sum_x * sum_x \<noteq> 0
         then (n * sum_xy - sum_x * sum_y) / (n * sum_x2 - sum_x * sum_x)
         else 0)"

section \<open>Budget variance analysis\<close>

record category_entry =
  ca_planned :: real
  ca_actual :: real
  ca_variance :: real
  ca_variance_percentage :: real
  ca_expense_count :: nat

record month_variance =
  mv_month :: "int \<times> int"
  mv_planned :: real
  mv_actual :: real
  mv_variance :: real
  mv_variance_percentage :: real

record cost_driver =
  cd_category :: string
  cd_variance :: real
  cd_variance_percentage :: real
  cd_impact :: string

text \<open>
  The \<open>message\<close> of a payload: a fixed text, or the text of the exception that the
  handler caught.
\<close>

datatype message = Message string | ErrorMessage string error

record variance_result =
  has_budget :: bool
  vr_message :: "message option"
  vr_budget_amount :: real
  vr_total_spent :: real
  vr_total_variance :: real
  vr_variance_percentage :: real
  vr_category_analysis :: "(string \<times> category_entry) list"
  vr_monthly_variance :: "month_variance list"
  vr_cost_drivers :: "cost_driver list"
  vr_status :: string
  vr_recommendations :: "advice list"

text \<open>\<open>FinanceService._get_variance_status\<close>\<close>

definition get_variance_status :: "real \<Rightarrow> string" where
  "get_variance_status variance_percentage =
     (if \<bar>variance_percentage\<bar> \<le> 5 then ''on_track''
      else if \<bar>variance_percentage\<bar> \<le> 15 then ''minor_variance''
      else if \<bar>variance_percentage\<bar> \<le> 30 then ''significant_variance''
      else ''critical_variance'')"

text \<open>\<open>FinanceService._generate_variance_recommendations\<close>\<close>

definition generate_variance_recommendations ::
    "(string \<times> category_entry) list \<Rightarrow> cost_driver list \<Rightarrow> real \<Rightarrow> advice list" where
  "generate_variance_recommendations category_analysis cost_drivers variance_percentage =
     (let recommendations =
            (if \<bar>variance_percentage\<bar> > 20
             then [Advice ''Significant budget variance detected - immediate review required'']
             else [])
            @ map (\<lambda>driver. if cd_variance driver > 0
                             then MonitorSpending (cd_category driver)
                                    \<bar>cd_variance_percentage driver\<bar>
                             else UnderBudget (cd_category driver))
                (take 3 cost_drivers)
            @ (if variance_percentage > 10
               then [Advice ''Implement weekly budget reviews and approval processes'',
                     Advice ''Analyze each expense against project value and necessity'']
               else [])
      in if recommendations = []
         then [Advice ''Budget variance within acceptable range - maintain current controls'']
         else recommendations)"

text \<open>
  The analysis by category. The source iterates a set of category names, whose order
  Python does not fix; the model takes the names in the order of their first expense.
\<close>

definition analyse_categories :: "budget \<Rightarrow> expense list \<Rightarrow> (string \<times> category_entry) list" where
  "analyse_categories budget es =
     (let unique_categories0 = remdups (rev (map (category_or ''General'') es));
          unique_categories = (if unique_categories0 = [] then [''General'']
                               else rev unique_categories0);
          planned_per_category =
            (if length unique_categories > 0
             then allocated_amount budget / real (length unique_categories) else 0)
      in map (\<lambda>category.
                (let category_expenses = filter (\<lambda>e. category_or ''General'' e = category) es;
                     actual_amount = sum_list (map amount category_expenses);
                     variance = actual_amount - planned_per_category;
                     variance_percentage =
                       (if planned_per_category > 0
                        then (actual_amount - planned_per_category) / planned_per_category * 100
                        else 0)
                 in (category,
                     \<lparr>ca_planned = py_round 2 planned_per_category,
                      ca_actual = py_round 2 actual_amount,
                      ca_variance = py_round 2 variance,
                      ca_variance_percentage = py_round 1 variance_percentage,
                      ca_expense_count = length category_expenses\<rparr>)))
           unique_categories)"

text \<open>
  The analysis by month: six thirty-day buckets back from the first day of the current
  month, which is computed once, before the loop.
\<close>

definition variance_month :: "budget \<Rightarrow> expense list \<Rightarrow> datetime \<Rightarrow> nat \<Rightarrow> month_variance" where
  "variance_month budget es now i =
     (let b = month_bucket now i;
          month_actual = month_total b es;
          month_planned = (if allocated_amount budget > 0 then allocated_amount budget / 12 else 0);
          variance = month_actual - month_planned;
          variance_percentage =
            (if month_planned > 0 then (month_actual - month_planned) / month_planned * 100 else 0)
      in \<lparr>mv_month = month_key (fst b),
          mv_planned = py_round 2 month_planned,
          mv_actual = py_round 2 month_actual,
          mv_variance = py_round 2 variance,
          mv_variance_percentage = py_round 1 variance_percentage\<rparr>)"

definition monthly_variance_of :: "budget \<Rightarrow> expense list \<Rightarrow> datetime \<Rightarrow> month_variance list" where
  "monthly_variance_of budget es now = rev (map (variance_month budget es now) [0..<6])"

definition cost_drivers_of :: "(string \<times> category_entry) list \<Rightarrow> cost_driver list" where
  "cost_drivers_of category_analysis =
     sort_key (\<lambda>x. - \<bar>cd_variance x\<bar>)
       (map (\<lambda>(category, data).
               \<lparr>cd_category = category,
                cd_variance = ca_variance data,
                cd_variance_percentage = ca_variance_percentage data,
                cd_impact = (if \<bar>ca_variance_percentage data\<bar> > 50 then ''high'' else ''medium'')\<rparr>)
          (filter (\<lambda>(category, data). \<bar>ca_variance_percentage data\<bar> > 20) category_analysis))"

definition no_budget_response :: variance_result where
  "no_budget_response =
     \<lparr>has_budget = False,
      vr_message = Some (Message ''No budget defined for this project''),
      vr_budget_amount = 0, vr_total_spent = 0, vr_total_variance = 0, vr_variance_percentage = 0,
      vr_category_analysis = [], vr_monthly_variance = [], vr_cost_drivers = [],
      vr_status = ''no_budget'',
      vr_recommendations =
        [Advice ''Create a budget for this project to enable variance analysis'']\<rparr>"

text \<open>The safe default response of the exception handler.\<close>

definition variance_error_response :: "error \<Rightarrow> variance_result" where
  "variance_error_response e =
     \<lparr>has_budget = False,
      vr_message = Some (ErrorMessage ''Error analyzing budget variance: '' e),
      vr_budget_amount = 0, vr_total_spent = 0, vr_total_variance = 0, vr_variance_percentage = 0,
      vr_category_analysis = [], vr_monthly_variance = [], vr_cost_drivers = [],
      vr_status = ''error'',
      vr_recommendations =
        [Advice ''Please try again or contact support if the issue persists'']\<rparr>"

text \<open>The \<open>try\<close> block of \<open>get_budget_variance_analysis\<close>.\<close>

definition budget_variance_analysis_try ::
    "db \<Rightarrow> datetime \<Rightarrow> nat \<Rightarrow> nat \<Rightarrow> error + variance_result" where
  "budget_variance_analysis_try d now user_id project_id =
     (case get_project_or_404 d project_id of
        Inl e \<Rightarrow> Inl e
      | Inr project \<Rightarrow>
          (let is_member = (any_member project user_id \<or> owner_id project = user_id)
           in if \<not> is_member
              then Inl (PermissionError ''User is not a member of this project'')
              else
                (case budget_first d project_id of
                   None \<Rightarrow> Inr no_budget_response
                 | Some budget \<Rightarrow>
                     (let es = expenses_of d project_id;
                          category_analysis = analyse_categories budget es;
                          monthly_variance = monthly_variance_of budget es now;
                          total_spent = sum_list (map amount es);
                          total_variance = total_spent - allocated_amount budget;
                          variance_percentage =
                            (if allocated_amount budget > 0
                             then total_variance / allocated_amount budget * 100 else 0);
                          cost_drivers = cost_drivers_of category_analysis
                      in Inr \<lparr>has_budget = True,
                              vr_message = None,
                              vr_budget_amount = py_round 2 (allocated_amount budget),
                              vr_total_spent = py_round 2 total_spent,
                              vr_total_variance = py_round 2 total_variance,
                              vr_variance_percentage = py_round 1 variance_percentage,
                              vr_category_analysis = category_analysis,
                              vr_monthly_variance = monthly_variance,
                              vr_cost_drivers = cost_drivers,
                              vr_status = get_variance_status variance_percentage,
                              vr_recommendations =
                                generate_variance_recommendations category_analysis
                                  cost_drivers variance_percentage\<rparr>))))"

text \<open>
  \<open>FinanceService.get_budget_variance_analysis\<close>: the block above inside
  \<open>try ... except Exception\<close>, whose handler logs the exception and returns the default
  response. The function has no path that raises.
\<close>

definition get_budget_variance_analysis ::
    "db \<Rightarrow> datetime \<Rightarrow> nat \<Rightarrow> nat \<Rightarrow> error + variance_result" where
  "get_budget_variance_analysis d now user_id project_id =
     (case budget_variance_analysis_try d now user_id project_id of
        Inl e \<Rightarrow> Inr (variance_error_response e)
      | Inr r \<Rightarrow> Inr r)"

section \<open>Expense forecasting\<close>

record forecast_point =
  fp_month :: "int \<times> int"
  fp_predicted_amount :: real
  fp_confidence :: string

record historical =
  months_analyzed :: nat
  average_monthly_spending :: real
  trend_direction :: string
  trend_rate :: real

record impact =
  remaining_budget :: real
  forecast_vs_remaining :: real
  will_exceed_budget :: bool
  projected_total_spending :: real
  projected_budget_utilization :: real

record category_forecast =
  monthly_average :: real
  forecast_total :: real

text \<open>
  The mapping \<open>get_expense_forecasting\<close> returns. The key \<open>data_points\<close> is absent
  from the mapping of a forecast; \<open>historical_data\<close> and \<open>budget_impact\<close> are empty
  mappings where they are \<open>None\<close> here.
\<close>

record forecast_result =
  forecast_available :: bool
  fr_message :: "message option"
  data_points :: "nat option"
  forecast_period_months :: int
  fr_historical_data :: "historical option"
  fr_forecast_data :: "forecast_point list"
  fr_total_forecast :: real
  fr_budget_impact :: "impact option"
  fr_category_forecasts :: "(string \<times> category_forecast) list"
  fr_recommendations :: "advice list"

text \<open>\<open>FinanceService._calculate_forecast_confidence\<close>\<close>

definition calculate_forecast_confidence :: "real list \<Rightarrow> real \<Rightarrow> string" where
  "calculate_forecast_confidence historical_amounts trend_slope =
     (if length historical_amounts < 3 then ''low''
      else
        (let mean_amount = mean historical_amounts
         in if cv_less historical_amounts 0.2 \<and> \<bar>trend_slope\<bar> < mean_amount * 0.1
            then ''high''
            else if cv_less historical_amounts 0.5 then ''medium''
            else ''low''))"

text \<open>
  \<open>FinanceService._generate_forecast_recommendations\<close>. The mean of the confidences of
  an empty forecast is not a number, which is below nothing.
\<close>

definition generate_forecast_recommendations ::
    "forecast_point list \<Rightarrow> impact option \<Rightarrow> real \<Rightarrow> advice list" where
  "generate_forecast_recommendations forecast_data budget_impact trend_slope =
     (case budget_impact of
        None \<Rightarrow> []
      | Some bi \<Rightarrow>
          if will_exceed_budget bi
          then [ExceedBudgetBy (forecast_vs_remaining bi),
                Advice ''Consider reducing discretionary expenses or increasing budget'']
          else [])
     @
     (if trend_slope > 100 then
        [Advice ''Expenses trending upward - review spending drivers'',
         Advice ''Implement stricter expense approval thresholds'']
      else if trend_slope < - 50 then
        [Advice ''Expenses trending downward - good cost control'']
      else [])
     @
     (if forecast_data \<noteq> [] \<and>
         mean (map (\<lambda>f. if fp_confidence f = ''high'' then 1
                         else if fp_confidence f = ''medium'' then 0.6 else 0.3) forecast_data)
           < 0.5
      then [Advice ''Forecast confidence is low - establish more consistent spending patterns'']
      else [])"

definition insufficient_data_response :: "nat \<Rightarrow> int \<Rightarrow> forecast_result" where
  "insufficient_data_response n forecast_months =
     \<lparr>forecast_available = False,
      fr_message = Some (Message
        ''Insufficient historical data for forecasting (minimum 3 expenses required)''),
      data_points = Some n,
      forecast_period_months = forecast_months,
      fr_historical_data = None, fr_forecast_data = [], fr_total_forecast = 0,
      fr_budget_impact = None, fr_category_forecasts = [],
      fr_recommendations = [Advice ''Add more expenses to enable forecasting'']\<rparr>"

definition forecast_error_response :: "error \<Rightarrow> int \<Rightarrow> forecast_result" where
  "forecast_error_response e forecast_months =
     \<lparr>forecast_available = False,
      fr_message = Some (ErrorMessage ''Error generating expense forecast: '' e),
      data_points = Some 0,
      forecast_period_months = forecast_months,
      fr_historical_data = None, fr_forecast_data = [], fr_total_forecast = 0,
      fr_budget_impact = None, fr_category_forecasts = [],
      fr_recommendations =
        [Advice ''Please try again or contact support if the issue persists'']\<rparr>"

text \<open>The expenses by month, in the order in which the months first occur.\<close>

definition monthly_expenses_of :: "expense list \<Rightarrow> ((int \<times> int) \<times> real) list" where
  "monthly_expenses_of es = fold (\<lambda>e. add_to (month_key (incurred_at e)) (amount e)) es []"

text \<open>The same for each category: the categories in the order of their first expense.\<close>

definition category_monthly_of :: "expense list \<Rightarrow> (string \<times> ((int \<times> int) \<times> real) list) list" where
  "category_monthly_of es =
     map (\<lambda>c. (c, monthly_expenses_of (filter (\<lambda>e. category_or ''General'' e = c) es)))
       (rev (remdups (rev (map (category_or ''General'') es))))"

text \<open>
  The range of \<open>datetime\<close>: from 0001-01-01T00:00:00, which is 719162 days before
  1970-01-01, to 9999-12-31T23:59:59.999999, the last microsecond of the day 2932896
  days after it.
\<close>

definition datetime_min :: datetime where
  "datetime_min = - 719162 * usec_per_day"

definition datetime_max :: datetime where
  "datetime_max = 2932897 * usec_per_day - 1"

text \<open>
  \<open>t + timedelta(days=n)\<close>: the constructor of the timedelta refuses more than
  999999999 days, and the addition refuses a result outside the range of \<open>datetime\<close>;
  both raise OverflowError.
\<close>

definition datetime_add_days :: "datetime \<Rightarrow> int \<Rightarrow> error + datetime" where
  "datetime_add_days t n =
     (if \<bar>n\<bar> > 999999999 then Inl (OverflowError (TimedeltaDays n))
      else if t + timedelta_days n < datetime_min \<or> datetime_max < t + timedelta_days n
           then Inl (OverflowError DateValueOutOfRange)
           else Inr (t + timedelta_days n))"

text \<open>
  A loop that appends one item for each element and is left by the first exception.
\<close>

fun collect :: "('a \<Rightarrow> error + 'b) \<Rightarrow> 'a list \<Rightarrow> error + 'b list" where
  "collect f [] = Inr []"
| "collect f (x # xs) =
     (case f x of
        Inl e \<Rightarrow> Inl e
      | Inr y \<Rightarrow> (case collect f xs of Inl e \<Rightarrow> Inl e | Inr ys \<Rightarrow> Inr (y # ys)))"

text \<open>
  The loop that generates the forecast: one point for each of the \<open>forecast_months\<close>
  months, unless the date of a month cannot be computed.
\<close>

definition forecast_points ::
    "datetime \<Rightarrow> real list \<Rightarrow> real \<Rightarrow> real \<Rightarrow> int \<Rightarrow> error + forecast_point list" where
  "forecast_points current_month historical_amounts avg_monthly trend_slope forecast_months =
     collect
       (\<lambda>i. case datetime_add_days current_month (int i * 30) of
               Inl e \<Rightarrow> Inl e
             | Inr future_month \<Rightarrow>
                 Inr \<lparr>fp_month = month_key future_month,
                      fp_predicted_amount =
                        py_round 2 (max 0 (avg_monthly
                                            + trend_slope * real (length historical_amounts + i))),
                      fp_confidence =
                        calculate_forecast_confidence historical_amounts trend_slope\<rparr>)
       [0..<nat forecast_months]"

text \<open>The forecast proper, for a project with at least three expenses.\<close>

definition expense_forecast ::
    "datetime \<Rightarrow> expense list \<Rightarrow> budget option \<Rightarrow> int \<Rightarrow> error + forecast_result" where
  "expense_forecast now es budget forecast_months =
     (let historical_amounts = map snd (monthly_expenses_of es);
          avg_monthly = (if length historical_amounts < 2
                         then (case historical_amounts of [] \<Rightarrow> 0 | a # _ \<Rightarrow> a)
                         else mean historical_amounts);
          trend_slope = (if length historical_amounts < 2 then 0
                         else trend_slope_of historical_amounts);
          current_month = replace_day1 now
      in case forecast_points current_month historical_amounts avg_monthly trend_slope
                forecast_months of
           Inl e \<Rightarrow> Inl e
         | Inr forecast_data \<Rightarrow>
     Inr (let total_forecast = sum_list (map fp_predicted_amount forecast_data);
          current_spent = sum_list (map amount es);
          projected_total = current_spent + total_forecast;
          budget_impact =
            (case budget of
               None \<Rightarrow> None
             | Some b \<Rightarrow>
                 (let remaining = allocated_amount b - current_spent
                  in Some \<lparr>remaining_budget = remaining,
                           forecast_vs_remaining = total_forecast - remaining,
                           will_exceed_budget = (total_forecast > remaining),
                           projected_total_spending = projected_total,
                           projected_budget_utilization =
                             (if allocated_amount b > 0
                              then projected_total / allocated_amount b * 100 else 0)\<rparr>));
          category_forecasts =
            map (\<lambda>(c, month_data).
                   (let cat_avg = mean (map snd month_data)
                    in (c, \<lparr>monthly_average = py_round 2 cat_avg,
                            forecast_total = py_round 2 (cat_avg * of_int forecast_months)\<rparr>)))
              (category_monthly_of es)
      in \<lparr>forecast_available = True,
          fr_message = None,
          data_points = None,
          forecast_period_months = forecast_months,
          fr_historical_data =
            Some \<lparr>months_analyzed = length historical_amounts,
                  average_monthly_spending = py_round 2 avg_monthly,
                  trend_direction = (if trend_slope > 5 then ''increasing''
                                     else if trend_slope < - 5 then ''decreasing''
                                     else ''stable''),
                  trend_rate = py_round 2 trend_slope\<rparr>,
          fr_forecast_data = forecast_data,
          fr_total_forecast = py_round 2 total_forecast,
          fr_budget_impact = budget_impact,
          fr_category_forecasts = category_forecasts,
          fr_recommendations =
            generate_forecast_recommendations forecast_data budget_impact trend_slope\<rparr>))"

text \<open>The \<open>try\<close> block of \<open>get_expense_forecasting\<close>.\<close>

definition expense_forecasting_try ::
    "db \<Rightarrow> datetime \<Rightarrow> nat \<Rightarrow> nat \<Rightarrow> int \<Rightarrow> error + forecast_result" where
  "expense_forecasting_try d now user_id project_id forecast_months =
     (case get_project_or_404 d project_id of
        Inl e \<Rightarrow> Inl e
      | Inr project \<Rightarrow>
          (let is_member = (any_member project user_id \<or> owner_id project = user_id)
           in if \<not> is_member
              then Inl (PermissionError ''User is not a member of this project'')
              else
                (let es = expenses_of d project_id;
                     budget = budget_first d project_id
                 in if length es < 3
                    then Inr (insufficient_data_response (length es) forecast_months)
                    else expense_forecast now es budget forecast_months)))"

text \<open>
  \<open>FinanceService.get_expense_forecasting\<close>: the block above inside
  \<open>try ... except Exception\<close>, whose handler returns the default response.
\<close>

definition get_expense_forecasting ::
    "db \<Rightarrow> datetime \<Rightarrow> nat \<Rightarrow> nat \<Rightarrow> int \<Rightarrow> error + forecast_result" where
  "get_expense_forecasting d now user_id project_id forecast_months =
     (case expense_forecasting_try d now user_id project_id forecast_months of
        Inl e \<Rightarrow> Inr (forecast_error_response e forecast_months)
      | Inr r \<Rightarrow> Inr r)"

section \<open>Cost optimization\<close>

text \<open>
  An optimization opportunity: a category that is more than 30 percent of the spending
  (category, amount, percentage, potential savings, priority), a category with many
  small expenses (category, count, average amount, potential savings), or a month whose
  spending is an outlier (month, amount, average, potential savings).
\<close>

datatype opportunity =
    HighCostCategory string real real real string
  | FrequentSmallExpenses string nat real real
  | SpendingSpike "int \<times> int" real real real

fun potential_savings :: "opportunity \<Rightarrow> real" where
  "potential_savings (HighCostCategory c a p s pr) = s"
| "potential_savings (FrequentSmallExpenses c n a s) = s"
| "potential_savings (SpendingSpike m a avg s) = s"

fun priority :: "opportunity \<Rightarrow> string" where
  "priority (HighCostCategory c a p s pr) = pr"
| "priority (FrequentSmallExpenses c n a s) = ''low''"
| "priority (SpendingSpike m a avg s) = ''medium''"

record efficiency =
  cost_per_completed_task_e :: real
  total_completed_tasks :: nat
  efficiency_rating :: string

record optimization_result =
  has_expenses :: bool
  co_message :: "message option"
  co_total_spending :: real
  co_category_breakdown :: "(string \<times> real) list"
  co_optimization_opportunities :: "opportunity list"
  co_cost_efficiency :: "efficiency option"
  co_potential_total_savings :: real
  co_recommendations :: "advice list"

text \<open>The first pair with the largest value: \<open>max(items, key=...)\<close> on a non-empty list.\<close>

fun max_by_value :: "('k \<times> real) \<Rightarrow> ('k \<times> real) list \<Rightarrow> ('k \<times> real)" where
  "max_by_value best [] = best"
| "max_by_value best (kv # kvs) = max_by_value (if snd kv > snd best then kv else best) kvs"

text \<open>
  \<open>FinanceService._generate_cost_optimization_recommendations\<close>. The caller passes a
  non-empty \<open>category_totals\<close>; on an empty one \<open>max\<close> raises ValueError.
\<close>

definition generate_cost_optimization_recommendations ::
    "opportunity list \<Rightarrow> (string \<times> real) list \<Rightarrow> efficiency option \<Rightarrow> error + advice list" where
  "generate_cost_optimization_recommendations opportunities category_totals cost_efficiency =
     (case category_totals of
        [] \<Rightarrow> Inl (ValueError ''max() arg is an empty sequence'')
      | kv # kvs \<Rightarrow>
          (let total_potential = sum_list (map potential_savings opportunities);
               largest_category = max_by_value kv kvs
           in Inr
                ((if opportunities \<noteq> [] \<and> filter (\<lambda>opp. priority opp = ''high'') opportunities \<noteq> []
                  then [Advice ''Focus on high-priority optimization opportunities first'']
                  else [])
                 @ (if opportunities \<noteq> [] \<and> total_potential > 1000
                    then [PotentialSavings total_potential] else [])
                 @ (if snd largest_category > sum_list (map snd category_totals) * 0.4
                    then [LargestCategory (fst largest_category)] else [])
                 @ (case cost_efficiency of
                      None \<Rightarrow> []
                    | Some ce \<Rightarrow>
                        if efficiency_rating ce = ''needs_improvement''
                        then [Advice
                          ''Cost per task is high - review task complexity and resource allocation'']
                        else [])
                 @ [Advice ''Regular expense audits and vendor negotiations recommended''])))"

definition no_expenses_response :: optimization_result where
  "no_expenses_response =
     \<lparr>has_expenses = False,
      co_message = Some (Message ''No expenses found for analysis''),
      co_total_spending = 0, co_category_breakdown = [], co_optimization_opportunities = [],
      co_cost_efficiency = None, co_potential_total_savings = 0,
      co_recommendations =
        [Advice ''Start tracking expenses to enable cost optimization analysis'']\<rparr>"

definition optimization_error_response :: "error \<Rightarrow> optimization_result" where
  "optimization_error_response e =
     \<lparr>has_expenses = False,
      co_message = Some (ErrorMessage ''Error analyzing cost optimization: '' e),
      co_total_spending = 0, co_category_breakdown = [], co_optimization_opportunities = [],
      co_cost_efficiency = None, co_potential_total_savings = 0,
      co_recommendations =
        [Advice ''Please try again or contact support if the issue persists'']\<rparr>"

definition count_by_category :: "expense list \<Rightarrow> (string \<times> real) list" where
  "count_by_category es = fold (\<lambda>e. add_to (category_or ''General'' e) 1) es []"

text \<open>The analysis proper, for a project that has expenses.\<close>

definition cost_optimization ::
    "expense list \<Rightarrow> task list \<Rightarrow> error + optimization_result" where
  "cost_optimization es ts =
     (let category_totals = fold (\<lambda>e. add_to (category_or ''General'' e) (amount e)) es [];
          category_counts = count_by_category es;
          total_spending = sum_list (map snd category_totals);
          high_cost =
            concat (map (\<lambda>(c, a).
                      (let percentage = (if total_spending > 0 then a / total_spending * 100 else 0)
                       in if percentage > 30
                          then [HighCostCategory c a (py_round 1 percentage) (py_round 2 (a * 0.1))
                                  (if percentage > 50 then ''high'' else ''medium'')]
                          else []))
                    category_totals);
          small =
            concat (map (\<lambda>((c, total), (c', n)).
                      (let avg_amount = total / n
                       in if n > 10 \<and> avg_amount < 100
                          then [FrequentSmallExpenses c (nat \<lfloor>n\<rfloor>) (py_round 2 avg_amount)
                                  (py_round 2 (n * avg_amount * 0.05))]
                          else []))
                    (zip category_totals category_counts));
          monthly_spending = monthly_expenses_of es;
          amounts = map snd monthly_spending;
          spikes =
            (if length monthly_spending \<ge> 3
             then concat (map (\<lambda>(m, a).
                            if exceeds_two_std amounts a
                            then [SpendingSpike m a (py_round 2 (mean amounts))
                                    (py_round 2 (a - mean amounts))]
                            else [])
                          monthly_spending)
             else []);
          optimization_opportunities = high_cost @ small @ spikes;
          completed_tasks = filter (\<lambda>t. status t = completed) ts;
          cost_efficiency =
            (if completed_tasks \<noteq> []
             then (let cost_per_task = total_spending / real (length completed_tasks)
                   in Some \<lparr>cost_per_completed_task_e = py_round 2 cost_per_task,
                            total_completed_tasks = length completed_tasks,
                            efficiency_rating =
                              (if cost_per_task < 1000 then ''excellent''
                               else if cost_per_task < 5000 then ''good''
                               else ''needs_improvement'')\<rparr>)
             else None)
      in case generate_cost_optimization_recommendations optimization_opportunities
                category_totals cost_efficiency of
           Inl e \<Rightarrow> Inl e
         | Inr recommendations \<Rightarrow>
             Inr \<lparr>has_expenses = True,
                  co_message = None,
                  co_total_spending = py_round 2 total_spending,
                  co_category_breakdown = map (\<lambda>(k, v). (k, py_round 2 v)) category_totals,
                  co_optimization_opportunities =
                    sort_key (\<lambda>x. - potential_savings x) optimization_opportunities,
                  co_cost_efficiency = cost_efficiency,
                  co_potential_total_savings =
                    py_round 2 (sum_list (map potential_savings optimization_opportunities)),
                  co_recommendations = recommendations\<rparr>)"

text \<open>
  The \<open>try\<close> block of \<open>get_cost_optimization_analysis\<close>. In the source the statements
  after the early return are indented one level less than the block they continue; the
  model reads them as the rest of the block, which the closing \<open>except\<close> shows they are
  meant to be.
\<close>

definition cost_optimization_analysis_try ::
    "db \<Rightarrow> nat \<Rightarrow> nat \<Rightarrow> error + optimization_result" where
  "cost_optimization_analysis_try d user_id project_id =
     (case get_project_or_404 d project_id of
        Inl e \<Rightarrow> Inl e
      | Inr project \<Rightarrow>
          (let is_member = (any_member project user_id \<or> owner_id project = user_id)
           in if \<not> is_member
              then Inl (PermissionError ''User is not a member of this project'')
              else
                (let es = expenses_of d project_id
                 in if es = [] then Inr no_expenses_response
                    else cost_optimization es (tasks_of d project_id))))"

definition get_cost_optimization_analysis ::
    "db \<Rightarrow> nat \<Rightarrow> nat \<Rightarrow> error + optimization_result" where
  "get_cost_optimization_analysis d user_id project_id =
     (case cost_optimization_analysis_try d user_id project_id of
        Inl e \<Rightarrow> Inr (optimization_error_response e)
      | Inr r \<Rightarrow> Inr r)"

section \<open>Example data\<close>

text \<open>Small stored states on which the theorems below are evaluated.\<close>

definition ex_user :: user where
  "ex_user = \<lparr>u_id = 1, email = ''ann@example.org'', notify_email = False\<rparr>"

definition ex_project :: project where
  "ex_project = \<lparr>p_id = 1, name = ''Site'', deadline = None, members = [ex_user], owner_id = 1\<rparr>"

definition ex_budget_zero :: budget where
  "ex_budget_zero =
     \<lparr>b_id = 1, b_project_id = 1, allocated_amount = 0, spent_amount = 0, currency = ''USD''\<rparr>"

definition ex_budget :: budget where
  "ex_budget =
     \<lparr>b_id = 1, b_project_id = 1, allocated_amount = 100, spent_amount = 0, currency = ''USD''\<rparr>"

text \<open>A project whose budget allocates nothing, as \<open>create_budget\<close> makes it by default.\<close>

definition ex_db_zero :: db where
  "ex_db_zero =
     \<lparr>projects = [ex_project], tasks = [], budgets = [ex_budget_zero], expenses = [],
      notifications = []\<rparr>"

definition ex_db :: db where
  "ex_db =
     \<lparr>projects = [ex_project], tasks = [], budgets = [ex_budget], expenses = [],
      notifications = []\<rparr>"

definition ex_data :: "real \<Rightarrow> expense_data" where
  "ex_data a = \<lparr>d_task_id = None, d_amount = Some a, d_description = None, d_category = None\<rparr>"

definition ex_expense :: "real \<Rightarrow> expense" where
  "ex_expense a =
     \<lparr>e_id = 1, e_project_id = 1, e_task_id = None, amount = a, description = [],
      category = Some ''General'', created_by = 1, incurred_at = 0\<rparr>"

definition ex_db_spent :: "real \<Rightarrow> db" where
  "ex_db_spent a =
     \<lparr>projects = [ex_project], tasks = [],
      budgets = [ex_budget\<lparr>spent_amount := a\<rparr>], expenses = [ex_expense a],
      notifications = []\<rparr>"




text \<open>
  A pending task of project 1 that was due at instant 0, and a project without a
  deadline that has this one task.
\<close>

definition ex_task_overdue :: task where
  "ex_task_overdue =
     \<lparr>t_id = 1, title = ''Survey'', t_project_id = 1, t_owner_id = 1, status = pending,
      created_at = Some 0, due_date = Some 0, last_progress_update = None, subtasks = []\<rparr>"

definition ex_db_overdue :: db where
  "ex_db_overdue =
     \<lparr>projects = [ex_project], tasks = [ex_task_overdue], budgets = [], expenses = [],
      notifications = []\<rparr>"

text \<open>The same project with a deadline thirty days after instant 0.\<close>

definition ex_project_deadline :: project where
  "ex_project_deadline = ex_project\<lparr>deadline := Some (timedelta_days 30)\<rparr>"

definition ex_db_overdue_deadline :: db where
  "ex_db_overdue_deadline = ex_db_overdue\<lparr>projects := [ex_project_deadline]\<rparr>"

text \<open>
  A project past its deadline, over budget, with eleven pending tasks for its one
  person: the owner, who is not listed as a member.
\<close>

definition ex_project_late :: project where
  "ex_project_late = \<lparr>p_id = 1, name = ''Site'', deadline = Some 0, members = [], owner_id = 1\<rparr>"

definition ex_db_late :: db where
  "ex_db_late =
     \<lparr>projects = [ex_project_late], tasks = replicate 11 ex_task_overdue,
      budgets = [ex_budget\<lparr>spent_amount := 150\<rparr>], expenses = [], notifications = []\<rparr>"

definition ex_risk_late :: risk_result where
  "ex_risk_late =
     risk_assessment (timedelta_days 10) ex_project_late (replicate 11 ex_task_overdue)
       (Some (ex_budget\<lparr>spent_amount := 150\<rparr>))"

definition ex_risk_overdue :: risk_result where
  "ex_risk_overdue = risk_assessment (timedelta_days 1) ex_project [ex_task_overdue] None"

definition ex_risk_overdue_deadline :: risk_result where
  "ex_risk_overdue_deadline =
     risk_assessment (timedelta_days 1) ex_project_deadline [ex_task_overdue] None"

text \<open>
  Two completed tasks, one finished before its due date and one that has no due date,
  and a project that has just these two.
\<close>

definition ex_task_on_time :: task where
  "ex_task_on_time =
     \<lparr>t_id = 2, title = ''Plan'', t_project_id = 1, t_owner_id = 1, status = completed,
      created_at = Some 0, due_date = Some 10, last_progress_update = Some 5, subtasks = []\<rparr>"

definition ex_task_no_due :: task where
  "ex_task_no_due =
     \<lparr>t_id = 3, title = ''Notes'', t_project_id = 1, t_owner_id = 1, status = completed,
      created_at = Some 0, due_date = None, last_progress_update = Some 5, subtasks = []\<rparr>"

definition ex_db_health :: db where
  "ex_db_health =
     \<lparr>projects = [ex_project], tasks = [ex_task_on_time, ex_task_no_due], budgets = [],
      expenses = [], notifications = []\<rparr>"

text \<open>A project with three tasks, one of them overdue, none completed.\<close>

definition ex_task_open :: task where
  "ex_task_open = ex_task_overdue\<lparr>t_id := 4, due_date := None\<rparr>"

definition ex_db_third :: db where
  "ex_db_third =
     \<lparr>projects = [ex_project], tasks = [ex_task_overdue, ex_task_open, ex_task_open],
      budgets = [], expenses = [], notifications = []\<rparr>"

text \<open>The two completed tasks together with the overdue one.\<close>

definition ex_db_health_overdue :: db where
  "ex_db_health_overdue = ex_db_health\<lparr>tasks := [ex_task_on_time, ex_task_no_due, ex_task_overdue]\<rparr>"

text \<open>
  Eighty completed tasks, 23 of them finished before their due date and 57 without a
  due date.
\<close>

definition ex_db_eighty :: db where
  "ex_db_eighty =
     ex_db_health\<lparr>tasks := replicate 23 ex_task_on_time @ replicate 57 ex_task_no_due\<rparr>"

text \<open>
  Twenty-five tasks: 7 overdue, 10 open without a due date, and 8 completed, of which 3
  on time.
\<close>

definition ex_db_drift :: db where
  "ex_db_drift =
     ex_db_health\<lparr>tasks := replicate 7 ex_task_overdue @ replicate 10 ex_task_open
                            @ replicate 3 ex_task_on_time @ replicate 5 ex_task_no_due\<rparr>"

text \<open>
  An expense of 10 incurred exactly thirty days before instant 0, which is the first
  day of a month, and the project with the budget of 100 that has this one expense.
\<close>

definition ex_expense_boundary :: expense where
  "ex_expense_boundary = (ex_expense 10)\<lparr>incurred_at := - timedelta_days 30\<rparr>"

definition ex_db_boundary :: db where
  "ex_db_boundary = ex_db\<lparr>expenses := [ex_expense_boundary]\<rparr>"

text \<open>Three expenses of the same month.\<close>

definition ex_db_three :: db where
  "ex_db_three =
     ex_db\<lparr>expenses := [ex_expense 10, (ex_expense 20)\<lparr>e_id := 2\<rparr>, (ex_expense 30)\<lparr>e_id := 3\<rparr>]\<rparr>"

definition ex_forecast_point :: forecast_point where
  "ex_forecast_point = \<lparr>fp_month = (1970, 1), fp_predicted_amount = 10, fp_confidence = ''high''\<rparr>"

definition ex_variance_boundary :: variance_result where
  "ex_variance_boundary =
     (case budget_variance_analysis_try ex_db_boundary 0 1 1 of
        Inl e \<Rightarrow> variance_error_response e
      | Inr r \<Rightarrow> r)"

text \<open>Three expenses of three different months.\<close>

definition ex_db_months :: db where
  "ex_db_months =
     ex_db\<lparr>expenses := [ex_expense 10,
                         (ex_expense 20)\<lparr>e_id := 2, incurred_at := timedelta_days 40\<rparr>,
                         (ex_expense 30)\<lparr>e_id := 3, incurred_at := timedelta_days 80\<rparr>]\<rparr>"

section \<open>Rounding to the nearest float\<close>

lemma expo_spec: "0 < x \<Longrightarrow> 2 powi (expo x) \<le> x \<and> x < 2 powi (expo x + 1)"
proof (induction x rule: expo.induct)
  case (1 x)
  show ?case
  proof (cases "2 \<le> x")
    case True
    then have e: "expo x = expo (x / 2) + 1" by (subst expo.simps) simp
    have "2 powi expo (x / 2) \<le> x / 2 \<and> x / 2 < 2 powi (expo (x / 2) + 1)"
      using "1.IH"(1)[OF True] "1.prems" by simp
    then show ?thesis
      unfolding e by (simp add: power_int_add)
  next
    case False
    show ?thesis
    proof (cases "x < 1")
      case True
      then have e: "expo x = expo (x * 2) - 1" using False "1.prems" by (subst expo.simps) simp
      have "2 powi expo (x * 2) \<le> x * 2 \<and> x * 2 < 2 powi (expo (x * 2) + 1)"
        using "1.IH"(2)[OF False] True "1.prems" by simp
      then show ?thesis
        unfolding e by (simp add: power_int_add power_int_diff)
    next
      case F2: False
      then have e: "expo x = 0" using False by (subst expo.simps) simp
      show ?thesis unfolding e using False F2 by simp
    qed
  qed
qed

lemma expo_mono:
  assumes "0 < x" "x \<le> y"
  shows "expo x \<le> expo y"
proof -
  have "2 powi expo x \<le> x" using expo_spec[OF assms(1)] by simp
  also have "x \<le> y" by fact
  also have "y < 2 powi (expo y + 1)" using expo_spec[of y] assms by simp
  finally have lt: "(2::real) powi expo x < 2 powi (expo y + 1)" .
  have "expo x < expo y + 1"
  proof (rule ccontr)
    assume "\<not> expo x < expo y + 1"
    then have "expo y + 1 \<le> expo x" by simp
    then have "(2::real) powi (expo y + 1) \<le> 2 powi expo x"
      by (rule power_int_increasing) simp
    with lt show False by simp
  qed
  then show ?thesis by simp
qed

lemma rnd_bounds: "\<lfloor>y\<rfloor> \<le> rnd y" "rnd y \<le> \<lfloor>y\<rfloor> + 1"
  by (simp_all add: rnd_def Let_def)

lemma rnd_mono:
  assumes "y \<le> y'"
  shows "rnd y \<le> rnd y'"
proof (cases "\<lfloor>y\<rfloor> < \<lfloor>y'\<rfloor>")
  case True
  then show ?thesis using rnd_bounds(2)[of y] rnd_bounds(1)[of y'] by linarith
next
  case False
  then have eq: "\<lfloor>y\<rfloor> = \<lfloor>y'\<rfloor>" using floor_mono[OF assms] by linarith
  show ?thesis using assms
    by (auto simp: rnd_def Let_def eq)
qed

lemma rnd_of_int: "rnd (of_int k) = k"
  by (simp add: rnd_def)

lemma rnd_neg: "rnd (- y) = - rnd y"
proof (cases "y = of_int \<lfloor>y\<rfloor>")
  case True
  then obtain k where "y = of_int k" by blast
  then show ?thesis using rnd_of_int[of k] rnd_of_int[of "- k"] by simp
next
  case False
  then have lt: "of_int \<lfloor>y\<rfloor> < y" by linarith
  have f: "\<lfloor>- y\<rfloor> = - \<lfloor>y\<rfloor> - 1"
    using lt by (simp add: floor_eq_iff) linarith
  show ?thesis
    using lt unfolding rnd_def Let_def f
    by (auto simp: algebra_simps)
qed


lemma fl_qexp: "x \<noteq> 0 \<Longrightarrow> fl x = of_int (rnd (x / 2 powi qexp x)) * 2 powi qexp x"
  by (simp add: fl_def)

lemma fl_0: "fl 0 = 0"
  by (simp add: fl_def)

lemma qexp_neg: "qexp (- x) = qexp x"
  by (simp add: qexp_def)

lemma fl_neg: "fl (- x) = - fl x"
  by (simp add: fl_def qexp_neg rnd_neg)

lemma fl_nonneg:
  assumes "0 \<le> x"
  shows "0 \<le> fl x"
proof (cases "x = 0")
  case True
  then show ?thesis by (simp add: fl_0)
next
  case False
  have "0 \<le> x / 2 powi qexp x" using assms by simp
  then have "rnd 0 \<le> rnd (x / 2 powi qexp x)" by (rule rnd_mono)
  then have "0 \<le> rnd (x / 2 powi qexp x)" using rnd_of_int[of 0] by simp
  then show ?thesis unfolding fl_qexp[OF False] by simp
qed

lemma fl_upper:
  assumes "0 < x"
  shows "fl x \<le> 2 powi (qexp x + 53)"
proof -
  have x0: "x \<noteq> 0" using assms by simp
  have "x < 2 powi (expo x + 1)" using expo_spec[OF assms] by simp
  also have "\<dots> \<le> 2 powi (qexp x + 53)"
    using assms by (intro power_int_increasing) (simp_all add: qexp_def)
  finally have "x \<le> 2 powi (qexp x + 53)" by simp
  then have "x / 2 powi qexp x \<le> 2 powi 53"
    by (simp add: power_int_add field_simps)
  then have "x / 2 powi qexp x \<le> of_int (2 ^ 53)" by simp
  then have "rnd (x / 2 powi qexp x) \<le> rnd (of_int (2 ^ 53))" by (rule rnd_mono)
  then have "rnd (x / 2 powi qexp x) \<le> 2 ^ 53" by (simp only: rnd_of_int)
  then have "(of_int (rnd (x / 2 powi qexp x)) :: real) \<le> of_int (2 ^ 53)"
    by (simp only: of_int_le_iff)
  then have "real_of_int (rnd (x / 2 powi qexp x)) * 2 powi qexp x
             \<le> real_of_int (2 ^ 53) * 2 powi qexp x"
    by (rule mult_right_mono) simp
  then show ?thesis unfolding fl_qexp[OF x0] by (simp add: power_int_add)
qed

lemma fl_lower:
  assumes "0 < x" "- 1022 \<le> expo x"
  shows "2 powi (qexp x + 52) \<le> fl x"
proof -
  have x0: "x \<noteq> 0" using assms by simp
  have q: "qexp x + 52 = expo x" using assms by (simp add: qexp_def)
  have "2 powi (qexp x + 52) \<le> x" using expo_spec[OF assms(1)] q by simp
  then have "2 powi 52 \<le> x / 2 powi qexp x"
    by (simp add: power_int_add field_simps)
  then have "of_int (2 ^ 52) \<le> x / 2 powi qexp x" by simp
  then have "rnd (of_int (2 ^ 52)) \<le> rnd (x / 2 powi qexp x)" by (rule rnd_mono)
  then have "2 ^ 52 \<le> rnd (x / 2 powi qexp x)" by (simp only: rnd_of_int)
  then have "(of_int (2 ^ 52) :: real) \<le> of_int (rnd (x / 2 powi qexp x))"
    by (simp only: of_int_le_iff)
  then have "real_of_int (2 ^ 52) * 2 powi qexp x
             \<le> real_of_int (rnd (x / 2 powi qexp x)) * 2 powi qexp x"
    by (rule mult_right_mono) simp
  then show ?thesis unfolding fl_qexp[OF x0] by (simp add: power_int_add)
qed

lemma fl_mono_pos:
  assumes "0 < x" "x \<le> y"
  shows "fl x \<le> fl y"
proof -
  have y: "0 < y" using assms by simp
  have x0: "x \<noteq> 0" and y0: "y \<noteq> 0" using assms by simp_all
  have e: "expo x \<le> expo y" using assms by (rule expo_mono)
  then have q: "qexp x \<le> qexp y" using assms by (simp add: qexp_def)
  show ?thesis
  proof (cases "qexp x = qexp y")
    case True
    have "x / 2 powi qexp y \<le> y / 2 powi qexp y"
      using assms by (intro divide_right_mono) simp_all
    then have "rnd (x / 2 powi qexp y) \<le> rnd (y / 2 powi qexp y)" by (rule rnd_mono)
    then have "(of_int (rnd (x / 2 powi qexp y)) :: real) \<le> of_int (rnd (y / 2 powi qexp y))"
      by (simp only: of_int_le_iff)
    then have "real_of_int (rnd (x / 2 powi qexp y)) * 2 powi qexp y
               \<le> real_of_int (rnd (y / 2 powi qexp y)) * 2 powi qexp y"
      by (rule mult_right_mono) simp
    then show ?thesis unfolding fl_qexp[OF x0] fl_qexp[OF y0] True .
  next
    case False
    then have lt: "qexp x < qexp y" using q by simp
    then have n: "- 1022 \<le> expo y" using y by (simp add: qexp_def max_def split: if_splits)
    have "fl x \<le> 2 powi (qexp x + 53)" using assms(1) by (rule fl_upper)
    also have "\<dots> \<le> 2 powi (qexp y + 52)"
      using lt by (intro power_int_increasing) simp_all
    also have "\<dots> \<le> fl y" using y n by (rule fl_lower)
    finally show ?thesis .
  qed
qed

lemma fl_mono:
  assumes "x \<le> y"
  shows "fl x \<le> fl y"
proof -
  consider "0 < x" | "x \<le> 0" "0 \<le> y" | "y < 0" by linarith
  then show ?thesis
  proof cases
    case 1
    then show ?thesis using assms by (rule fl_mono_pos)
  next
    case 2
    have "0 \<le> fl (- x)" using 2(1) by (intro fl_nonneg) simp
    then have "fl x \<le> 0" by (simp add: fl_neg)
    also have "0 \<le> fl y" using 2(2) by (rule fl_nonneg)
    finally show ?thesis .
  next
    case 3
    have "fl (- y) \<le> fl (- x)" using 3 assms by (intro fl_mono_pos) simp_all
    then show ?thesis by (simp add: fl_neg)
  qed
qed

text \<open>The rules that evaluate an expression of floating-point operations on numerals.\<close>

lemmas float_eval =
  fl_def qexp_def rnd_def expo.simps Let_def float_add_def float_sub_def float_mul_def
  int_truediv_def round_float_def py_round_def

lemma fl_1: "fl 1 = 1"
  by (simp add: float_eval)

lemma fl_100: "fl 100 = 100"
  by (simp add: float_eval)

section \<open>Evaluating the tests that involve a square root\<close>

lemma var_nonneg: "0 \<le> var xs"
  unfolding var_def mean_def
  by (intro divide_nonneg_nonneg sum_list_nonneg) auto

lemma sqrt_less_iff_square: "0 \<le> v \<Longrightarrow> (sqrt v < y) = (0 < y \<and> v < y\<^sup>2)"
proof (cases "0 < y")
  case True
  assume "0 \<le> v"
  have "(sqrt v < y) = (sqrt v < sqrt (y\<^sup>2))"
    using True by simp
  also have "\<dots> = (v < y\<^sup>2)"
    by (rule real_sqrt_less_iff)
  finally show ?thesis using True by simp
next
  case False
  assume "0 \<le> v"
  then have "0 \<le> sqrt v" by simp
  then show ?thesis using False by linarith
qed

lemma cv_less_code [code]:
  "cv_less xs c =
     (if mean xs > 0 then 0 < c \<and> var xs < (c * mean xs)\<^sup>2 else 0 < c)"
proof (cases "mean xs > 0")
  case True
  have "(sqrt (var xs) / mean xs < c) = (sqrt (var xs) < c * mean xs)"
    using True by (simp add: divide_less_eq)
  also have "\<dots> = (0 < c * mean xs \<and> var xs < (c * mean xs)\<^sup>2)"
    by (rule sqrt_less_iff_square[OF var_nonneg])
  also have "\<dots> = (0 < c \<and> var xs < (c * mean xs)\<^sup>2)"
    using True by (simp add: zero_less_mult_iff)
  finally show ?thesis using True by (simp add: cv_less_def cv_def)
next
  case False
  then show ?thesis by (simp add: cv_less_def cv_def)
qed

lemma exceeds_two_std_code [code]:
  "exceeds_two_std xs a = (0 < a - mean xs \<and> 4 * var xs < (a - mean xs)\<^sup>2)"
proof -
  have "(a > mean xs + 2 * std xs) = (sqrt (var xs) < (a - mean xs) / 2)"
    by (auto simp: std_def)
  also have "\<dots> = (0 < (a - mean xs) / 2 \<and> var xs < ((a - mean xs) / 2)\<^sup>2)"
    by (rule sqrt_less_iff_square[OF var_nonneg])
  also have "\<dots> = (0 < a - mean xs \<and> 4 * var xs < (a - mean xs)\<^sup>2)"
    by (simp add: power_divide mult.commute)
  finally show ?thesis by (simp add: exceeds_two_std_def)
qed

section \<open>The running total of a budget\<close>


















lemmas expense_op_defs =
  add_expense_def update_expense_def delete_expense_def get_project_or_404_def
  get_expense_or_404_def any_member_def budget_first_def next_id_def to_float_def
  finite_float_def max_float_def















section \<open>Division by zero\<close>

text \<open>
  C6. The claim is that no operation raises a division error. \<open>add_expense\<close> does:
  with a budget that allocates 0, an expense of 10 makes the spent amount exceed the
  allocation, the overrun notification divides the overrun by the allocation without a
  guard, and the call ends in ZeroDivisionError (nothing is committed).
\<close>

theorem add_expense_zero_budget_raises:
  "add_expense ex_db_zero 0 1 1 (ex_data 10) = Inl ZeroDivisionError"
  by (simp add: expense_op_defs ex_db_zero_def ex_project_def ex_user_def ex_budget_zero_def
        ex_data_def create_budget_overrun_notification_def py_truediv_def float_eval)

section \<open>The risk score\<close>

lemma points_simps:
  "points (''deadline'', ''critical'') = 40"
  "points (''deadline'', ''high'') = 30"
  "points (''task_overdue'', ''medium'') = 20"
  "points (''budget'', ''critical'') = 35"
  "points (''budget'', ''high'') = 25"
  "points (''budget'', ''medium'') = 15"
  "points (''workload'', ''medium'') = 15"
  "points (''velocity'', ''high'') = 25"
  by (simp_all add: points_def)

lemma points_nonneg: "0 \<le> points k"
  by (simp add: points_def)

text \<open>Each analysis adds to the score the points of the factor it appends.\<close>

lemma deadline_inv: "score_inv st \<Longrightarrow> score_inv (deadline_risk now p ts st)"
  by (cases st)
     (auto simp: score_inv_def deadline_risk_def Let_def kind_def points_simps split: option.splits)

lemma budget_inv: "score_inv st \<Longrightarrow> score_inv (budget_risk b st)"
  by (cases st)
     (auto simp: score_inv_def budget_risk_def Let_def kind_def points_simps split: option.splits)

lemma workload_inv: "score_inv st \<Longrightarrow> score_inv (workload_risk p ts st)"
  by (cases st) (auto simp: score_inv_def workload_risk_def Let_def kind_def points_simps)

lemma velocity_inv: "score_inv st \<Longrightarrow> score_inv (velocity_risk ts st)"
  by (cases st) (auto simp: score_inv_def velocity_risk_def Let_def kind_def points_simps)

lemma run_risk_inv: "score_inv (run_risk now p ts b)"
  unfolding run_risk_def
  by (intro velocity_inv workload_inv budget_inv deadline_inv) (simp add: score_inv_def)

text \<open>Each analysis appends at most one factor, of its own family.\<close>

lemma deadline_kinds:
  "\<exists>ks. map kind (fst (deadline_risk now p ts st)) = map kind (fst st) @ ks \<and> length ks \<le> 1 \<and>
     (\<forall>k\<in>set ks. family k = 1)"
  by (cases st) (simp add: deadline_risk_def Let_def kind_def family_def split: option.splits)

lemma budget_kinds:
  "\<exists>ks. map kind (fst (budget_risk b st)) = map kind (fst st) @ ks \<and> length ks \<le> 1 \<and>
     (\<forall>k\<in>set ks. family k = 2)"
  by (cases st) (simp add: budget_risk_def Let_def kind_def family_def split: option.splits)

lemma workload_kinds:
  "\<exists>ks. map kind (fst (workload_risk p ts st)) = map kind (fst st) @ ks \<and> length ks \<le> 1 \<and>
     (\<forall>k\<in>set ks. family k = 3)"
  by (cases st) (simp add: workload_risk_def Let_def kind_def family_def)

lemma velocity_kinds:
  "\<exists>ks. map kind (fst (velocity_risk ts st)) = map kind (fst st) @ ks \<and> length ks \<le> 1 \<and>
     (\<forall>k\<in>set ks. family k = 4)"
  by (cases st) (simp add: velocity_risk_def Let_def kind_def family_def)

lemma short_distinct: "length xs \<le> 1 \<Longrightarrow> distinct xs"
  by (cases xs) auto

lemma family_disjoint:
  "\<forall>k\<in>set xs. family k = i \<Longrightarrow> \<forall>k\<in>set ys. family k = j \<Longrightarrow> i \<noteq> j \<Longrightarrow>
   set xs \<inter> set ys = {}"
  by auto

lemma run_risk_kinds:
  "\<exists>k2 k3 k4.
     map kind (fst (run_risk now p ts b)) =
       ((map kind (fst (deadline_risk now p ts ([], 0))) @ k2) @ k3) @ k4 \<and>
     length k2 \<le> 1 \<and> (\<forall>k\<in>set k2. family k = 2) \<and>
     length k3 \<le> 1 \<and> (\<forall>k\<in>set k3. family k = 3) \<and>
     length k4 \<le> 1 \<and> (\<forall>k\<in>set k4. family k = 4)"
proof -
  let ?d = "deadline_risk now p ts ([], 0)"
  obtain k2 where 2: "map kind (fst (budget_risk b ?d)) = map kind (fst ?d) @ k2"
    "length k2 \<le> 1" "\<forall>k\<in>set k2. family k = 2"
    using budget_kinds[of b ?d] by blast
  obtain k3 where 3:
    "map kind (fst (workload_risk p ts (budget_risk b ?d))) = (map kind (fst ?d) @ k2) @ k3"
    "length k3 \<le> 1" "\<forall>k\<in>set k3. family k = 3"
    using workload_kinds[of p ts "budget_risk b ?d"] unfolding 2(1) by blast
  obtain k4 where 4:
    "map kind (fst (run_risk now p ts b)) = ((map kind (fst ?d) @ k2) @ k3) @ k4"
    "length k4 \<le> 1" "\<forall>k\<in>set k4. family k = 4"
    using velocity_kinds[of ts "workload_risk p ts (budget_risk b ?d)"]
    unfolding run_risk_def 3(1) by blast
  show ?thesis using 2(2,3) 3(2,3) 4 by blast
qed

lemma run_risk_distinct: "distinct (map kind (fst (run_risk now p ts b)))"
proof -
  obtain k1 where 1: "map kind (fst (deadline_risk now p ts ([], 0))) = k1"
    "length k1 \<le> 1" "\<forall>k\<in>set k1. family k = 1"
    using deadline_kinds[of now p ts "([], 0)"] by auto
  obtain k2 k3 k4 where r: "map kind (fst (run_risk now p ts b)) = ((k1 @ k2) @ k3) @ k4"
    and 2: "length k2 \<le> 1" "\<forall>k\<in>set k2. family k = 2"
    and 3: "length k3 \<le> 1" "\<forall>k\<in>set k3. family k = 3"
    and 4: "length k4 \<le> 1" "\<forall>k\<in>set k4. family k = 4"
    using run_risk_kinds[of now p ts b] unfolding 1(1) by blast
  have d: "distinct k1" "distinct k2" "distinct k3" "distinct k4"
    using 1(2) 2(1) 3(1) 4(1) by (simp_all add: short_distinct)
  have "set k1 \<inter> set k2 = {}" "set k1 \<inter> set k3 = {}" "set k1 \<inter> set k4 = {}"
       "set k2 \<inter> set k3 = {}" "set k2 \<inter> set k4 = {}" "set k3 \<inter> set k4 = {}"
    using family_disjoint[OF 1(3) 2(2)] family_disjoint[OF 1(3) 3(2)] family_disjoint[OF 1(3) 4(2)]
          family_disjoint[OF 2(2) 3(2)] family_disjoint[OF 2(2) 4(2)] family_disjoint[OF 3(2) 4(2)]
    by simp_all
  then have "distinct (((k1 @ k2) @ k3) @ k4)"
    using d by (simp add: Int_Un_distrib)
  then show ?thesis using r by simp
qed

lemma sum_list_insort_key: "sum_list (map f (insort_key k x xs)) = f x + sum_list (map f xs)"
  for f :: "'a \<Rightarrow> int"
  by (induction xs) auto

lemma sum_list_sort_key: "sum_list (map f (sort_key k xs)) = sum_list (map f xs)"
  for f :: "'a \<Rightarrow> int"
  by (induction xs) (auto simp: sum_list_insort_key)

lemma risk_assessment_run:
  "overall_risk_score (risk_assessment now p ts b) = min (snd (run_risk now p ts b)) 100"
  "risk_factors (risk_assessment now p ts b) =
     sort_key (\<lambda>x. - impact x) (fst (run_risk now p ts b))"
  by (simp_all add: risk_assessment_def Let_def)

lemma risk_score_sum_list:
  "overall_risk_score (risk_assessment now p ts b) =
     min (sum_list (map (points \<circ> kind) (risk_factors (risk_assessment now p ts b)))) 100"
  using run_risk_inv[of now p ts b]
  by (simp add: risk_assessment_run sum_list_sort_key score_inv_def)

lemma risk_kinds_set:
  "set (map kind (risk_factors (risk_assessment now p ts b))) =
   set (map kind (fst (run_risk now p ts b)))"
  by (simp add: risk_assessment_run)

lemma risk_score_sum_set:
  "overall_risk_score (risk_assessment now p ts b) =
     min (sum points (set (map kind (risk_factors (risk_assessment now p ts b))))) 100"
proof -
  have "snd (run_risk now p ts b) = sum_list (map points (map kind (fst (run_risk now p ts b))))"
    using run_risk_inv[of now p ts b] by (simp add: score_inv_def)
  also have "\<dots> = sum points (set (map kind (fst (run_risk now p ts b))))"
    using run_risk_distinct[of now p ts b] by (rule sum_list_distinct_conv_sum_set)
  finally show ?thesis
    unfolding risk_kinds_set by (simp add: risk_assessment_run)
qed

lemma risk_score_mono:
  assumes "set (map kind (risk_factors (risk_assessment now p ts b)))
           \<subseteq> set (map kind (risk_factors (risk_assessment now' p' ts' b')))"
  shows "overall_risk_score (risk_assessment now p ts b)
         \<le> overall_risk_score (risk_assessment now' p' ts' b')"
proof -
  have "sum points (set (map kind (risk_factors (risk_assessment now p ts b))))
        \<le> sum points (set (map kind (risk_factors (risk_assessment now' p' ts' b'))))"
    by (rule sum_mono2[OF _ assms]) (simp_all add: points_nonneg)
  then show ?thesis
    unfolding risk_score_sum_set[of now p ts b] risk_score_sum_set[of now' p' ts' b']
    by simp
qed

lemma get_risk_assessment_Inr:
  "get_risk_assessment d now pid uid = Inr r \<Longrightarrow>
   \<exists>p. get_project_or_404 d pid = Inr p \<and> (any_member p uid \<or> owner_id p = uid) \<and>
       r = risk_assessment now p (tasks_of d pid) (budget_first d pid)"
  by (auto simp: get_risk_assessment_def Let_def split: sum.splits if_splits)

lemma ex_late_get: "get_risk_assessment ex_db_late (timedelta_days 10) 1 1 = Inr ex_risk_late"
  by (simp add: get_risk_assessment_def ex_db_late_def ex_project_late_def
        get_project_or_404_def ex_risk_late_def tasks_of_def budget_first_def ex_budget_def
        ex_task_overdue_def Let_def)

lemma ex_late_kinds:
  "map kind (risk_factors ex_risk_late) =
     [(''deadline'', ''critical''), (''budget'', ''critical''), (''velocity'', ''high''),
      (''workload'', ''medium'')]"
  by code_simp

lemma ex_late_score: "overall_risk_score ex_risk_late = 100"
  by code_simp

lemma ex_late_sum: "sum_list (map (points \<circ> kind) (risk_factors ex_risk_late)) = 115"
  by code_simp

lemma ex_overdue_get:
  "get_risk_assessment ex_db_overdue (timedelta_days 1) 1 1 = Inr ex_risk_overdue"
  by (simp add: get_risk_assessment_def ex_db_overdue_def ex_project_def ex_user_def
        get_project_or_404_def ex_risk_overdue_def tasks_of_def budget_first_def
        ex_task_overdue_def any_member_def Let_def)

lemma ex_overdue_kinds: "map kind (risk_factors ex_risk_overdue) = [(''velocity'', ''high'')]"
  by code_simp

lemma ex_overdue_score: "overall_risk_score ex_risk_overdue = 25"
  by code_simp

text \<open>
  C8. The overall risk score \<open>get_risk_assessment\<close> returns is the sum of the fixed
  points of the factors that fired (40/30/20 in the deadline family, 35/25/15 in the
  budget family, 15 for workload, 25 for velocity), capped at 100. It never exceeds 100,
  and it is monotone in the set of fired factors: when every kind of factor that fired in
  one assessment also fired in another, the first score is at most the second.
\<close>

theorem risk_score_capped_sum:
  assumes "get_risk_assessment d now pid uid = Inr r"
  shows "overall_risk_score r = min (sum_list (map (points \<circ> kind) (risk_factors r))) 100 \<and>
         overall_risk_score r \<le> 100 \<and>
         (get_risk_assessment d' now' pid' uid' = Inr r' \<and>
          set (map kind (risk_factors r)) \<subseteq> set (map kind (risk_factors r'))
            \<longrightarrow> overall_risk_score r \<le> overall_risk_score r')"
proof -
  obtain p where r: "r = risk_assessment now p (tasks_of d pid) (budget_first d pid)"
    using get_risk_assessment_Inr[OF assms] by blast
  have 1: "overall_risk_score r = min (sum_list (map (points \<circ> kind) (risk_factors r))) 100"
    unfolding r by (rule risk_score_sum_list)
  have 2: "overall_risk_score r \<le> 100"
    unfolding r by (simp add: risk_assessment_run)
  have 3: "overall_risk_score r \<le> overall_risk_score r'"
    if g: "get_risk_assessment d' now' pid' uid' = Inr r'"
    and s: "set (map kind (risk_factors r)) \<subseteq> set (map kind (risk_factors r'))"
  proof -
    obtain p' where r': "r' = risk_assessment now' p' (tasks_of d' pid') (budget_first d' pid')"
      using get_risk_assessment_Inr[OF g] by blast
    show ?thesis
      using s unfolding r r' by (rule risk_score_mono)
  qed
  show ?thesis using 1 2 3 by blast
qed

text \<open>
  The uncapped maximum is above the cap: the late project fires 40 + 35 + 15 + 25 = 115
  points and scores 100.
\<close>

theorem risk_score_capped_sum_witness:
  "get_risk_assessment ex_db_overdue (timedelta_days 1) 1 1 = Inr ex_risk_overdue \<and>
   get_risk_assessment ex_db_late (timedelta_days 10) 1 1 = Inr ex_risk_late \<and>
   set (map kind (risk_factors ex_risk_overdue)) \<subseteq> set (map kind (risk_factors ex_risk_late)) \<and>
   overall_risk_score ex_risk_overdue \<le> overall_risk_score ex_risk_late \<and>
   sum_list (map (points \<circ> kind) (risk_factors ex_risk_late)) = 115 \<and>
   overall_risk_score ex_risk_late = 100 \<and>
   overall_risk_score ex_risk_overdue = 25"
proof -
  have s: "set (map kind (risk_factors ex_risk_overdue)) \<subseteq> set (map kind (risk_factors ex_risk_late))"
    unfolding ex_overdue_kinds ex_late_kinds by simp
  have "overall_risk_score ex_risk_overdue \<le> overall_risk_score ex_risk_late"
    using risk_score_capped_sum[OF ex_overdue_get, of ex_db_late "timedelta_days 10" 1 1 ex_risk_late]
          ex_late_get s
    by blast
  then show ?thesis
    using ex_overdue_get ex_late_get s ex_late_sum ex_late_score ex_overdue_score by blast
qed

section \<open>The overdue ratio factor\<close>

text \<open>An analysis does the same to any state as to the empty one, shifted.\<close>

lemma budget_risk_shift:
  "budget_risk b (fs, s) = (fs @ fst (budget_risk b ([], 0)), s + snd (budget_risk b ([], 0)))"
  by (simp add: budget_risk_def Let_def split: option.splits)

lemma workload_risk_shift:
  "workload_risk p ts (fs, s) =
     (fs @ fst (workload_risk p ts ([], 0)), s + snd (workload_risk p ts ([], 0)))"
  by (simp add: workload_risk_def Let_def)

lemma velocity_risk_shift:
  "velocity_risk ts (fs, s) = (fs @ fst (velocity_risk ts ([], 0)), s + snd (velocity_risk ts ([], 0)))"
  by (simp add: velocity_risk_def Let_def)

lemma run_risk_split:
  "run_risk now p ts b =
     (fst (deadline_risk now p ts ([], 0)) @
        fst (velocity_risk ts (workload_risk p ts (budget_risk b ([], 0)))),
      snd (deadline_risk now p ts ([], 0)) +
        snd (velocity_risk ts (workload_risk p ts (budget_risk b ([], 0)))))"
proof -
  obtain fd sd where D: "deadline_risk now p ts ([], 0) = (fd, sd)" by fastforce
  obtain fb sb where B: "budget_risk b ([], 0) = (fb, sb)" by fastforce
  obtain fw sw where W: "workload_risk p ts ([], 0) = (fw, sw)" by fastforce
  obtain fv sv where V: "velocity_risk ts ([], 0) = (fv, sv)" by fastforce
  have b: "budget_risk b (fd, sd) = (fd @ fb, sd + sb)"
    using budget_risk_shift[of b fd sd] B by simp
  have w: "workload_risk p ts (fd @ fb, sd + sb) = ((fd @ fb) @ fw, (sd + sb) + sw)"
    using workload_risk_shift[of p ts "fd @ fb" "sd + sb"] W by simp
  have v: "velocity_risk ts ((fd @ fb) @ fw, (sd + sb) + sw) = (((fd @ fb) @ fw) @ fv, ((sd + sb) + sw) + sv)"
    using velocity_risk_shift[of ts "(fd @ fb) @ fw" "(sd + sb) + sw"] V by simp
  have w0: "workload_risk p ts (fb, sb) = (fb @ fw, sb + sw)"
    using workload_risk_shift[of p ts fb sb] W by simp
  have v0: "velocity_risk ts (fb @ fw, sb + sw) = ((fb @ fw) @ fv, (sb + sw) + sv)"
    using velocity_risk_shift[of ts "fb @ fw" "sb + sw"] V by simp
  show ?thesis
    unfolding run_risk_def D b w v B w0 v0 by simp
qed

lemma rest_no_deadline_family:
  "\<forall>k\<in>set (map kind (fst (velocity_risk ts (workload_risk p ts (budget_risk b ([], 0)))))). family k \<noteq> 1"
proof -
  obtain k2 where 2: "map kind (fst (budget_risk b ([], 0))) = k2" "\<forall>k\<in>set k2. family k = 2"
    using budget_kinds[of b "([], 0)"] by auto
  obtain k3 where 3: "map kind (fst (workload_risk p ts (budget_risk b ([], 0)))) = k2 @ k3"
    "\<forall>k\<in>set k3. family k = 3"
    using workload_kinds[of p ts "budget_risk b ([], 0)"] unfolding 2(1) by blast
  obtain k4 where 4:
    "map kind (fst (velocity_risk ts (workload_risk p ts (budget_risk b ([], 0))))) = (k2 @ k3) @ k4"
    "\<forall>k\<in>set k4. family k = 4"
    using velocity_kinds[of ts "workload_risk p ts (budget_risk b ([], 0))"] unfolding 3(1) by blast
  show ?thesis unfolding 4(1) using 2(2) 3(2) 4(2) by auto
qed

lemma family_task_overdue: "family (''task_overdue'', ''medium'') = 1"
  by (simp add: family_def)

lemma ex_overdue_ratio:
  "real (length (filter (is_overdue (timedelta_days 1)) (tasks_of ex_db_overdue 1)))
     > real (length (tasks_of ex_db_overdue 1)) * 0.3"
  by code_simp

lemma ex_overdue_project: "get_project_or_404 ex_db_overdue 1 = Inr ex_project"
  by (simp add: get_project_or_404_def ex_db_overdue_def ex_project_def)

text \<open>
  C5, as stated, fails: it includes the projects that have no deadline. The example
  project has no deadline and its one task is overdue (ratio 1 > 0.30), yet the only
  factor is the velocity factor and the score is 25: no overdue-ratio factor, no 20
  points.
\<close>

theorem overdue_ratio_no_deadline_counterexample:
  "get_project_or_404 ex_db_overdue 1 = Inr ex_project \<and>
   deadline ex_project = None \<and>
   real (length (filter (is_overdue (timedelta_days 1)) (tasks_of ex_db_overdue 1)))
     > real (length (tasks_of ex_db_overdue 1)) * 0.3 \<and>
   get_risk_assessment ex_db_overdue (timedelta_days 1) 1 1 = Inr ex_risk_overdue \<and>
   map kind (risk_factors ex_risk_overdue) = [(''velocity'', ''high'')] \<and>
   overall_risk_score ex_risk_overdue = 25"
  using ex_overdue_project ex_overdue_ratio ex_overdue_get ex_overdue_kinds ex_overdue_score
  by (simp add: ex_project_def)

text \<open>
  C5, amended. The overdue-ratio check is the last alternative of the deadline analysis,
  which runs only for a project that has a deadline. For a project with a deadline in
  which neither deadline factor triggered (the deadline is more than 0 days away, and it
  is more than 7 days away or no task is incomplete) and the overdue tasks are more than
  0.30 of all tasks, the medium-severity overdue-ratio factor is among the returned
  factors and contributes 20 points to the sum that is capped at 100. For a project
  without a deadline the factor never fires.
\<close>

theorem overdue_ratio_factor_needs_deadline:
  assumes "get_risk_assessment d now pid uid = Inr r"
      and "get_project_or_404 d pid = Inr p"
  shows "(deadline p = None \<longrightarrow> (''task_overdue'', ''medium'') \<notin> set (map kind (risk_factors r))) \<and>
         (deadline p = Some dl \<and> 0 < days (dl - now) \<and>
          \<not> (days (dl - now) \<le> 7 \<and> filter (\<lambda>t. status t \<noteq> completed) (tasks_of d pid) \<noteq> []) \<and>
          real (length (filter (is_overdue now) (tasks_of d pid))) > real (length (tasks_of d pid)) * 0.3
          \<longrightarrow>
            \<lparr>rf_type = ''task_overdue'', severity = ''medium'',
             rf_message = TasksOverdue (length (filter (is_overdue now) (tasks_of d pid)))
                            (real (length (filter (is_overdue now) (tasks_of d pid)))
                               / real (length (tasks_of d pid)) * 100),
             impact = 50\<rparr> \<in> set (risk_factors r) \<and>
            overall_risk_score r =
              min (20 + snd (velocity_risk (tasks_of d pid)
                              (workload_risk p (tasks_of d pid)
                                 (budget_risk (budget_first d pid) ([], 0))))) 100)"
proof -
  let ?ts = "tasks_of d pid" and ?b = "budget_first d pid"
  let ?rest = "velocity_risk ?ts (workload_risk p ?ts (budget_risk ?b ([], 0)))"
  have r: "r = risk_assessment now p ?ts ?b"
    using get_risk_assessment_Inr[OF assms(1)] assms(2) by auto
  have 1: "(''task_overdue'', ''medium'') \<notin> set (map kind (risk_factors r))" if "deadline p = None"
  proof -
    have "deadline_risk now p ?ts ([], 0) = ([], 0)"
      using that by (simp add: deadline_risk_def)
    then have "map kind (fst (run_risk now p ?ts ?b)) = map kind (fst ?rest)"
      by (simp add: run_risk_split)
    then show ?thesis
      unfolding r risk_kinds_set
      using rest_no_deadline_family[of ?ts p ?b] family_task_overdue by force
  qed
  have 2: "\<lparr>rf_type = ''task_overdue'', severity = ''medium'',
             rf_message = TasksOverdue (length (filter (is_overdue now) ?ts))
                            (real (length (filter (is_overdue now) ?ts)) / real (length ?ts) * 100),
             impact = 50\<rparr> \<in> set (risk_factors r) \<and>
           overall_risk_score r = min (20 + snd ?rest) 100"
    if "deadline p = Some dl" "0 < days (dl - now)"
       "\<not> (days (dl - now) \<le> 7 \<and> filter (\<lambda>t. status t \<noteq> completed) ?ts \<noteq> [])"
       "real (length (filter (is_overdue now) ?ts)) > real (length ?ts) * 0.3"
  proof -
    have "deadline_risk now p ?ts ([], 0) =
            ([\<lparr>rf_type = ''task_overdue'', severity = ''medium'',
               rf_message = TasksOverdue (length (filter (is_overdue now) ?ts))
                              (real (length (filter (is_overdue now) ?ts)) / real (length ?ts) * 100),
               impact = 50\<rparr>], 20)"
      using that by (simp add: deadline_risk_def Let_def)
    then have run: "run_risk now p ?ts ?b =
            (\<lparr>rf_type = ''task_overdue'', severity = ''medium'',
               rf_message = TasksOverdue (length (filter (is_overdue now) ?ts))
                              (real (length (filter (is_overdue now) ?ts)) / real (length ?ts) * 100),
               impact = 50\<rparr> # fst ?rest, 20 + snd ?rest)"
      by (simp add: run_risk_split)
    have "set (risk_factors r) = set (fst (run_risk now p ?ts ?b))"
      unfolding r risk_assessment_run by simp
    moreover have "overall_risk_score r = min (snd (run_risk now p ?ts ?b)) 100"
      unfolding r by (rule risk_assessment_run)
    ultimately show ?thesis
      unfolding run by simp
  qed
  show ?thesis using 1 2 by blast
qed

lemma ex_overdue_deadline_get:
  "get_risk_assessment ex_db_overdue_deadline (timedelta_days 1) 1 1 = Inr ex_risk_overdue_deadline"
  by (simp add: get_risk_assessment_def ex_db_overdue_deadline_def ex_db_overdue_def
        ex_project_deadline_def ex_project_def ex_user_def get_project_or_404_def
        ex_risk_overdue_deadline_def tasks_of_def budget_first_def ex_task_overdue_def
        any_member_def Let_def)

lemma ex_overdue_deadline_project:
  "get_project_or_404 ex_db_overdue_deadline 1 = Inr ex_project_deadline"
  by (simp add: get_project_or_404_def ex_db_overdue_deadline_def ex_db_overdue_def
        ex_project_deadline_def ex_project_def)

lemma ex_overdue_deadline_hyps:
  "deadline ex_project_deadline = Some (timedelta_days 30) \<and>
   0 < days (timedelta_days 30 - timedelta_days 1) \<and>
   \<not> (days (timedelta_days 30 - timedelta_days 1) \<le> 7 \<and>
      filter (\<lambda>t. status t \<noteq> completed) (tasks_of ex_db_overdue_deadline 1) \<noteq> []) \<and>
   real (length (filter (is_overdue (timedelta_days 1)) (tasks_of ex_db_overdue_deadline 1)))
     > real (length (tasks_of ex_db_overdue_deadline 1)) * 0.3"
  by code_simp

lemma ex_overdue_deadline_score: "overall_risk_score ex_risk_overdue_deadline = 45"
  by code_simp

theorem overdue_ratio_factor_needs_deadline_witness:
  "get_risk_assessment ex_db_overdue (timedelta_days 1) 1 1 = Inr ex_risk_overdue \<and>
   deadline ex_project = None \<and>
   (''task_overdue'', ''medium'') \<notin> set (map kind (risk_factors ex_risk_overdue)) \<and>
   get_risk_assessment ex_db_overdue_deadline (timedelta_days 1) 1 1 = Inr ex_risk_overdue_deadline \<and>
   deadline ex_project_deadline = Some (timedelta_days 30) \<and>
   0 < days (timedelta_days 30 - timedelta_days 1) \<and>
   real (length (filter (is_overdue (timedelta_days 1)) (tasks_of ex_db_overdue_deadline 1)))
     > real (length (tasks_of ex_db_overdue_deadline 1)) * 0.3 \<and>
   \<lparr>rf_type = ''task_overdue'', severity = ''medium'',
    rf_message = TasksOverdue (length (filter (is_overdue (timedelta_days 1))
                                        (tasks_of ex_db_overdue_deadline 1)))
                   (real (length (filter (is_overdue (timedelta_days 1))
                                    (tasks_of ex_db_overdue_deadline 1)))
                      / real (length (tasks_of ex_db_overdue_deadline 1)) * 100),
    impact = 50\<rparr> \<in> set (risk_factors ex_risk_overdue_deadline) \<and>
   overall_risk_score ex_risk_overdue_deadline = 45"
proof -
  have n: "deadline ex_project = None"
    by (simp add: ex_project_def)
  have a: "(''task_overdue'', ''medium'') \<notin> set (map kind (risk_factors ex_risk_overdue))"
    using overdue_ratio_factor_needs_deadline[OF ex_overdue_get ex_overdue_project] n
    by blast
  have b: "\<lparr>rf_type = ''task_overdue'', severity = ''medium'',
    rf_message = TasksOverdue (length (filter (is_overdue (timedelta_days 1))
                                        (tasks_of ex_db_overdue_deadline 1)))
                   (real (length (filter (is_overdue (timedelta_days 1))
                                    (tasks_of ex_db_overdue_deadline 1)))
                      / real (length (tasks_of ex_db_overdue_deadline 1)) * 100),
    impact = 50\<rparr> \<in> set (risk_factors ex_risk_overdue_deadline)"
    using overdue_ratio_factor_needs_deadline
            [OF ex_overdue_deadline_get ex_overdue_deadline_project, of "timedelta_days 30"]
          ex_overdue_deadline_hyps
    by blast
  show ?thesis
    using ex_overdue_get n a ex_overdue_deadline_get ex_overdue_deadline_hyps b
          ex_overdue_deadline_score
    by blast
qed

section \<open>Project health\<close>

lemma py_round_rnd: "py_round n x = of_int (rnd (x * 10 ^ n)) / 10 ^ n"
  by (simp add: py_round_def rnd_def Let_def)

lemma py_round_mono: "x \<le> y \<Longrightarrow> py_round n x \<le> py_round n y"
  unfolding py_round_rnd
  by (intro divide_right_mono iffD2[OF of_int_le_iff] rnd_mono mult_right_mono) simp_all

lemma py_round_0: "py_round n 0 = 0"
  by (simp add: py_round_def)

lemma py_round_100: "py_round 1 100 = 100"
  by (simp add: py_round_def)

lemma round_float_mono: "x \<le> y \<Longrightarrow> round_float n x \<le> round_float n y"
  unfolding round_float_def by (intro fl_mono py_round_mono)

lemma round_float_0: "round_float n 0 = 0"
  by (simp add: round_float_def py_round_0 fl_0)

lemma round_float_100: "round_float 1 100 = 100"
  unfolding round_float_def py_round_100 by (rule fl_100)

lemma fold_on_time_step:
  "fst (fold on_time_step ts acc) = fst acc + length (filter completed_on_time ts)"
  by (induction ts arbitrary: acc)
     (auto simp: on_time_step_def completed_on_time_def split: option.splits prod.splits)

lemma on_time_rate_eq:
  "on_time_rate ts =
     (if filter (\<lambda>t. status t = completed) ts \<noteq> []
      then float_mul
             (int_truediv
                (int (length (filter completed_on_time (filter (\<lambda>t. status t = completed) ts))))
                (int (length (filter (\<lambda>t. status t = completed) ts))))
             100
      else 100)"
  unfolding on_time_rate_def Let_def fold_on_time_step by simp

text \<open>A percentage of a part of a list, computed in floating point, is between 0 and 100.\<close>

lemma percentage_range:
  "0 \<le> float_mul (int_truediv (int (length (filter P xs))) (int (length xs))) 100"
  "float_mul (int_truediv (int (length (filter P xs))) (int (length xs))) 100 \<le> 100"
proof -
  let ?q = "real_of_int (int (length (filter P xs))) / real_of_int (int (length xs))"
  have q0: "0 \<le> ?q" by simp
  have "real (length (filter P xs)) \<le> real (length xs)" by simp
  then have q1: "?q \<le> 1" by (simp add: divide_le_eq_1)
  have f0: "0 \<le> fl ?q" using q0 by (rule fl_nonneg)
  have "fl ?q \<le> fl 1" using q1 by (rule fl_mono)
  then have f1: "fl ?q \<le> 1" by (simp only: fl_1)
  have "0 \<le> fl ?q * 100" using f0 by simp
  then show "0 \<le> float_mul (int_truediv (int (length (filter P xs))) (int (length xs))) 100"
    unfolding float_mul_def int_truediv_def by (rule fl_nonneg)
  have "fl ?q * 100 \<le> 100" using f1 by simp
  then have "fl (fl ?q * 100) \<le> fl 100" by (rule fl_mono)
  then show "float_mul (int_truediv (int (length (filter P xs))) (int (length xs))) 100 \<le> 100"
    unfolding float_mul_def int_truediv_def by (simp only: fl_100)
qed

lemma on_time_rate_le: "on_time_rate ts \<le> 100"
  unfolding on_time_rate_eq
  using percentage_range(2)[of completed_on_time "filter (\<lambda>t. status t = completed) ts"]
  by simp

lemma overdue_pct_nonneg: "0 \<le> overdue_pct now ts"
  unfolding overdue_pct_def by (rule percentage_range(1))

lemma health_formula_le:
  assumes "0 \<le> x" and "y \<le> 100"
  shows "health_formula x y \<le> 100"
proof -
  have "0 \<le> x * 2" using assms(1) by simp
  then have "0 \<le> fl (x * 2)" by (rule fl_nonneg)
  then have "100 - fl (x * 2) \<le> 100" by simp
  then have "fl (100 - fl (x * 2)) \<le> fl 100" by (rule fl_mono)
  then have a: "fl (100 - fl (x * 2)) \<le> 100" by (simp only: fl_100)
  have "0 \<le> 100 - y" using assms(2) by simp
  then have "0 \<le> fl (100 - y)" by (rule fl_nonneg)
  then have "0 \<le> fl (100 - y) * 0.5" by simp
  then have b: "0 \<le> fl (fl (100 - y) * 0.5)" by (rule fl_nonneg)
  have "fl (100 - fl (x * 2)) - fl (fl (100 - y) * 0.5) \<le> 100" using a b by linarith
  then have "fl (fl (100 - fl (x * 2)) - fl (fl (100 - y) * 0.5)) \<le> fl 100" by (rule fl_mono)
  then show ?thesis
    unfolding health_formula_def float_sub_def float_mul_def by (simp only: fl_100)
qed

lemma health_formula_mono:
  assumes "x \<le> x'" and "100 - y \<le> 100 - y'"
  shows "health_formula x' y' \<le> health_formula x y"
proof -
  have "x * 2 \<le> x' * 2" using assms(1) by simp
  then have "fl (x * 2) \<le> fl (x' * 2)" by (rule fl_mono)
  then have "100 - fl (x' * 2) \<le> 100 - fl (x * 2)" by simp
  then have a: "fl (100 - fl (x' * 2)) \<le> fl (100 - fl (x * 2))" by (rule fl_mono)
  have "fl (100 - y) \<le> fl (100 - y')" using assms(2) by (rule fl_mono)
  then have "fl (100 - y) * 0.5 \<le> fl (100 - y') * 0.5" by simp
  then have b: "fl (fl (100 - y) * 0.5) \<le> fl (fl (100 - y') * 0.5)" by (rule fl_mono)
  have "fl (100 - fl (x' * 2)) - fl (fl (100 - y') * 0.5)
          \<le> fl (100 - fl (x * 2)) - fl (fl (100 - y) * 0.5)"
    using a b by linarith
  then show ?thesis
    unfolding health_formula_def float_sub_def float_mul_def by (rule fl_mono)
qed

lemma raw_health_score_clamp:
  "raw_health_score now ts =
     clamp 0 100 (health_formula (overdue_pct now ts) (on_time_rate ts))"
  using health_formula_le[OF overdue_pct_nonneg[of now ts] on_time_rate_le[of ts]]
  by (simp add: raw_health_score_def clamp_def min_def)

lemma clamp_range: "0 \<le> clamp 0 100 x" "clamp 0 100 x \<le> 100"
  by (simp_all add: clamp_def)

lemma clamp_mono: "x \<le> y \<Longrightarrow> clamp 0 100 x \<le> clamp 0 100 y"
  by (simp add: clamp_def)

lemma project_health_score:
  "ts \<noteq> [] \<Longrightarrow> health_score (project_health now ts) = round_float 1 (raw_health_score now ts)"
  by (simp add: project_health_def Let_def)

lemma project_health_on_time:
  "ts \<noteq> [] \<Longrightarrow>
   on_time_completion_rate (project_health now ts) = round_float 1 (on_time_rate ts)"
  by (simp add: project_health_def Let_def)

lemma overdue_pct_counts:
  "length (filter (is_overdue now) ts) = k \<Longrightarrow> length ts = n \<Longrightarrow>
   overdue_pct now ts = float_mul (int_truediv (int k) (int n)) 100"
  by (simp add: overdue_pct_def)

lemma on_time_rate_counts:
  "length (filter (\<lambda>t. status t = completed) ts) = m \<Longrightarrow> m \<noteq> 0 \<Longrightarrow>
   length (filter completed_on_time (filter (\<lambda>t. status t = completed) ts)) = j \<Longrightarrow>
   on_time_rate ts = float_mul (int_truediv (int j) (int m)) 100"
  by (subst on_time_rate_eq) (auto simp del: filter_filter)

lemma on_time_rate_none:
  "length (filter (\<lambda>t. status t = completed) ts) = 0 \<Longrightarrow> on_time_rate ts = 100"
  by (subst on_time_rate_eq) simp

lemma health_score_values:
  "ts \<noteq> [] \<Longrightarrow> overdue_pct now ts = x \<Longrightarrow> on_time_rate ts = y \<Longrightarrow>
   health_score (project_health now ts) = round_float 1 (max 0 (health_formula x y))"
  by (simp add: project_health_score raw_health_score_def)

lemma get_project_health_Inr:
  "get_project_health d now pid uid = Inr r \<Longrightarrow> r = project_health now (tasks_of d pid)"
  by (auto simp: get_project_health_def split: sum.splits if_splits)

lemma ex_health_get:
  "get_project_health ex_db_health 0 1 1 = Inr (project_health 0 (tasks_of ex_db_health 1))"
  by (simp add: get_project_health_def get_project_or_404_def ex_db_health_def ex_project_def
        ex_user_def any_member_def)

lemma ex_health_completed: "filter (\<lambda>t. status t = completed) (tasks_of ex_db_health 1) \<noteq> []"
  by code_simp

lemma ex_health_nonempty: "tasks_of ex_db_health 1 \<noteq> []"
  by code_simp

lemma ex_health_counts:
  "length (tasks_of ex_db_health 1) = 2"
  "length (filter (is_overdue 0) (tasks_of ex_db_health 1)) = 0"
  "length (filter (\<lambda>t. status t = completed) (tasks_of ex_db_health 1)) = 2"
  "length (filter completed_on_time
             (filter (\<lambda>t. status t = completed) (tasks_of ex_db_health 1))) = 1"
  by code_simp+

lemma ex_health_on_time: "on_time_rate (tasks_of ex_db_health 1) = float_mul (int_truediv 1 2) 100"
  using on_time_rate_counts[OF ex_health_counts(3) _ ex_health_counts(4)] by simp

lemma ex_health_pct:
  "overdue_pct 0 (tasks_of ex_db_health 1) = float_mul (int_truediv 0 2) 100"
  using overdue_pct_counts[OF ex_health_counts(2,1)] by simp

lemma ex_health_rate: "on_time_completion_rate (project_health 0 (tasks_of ex_db_health 1)) = 50"
  unfolding project_health_on_time[OF ex_health_nonempty] ex_health_on_time
  by (simp add: float_eval)

lemma ex_health_claimed: "claimed_on_time_rate (tasks_of ex_db_health 1) = 100"
  by code_simp

text \<open>
  C2, as stated, fails. The example project has two completed tasks; one was completed
  before its due date, the other has no due date. The claimed rate leaves the second out
  of the denominator and is 1 / 1 = 100 percent; the rate returned is 1 / 2 = 50 percent.
\<close>

theorem on_time_rate_denominator_counterexample:
  "get_project_health ex_db_health 0 1 1 = Inr (project_health 0 (tasks_of ex_db_health 1)) \<and>
   filter (\<lambda>t. status t = completed) (tasks_of ex_db_health 1) \<noteq> [] \<and>
   on_time_completion_rate (project_health 0 (tasks_of ex_db_health 1)) = 50 \<and>
   claimed_on_time_rate (tasks_of ex_db_health 1) = 100"
  using ex_health_get ex_health_completed ex_health_rate ex_health_claimed by blast

text \<open>
  C2, amended. For every project with at least one completed task, the on-time
  completion rate returned by \<open>get_project_health\<close> is computed from the number of
  completed tasks that have both a due date and a completion timestamp and were
  completed at or before the due date, and the number of all completed tasks: the
  quotient of the two, rounded to a float, times 100, rounded to a float, and then
  rounded to one decimal by \<open>round\<close>. A completed task that misses either date stays in
  the denominator.
\<close>

theorem on_time_rate_over_all_completed:
  assumes "get_project_health d now pid uid = Inr r"
      and "filter (\<lambda>t. status t = completed) (tasks_of d pid) \<noteq> []"
  shows "on_time_completion_rate r =
           round_float 1
             (float_mul
                (int_truediv
                   (int (length (filter completed_on_time
                                   (filter (\<lambda>t. status t = completed) (tasks_of d pid)))))
                   (int (length (filter (\<lambda>t. status t = completed) (tasks_of d pid)))))
                100)"
proof -
  have ne: "tasks_of d pid \<noteq> []"
    using assms(2) by auto
  have "r = project_health now (tasks_of d pid)"
    using get_project_health_Inr[OF assms(1)] .
  then have "on_time_completion_rate r = round_float 1 (on_time_rate (tasks_of d pid))"
    using project_health_on_time[OF ne] by simp
  moreover have "on_time_rate (tasks_of d pid) =
      float_mul
        (int_truediv
           (int (length (filter completed_on_time
                           (filter (\<lambda>t. status t = completed) (tasks_of d pid)))))
           (int (length (filter (\<lambda>t. status t = completed) (tasks_of d pid)))))
        100"
    using assms(2) by (subst on_time_rate_eq) (simp del: filter_filter)
  ultimately show ?thesis by (simp del: filter_filter)
qed

lemma ex_eighty_get:
  "get_project_health ex_db_eighty 0 1 1 = Inr (project_health 0 (tasks_of ex_db_eighty 1))"
  by (simp add: get_project_health_def get_project_or_404_def ex_db_eighty_def ex_db_health_def
        ex_project_def ex_user_def any_member_def)

lemma ex_eighty_counts:
  "filter (\<lambda>t. status t = completed) (tasks_of ex_db_eighty 1) \<noteq> []"
  "length (filter completed_on_time
             (filter (\<lambda>t. status t = completed) (tasks_of ex_db_eighty 1))) = 23"
  "length (filter (\<lambda>t. status t = completed) (tasks_of ex_db_eighty 1)) = 80"
  by code_simp+

lemma ex_eighty_values:
  "round_float 1 (float_mul (int_truediv 23 80) 100) = fl (287 / 10)"
  "float_mul (int_truediv 23 80) 100 = 8092405580431359 / 281474976710656"
  "fl (287 / 10) = 8078331831595827 / 281474976710656"
  "py_round 1 (23 / 80 * 100) = 288 / 10"
  by (simp_all add: float_eval)

text \<open>
  With 23 of 80 completed tasks on time, 23 / 80 * 100 is 28.749999999999996 in floating
  point and the rate returned is the float 28.7; the exact quotient 28.75 would be
  rounded to 28.8.
\<close>

theorem on_time_rate_over_all_completed_witness:
  "get_project_health ex_db_eighty 0 1 1 = Inr (project_health 0 (tasks_of ex_db_eighty 1)) \<and>
   filter (\<lambda>t. status t = completed) (tasks_of ex_db_eighty 1) \<noteq> [] \<and>
   length (filter completed_on_time
             (filter (\<lambda>t. status t = completed) (tasks_of ex_db_eighty 1))) = 23 \<and>
   length (filter (\<lambda>t. status t = completed) (tasks_of ex_db_eighty 1)) = 80 \<and>
   on_time_completion_rate (project_health 0 (tasks_of ex_db_eighty 1)) =
     round_float 1 (float_mul (int_truediv 23 80) 100) \<and>
   float_mul (int_truediv 23 80) 100 = 8092405580431359 / 281474976710656 \<and>
   on_time_completion_rate (project_health 0 (tasks_of ex_db_eighty 1)) = fl (287 / 10) \<and>
   fl (287 / 10) = 8078331831595827 / 281474976710656 \<and>
   py_round 1 (23 / 80 * 100) = 288 / 10"
proof -
  have a: "on_time_completion_rate (project_health 0 (tasks_of ex_db_eighty 1)) =
          round_float 1 (float_mul (int_truediv 23 80) 100)"
    using on_time_rate_over_all_completed[OF ex_eighty_get ex_eighty_counts(1)]
    unfolding ex_eighty_counts(2,3) of_nat_numeral .
  have b: "on_time_completion_rate (project_health 0 (tasks_of ex_db_eighty 1)) = fl (287 / 10)"
    using a ex_eighty_values(1) by (rule trans)
  show ?thesis
    using a b ex_eighty_get ex_eighty_counts ex_eighty_values(2,3,4) by blast
qed

lemma ex_third_get:
  "get_project_health ex_db_third (timedelta_days 1) 1 1 =
     Inr (project_health (timedelta_days 1) (tasks_of ex_db_third 1))"
  by (simp add: get_project_health_def get_project_or_404_def ex_db_third_def ex_project_def
        ex_user_def any_member_def)

lemma ex_third_nonempty: "tasks_of ex_db_third 1 \<noteq> []"
  by code_simp

lemma ex_third_counts:
  "length (tasks_of ex_db_third 1) = 3"
  "length (filter (is_overdue (timedelta_days 1)) (tasks_of ex_db_third 1)) = 1"
  "length (filter (\<lambda>t. status t = completed) (tasks_of ex_db_third 1)) = 0"
  by code_simp+

lemma ex_third_overdue_pct:
  "overdue_pct (timedelta_days 1) (tasks_of ex_db_third 1) = float_mul (int_truediv 1 3) 100"
  using overdue_pct_counts[OF ex_third_counts(2,1)] by simp

lemma ex_third_on_time: "on_time_rate (tasks_of ex_db_third 1) = 100"
  using ex_third_counts(3) by (rule on_time_rate_none)

lemma ex_third_score:
  "health_score (project_health (timedelta_days 1) (tasks_of ex_db_third 1)) = fl (333 / 10)"
  unfolding health_score_values[OF ex_third_nonempty ex_third_overdue_pct ex_third_on_time]
  by (simp add: float_eval health_formula_def)

lemma ex_third_clamp:
  "clamp 0 100 (health_formula (overdue_pct (timedelta_days 1) (tasks_of ex_db_third 1))
                  (on_time_rate (tasks_of ex_db_third 1)))
     = 1172812402961067 / 35184372088832"
  unfolding ex_third_overdue_pct ex_third_on_time
  by (simp add: float_eval health_formula_def clamp_def)

lemma ex_third_exact:
  "clamp 0 100 (100 - (1 / 3 * 100) * 2 - (100 - 100) * 0.5) = 100 / 3"
  by (simp add: clamp_def)

lemma ex_third_values:
  "fl (333 / 10) = 2343279181116211 / 70368744177664"
  "fl (333 / 10) \<noteq> 100 / 3"
  by (simp_all add: float_eval)

lemma ex_drift_get:
  "get_project_health ex_db_drift (timedelta_days 1) 1 1 =
     Inr (project_health (timedelta_days 1) (tasks_of ex_db_drift 1))"
  by (simp add: get_project_health_def get_project_or_404_def ex_db_drift_def ex_db_health_def
        ex_project_def ex_user_def any_member_def)

lemma ex_drift_counts:
  "length (tasks_of ex_db_drift 1) = 25"
  "length (filter (is_overdue (timedelta_days 1)) (tasks_of ex_db_drift 1)) = 7"
  "length (filter (\<lambda>t. status t = completed) (tasks_of ex_db_drift 1)) = 8"
  "length (filter completed_on_time
             (filter (\<lambda>t. status t = completed) (tasks_of ex_db_drift 1))) = 3"
  by code_simp+

lemma ex_drift_nonempty: "tasks_of ex_db_drift 1 \<noteq> []"
  using ex_drift_counts(1) by auto

lemma ex_drift_overdue_pct:
  "overdue_pct (timedelta_days 1) (tasks_of ex_db_drift 1) = float_mul (int_truediv 7 25) 100"
  using overdue_pct_counts[OF ex_drift_counts(2,1)] by simp

lemma ex_drift_on_time:
  "on_time_rate (tasks_of ex_db_drift 1) = float_mul (int_truediv 3 8) 100"
  using on_time_rate_counts[OF ex_drift_counts(3) _ ex_drift_counts(4)] by simp

lemma ex_drift_score:
  "health_score (project_health (timedelta_days 1) (tasks_of ex_db_drift 1)) = fl (127 / 10)"
  unfolding health_score_values[OF ex_drift_nonempty ex_drift_overdue_pct ex_drift_on_time]
  by (simp add: float_eval health_formula_def)

lemma ex_drift_exact:
  "py_round 1 (clamp 0 100 (100 - (7 / 25 * 100) * 2 - (100 - 3 / 8 * 100) * 0.5)) = 128 / 10"
  by (simp add: clamp_def py_round_def)

lemma ex_drift_values:
  "float_mul (int_truediv 7 25) 100 = 7881299347898369 / 281474976710656"
  "health_formula (float_mul (int_truediv 7 25) 100) (float_mul (int_truediv 3 8) 100)
     = 1794402976530431 / 140737488355328"
  "fl (127 / 10) \<noteq> fl (128 / 10)"
  by (simp_all add: float_eval health_formula_def)

text \<open>
  C7, as stated, fails by the rounding of the output. With one task overdue out of three
  and none completed, the clamped expression is 33.33333333333334 in floating point
  (100 / 3 in exact arithmetic) and the health score returned is the float 33.3.

  Nor is the score the exact expression rounded to one decimal. With 7 of 25 tasks
  overdue and 3 of 8 completed tasks on time, the exact expression is 12.75, which
  rounds to 12.8; in floating point the overdue percentage is 28.000000000000004, the
  expression is 12.749999999999993, and the health score returned is the float 12.7.
\<close>

theorem health_score_rounded_counterexample:
  "tasks_of ex_db_third 1 \<noteq> [] \<and>
   get_project_health ex_db_third (timedelta_days 1) 1 1 =
     Inr (project_health (timedelta_days 1) (tasks_of ex_db_third 1)) \<and>
   health_score (project_health (timedelta_days 1) (tasks_of ex_db_third 1)) = fl (333 / 10) \<and>
   fl (333 / 10) = 2343279181116211 / 70368744177664 \<and>
   clamp 0 100 (health_formula (overdue_pct (timedelta_days 1) (tasks_of ex_db_third 1))
                  (on_time_rate (tasks_of ex_db_third 1)))
     = 1172812402961067 / 35184372088832 \<and>
   clamp 0 100 (100 - (1 / 3 * 100) * 2 - (100 - 100) * 0.5) = 100 / 3 \<and>
   fl (333 / 10) \<noteq> 100 / 3 \<and>
   get_project_health ex_db_drift (timedelta_days 1) 1 1 =
     Inr (project_health (timedelta_days 1) (tasks_of ex_db_drift 1)) \<and>
   overdue_pct (timedelta_days 1) (tasks_of ex_db_drift 1) = float_mul (int_truediv 7 25) 100 \<and>
   on_time_rate (tasks_of ex_db_drift 1) = float_mul (int_truediv 3 8) 100 \<and>
   health_formula (float_mul (int_truediv 7 25) 100) (float_mul (int_truediv 3 8) 100)
     = 1794402976530431 / 140737488355328 \<and>
   health_score (project_health (timedelta_days 1) (tasks_of ex_db_drift 1)) = fl (127 / 10) \<and>
   py_round 1 (clamp 0 100 (100 - (7 / 25 * 100) * 2 - (100 - 3 / 8 * 100) * 0.5)) = 128 / 10 \<and>
   fl (127 / 10) \<noteq> fl (128 / 10)"
  using ex_third_nonempty ex_third_get ex_third_score ex_third_clamp ex_third_exact
        ex_third_values ex_drift_get ex_drift_overdue_pct ex_drift_on_time ex_drift_score
        ex_drift_exact ex_drift_values(2,3)
  by blast

text \<open>
  C7, amended. For every non-empty task set, the health score returned by
  \<open>get_project_health\<close> is clamp(0, 100, 100 - overdue_percentage * 2 -
  (100 - on_time_rate) * 0.5), with each operation of the expression rounded to a float,
  rounded to one decimal by \<open>round\<close>; the percentage and the rate are the floats the
  code computes, before their own rounding for output. It lies in [0, 100], and it is
  monotonically non-increasing in overdue_percentage and in (100 - on_time_rate): a
  project in which neither is smaller has a health score that is not larger.
\<close>

theorem health_score_rounded_clamp:
  assumes "get_project_health d now pid uid = Inr r"
      and "tasks_of d pid \<noteq> []"
  shows "health_score r =
           round_float 1
             (clamp 0 100 (health_formula (overdue_pct now (tasks_of d pid))
                             (on_time_rate (tasks_of d pid)))) \<and>
         0 \<le> health_score r \<and> health_score r \<le> 100 \<and>
         (get_project_health d' now' pid' uid' = Inr r' \<and> tasks_of d' pid' \<noteq> [] \<and>
          overdue_pct now (tasks_of d pid) \<le> overdue_pct now' (tasks_of d' pid') \<and>
          100 - on_time_rate (tasks_of d pid) \<le> 100 - on_time_rate (tasks_of d' pid')
            \<longrightarrow> health_score r' \<le> health_score r)"
proof -
  let ?x = "health_formula (overdue_pct now (tasks_of d pid)) (on_time_rate (tasks_of d pid))"
  have r: "health_score r = round_float 1 (clamp 0 100 ?x)"
    using get_project_health_Inr[OF assms(1)] project_health_score[OF assms(2), of now]
    by (simp add: raw_health_score_clamp)
  have lo: "0 \<le> health_score r"
    unfolding r using round_float_mono[OF clamp_range(1)[of ?x], of 1] round_float_0[of 1]
    by simp
  have hi: "health_score r \<le> 100"
    unfolding r using round_float_mono[OF clamp_range(2)[of ?x], of 1] round_float_100
    by simp
  have mono: "health_score r' \<le> health_score r"
    if g: "get_project_health d' now' pid' uid' = Inr r'" and ne: "tasks_of d' pid' \<noteq> []"
    and o: "overdue_pct now (tasks_of d pid) \<le> overdue_pct now' (tasks_of d' pid')"
    and t: "100 - on_time_rate (tasks_of d pid) \<le> 100 - on_time_rate (tasks_of d' pid')"
  proof -
    let ?y = "health_formula (overdue_pct now' (tasks_of d' pid'))
                (on_time_rate (tasks_of d' pid'))"
    have r': "health_score r' = round_float 1 (clamp 0 100 ?y)"
      using get_project_health_Inr[OF g] project_health_score[OF ne, of now']
      by (simp add: raw_health_score_clamp)
    have "?y \<le> ?x"
      using o t by (rule health_formula_mono)
    then have "clamp 0 100 ?y \<le> clamp 0 100 ?x"
      by (rule clamp_mono)
    then show ?thesis
      unfolding r r' by (rule round_float_mono)
  qed
  show ?thesis using r lo hi mono by blast
qed

lemma ex_health_overdue_get:
  "get_project_health ex_db_health_overdue (timedelta_days 1) 1 1 =
     Inr (project_health (timedelta_days 1) (tasks_of ex_db_health_overdue 1))"
  by (simp add: get_project_health_def get_project_or_404_def ex_db_health_overdue_def
        ex_db_health_def ex_project_def ex_user_def any_member_def)

lemma ex_health_overdue_counts:
  "length (tasks_of ex_db_health_overdue 1) = 3"
  "length (filter (is_overdue (timedelta_days 1)) (tasks_of ex_db_health_overdue 1)) = 1"
  "length (filter (\<lambda>t. status t = completed) (tasks_of ex_db_health_overdue 1)) = 2"
  "length (filter completed_on_time
             (filter (\<lambda>t. status t = completed) (tasks_of ex_db_health_overdue 1))) = 1"
  by code_simp+

lemma ex_health_overdue_nonempty: "tasks_of ex_db_health_overdue 1 \<noteq> []"
  using ex_health_overdue_counts(1) by auto

lemma ex_health_overdue_pct:
  "overdue_pct (timedelta_days 1) (tasks_of ex_db_health_overdue 1)
     = float_mul (int_truediv 1 3) 100"
  using overdue_pct_counts[OF ex_health_overdue_counts(2,1)] by simp

lemma ex_health_overdue_on_time:
  "on_time_rate (tasks_of ex_db_health_overdue 1) = float_mul (int_truediv 1 2) 100"
  using on_time_rate_counts[OF ex_health_overdue_counts(3) _ ex_health_overdue_counts(4)]
  by simp

lemma ex_health_overdue_facts:
  "tasks_of ex_db_health_overdue 1 \<noteq> [] \<and>
   overdue_pct 0 (tasks_of ex_db_health 1)
     \<le> overdue_pct (timedelta_days 1) (tasks_of ex_db_health_overdue 1) \<and>
   100 - on_time_rate (tasks_of ex_db_health 1)
     \<le> 100 - on_time_rate (tasks_of ex_db_health_overdue 1)"
  unfolding ex_health_pct ex_health_on_time ex_health_overdue_pct ex_health_overdue_on_time
  using ex_health_overdue_nonempty by (simp add: float_eval)

lemma ex_health_scores:
  "health_score (project_health 0 (tasks_of ex_db_health 1)) = 75"
  "health_score (project_health (timedelta_days 1) (tasks_of ex_db_health_overdue 1)) = fl (83 / 10)"
  unfolding health_score_values[OF ex_health_nonempty ex_health_pct ex_health_on_time]
    health_score_values[OF ex_health_overdue_nonempty ex_health_overdue_pct
      ex_health_overdue_on_time]
  by (simp_all add: float_eval health_formula_def)

theorem health_score_rounded_clamp_witness:
  "get_project_health ex_db_health 0 1 1 = Inr (project_health 0 (tasks_of ex_db_health 1)) \<and>
   tasks_of ex_db_health 1 \<noteq> [] \<and>
   get_project_health ex_db_health_overdue (timedelta_days 1) 1 1 =
     Inr (project_health (timedelta_days 1) (tasks_of ex_db_health_overdue 1)) \<and>
   tasks_of ex_db_health_overdue 1 \<noteq> [] \<and>
   overdue_pct 0 (tasks_of ex_db_health 1)
     \<le> overdue_pct (timedelta_days 1) (tasks_of ex_db_health_overdue 1) \<and>
   100 - on_time_rate (tasks_of ex_db_health 1)
     \<le> 100 - on_time_rate (tasks_of ex_db_health_overdue 1) \<and>
   health_score (project_health (timedelta_days 1) (tasks_of ex_db_health_overdue 1))
     \<le> health_score (project_health 0 (tasks_of ex_db_health 1)) \<and>
   health_score (project_health 0 (tasks_of ex_db_health 1)) = 75 \<and>
   health_score (project_health (timedelta_days 1) (tasks_of ex_db_health_overdue 1))
     = fl (83 / 10)"
  using health_score_rounded_clamp
          [OF ex_health_get ex_health_nonempty,
           of ex_db_health_overdue "timedelta_days 1" 1 1
              "project_health (timedelta_days 1) (tasks_of ex_db_health_overdue 1)"]
        ex_health_get ex_health_nonempty ex_health_overdue_get ex_health_overdue_facts
        ex_health_scores
  by blast

section \<open>Recommendation generators\<close>

text \<open>
  C9. The claim is that every recommendation generator (risk, performance, forecast,
  variance) answers with a single affirmative message when none of its rules fires. The
  risk and the variance generators do. The performance and the forecast generators have
  no such fallback: for a stable trend, a predicted rate of 60 and high confidence, and
  for a forecast of high confidence with no budget and a flat trend, they return the
  empty list.
\<close>

theorem recommendations_may_be_empty:
  "generate_performance_recommendations ''stable'' 60 ''high'' = [] \<and>
   generate_forecast_recommendations [ex_forecast_point] None 0 = [] \<and>
   generate_risk_recommendations [] p ts =
     [Advice ''Project is on track - maintain current practices''] \<and>
   generate_variance_recommendations [] [] 0 =
     [Advice ''Budget variance within acceptable range - maintain current controls'']"
  by (simp add: generate_performance_recommendations_def generate_forecast_recommendations_def
        generate_risk_recommendations_def generate_variance_recommendations_def
        ex_forecast_point_def mean_def)

section \<open>Time buckets\<close>

lemma rev_map_upt_nth: "i < n \<Longrightarrow> rev (map f [0..<n]) ! (n - Suc i) = f i"
  by (simp add: rev_nth)

lemma case_option_ex:
  "(case x of None \<Rightarrow> False | Some u \<Rightarrow> P u) = (\<exists>u. x = Some u \<and> P u)"
  by (cases x) auto

lemma week_data_nth:
  assumes "i < 12"
  shows "week_data clock ts ! (11 - i) =
    (date_key (fst (week_bucket clock i)),
     length (filter (\<lambda>t. status t = completed \<and>
               (\<exists>u. last_progress_update t = Some u \<and>
                    fst (week_bucket clock i) \<le> u \<and> u \<le> snd (week_bucket clock i))) ts))"
proof -
  have "week_data clock ts ! (12 - Suc i) =
          (date_key (fst (week_bucket clock i)), week_completed (week_bucket clock i) ts)"
    unfolding week_data_def using assms by (rule rev_map_upt_nth)
  then show ?thesis
    by (simp add: week_completed_def counted_def case_option_ex)
qed

lemma monthly_expenses_trend_nth:
  assumes "i < 12"
  shows "monthly_expenses_trend clock es ! (11 - i) =
    (month_key (fst (month_bucket (clock i) i)),
     sum_list (map amount (filter (\<lambda>e. fst (month_bucket (clock i) i) \<le> incurred_at e \<and>
                                        incurred_at e \<le> snd (month_bucket (clock i) i)) es)))"
proof -
  have "monthly_expenses_trend clock es ! (12 - Suc i) =
          (month_key (fst (month_bucket (clock i) i)), month_total (month_bucket (clock i) i) es)"
    unfolding monthly_expenses_trend_def using assms by (rule rev_map_upt_nth)
  then show ?thesis
    by (simp add: month_total_def counted_def)
qed

lemma monthly_variance_nth:
  assumes "i < 6"
  shows "mv_actual (monthly_variance_of budget es now ! (5 - i)) =
    py_round 2 (sum_list (map amount (filter (\<lambda>e. fst (month_bucket now i) \<le> incurred_at e \<and>
                                        incurred_at e \<le> snd (month_bucket now i)) es)))"
proof -
  have "monthly_variance_of budget es now ! (6 - Suc i) = variance_month budget es now i"
    unfolding monthly_variance_of_def using assms by (rule rev_map_upt_nth)
  then show ?thesis
    by (simp add: variance_month_def month_total_def counted_def Let_def)
qed

lemma month_bucket_adjacent: "snd (month_bucket now (Suc i)) = fst (month_bucket now i)"
  by (simp add: month_bucket_def Let_def timedelta_days_def algebra_simps)

lemma month_bucket_ordered: "fst (month_bucket now i) \<le> snd (month_bucket now i)"
  by (simp add: month_bucket_def Let_def timedelta_days_def usec_per_day_def)

lemma productivity_week_data:
  "tasks_completed_per_week (get_productivity_metrics d now clock uid None) =
     week_data clock (filter (\<lambda>t. t_owner_id t = uid) (tasks d))"
  by (simp add: get_productivity_metrics_def Let_def)

lemma resource_monthly_expenses:
  "(case get_resource_utilization d clock pid uid of
      Inl e \<Rightarrow> True
    | Inr r \<Rightarrow> ru_monthly_expenses r = monthly_expenses_trend clock (expenses_of d pid))"
  by (simp add: get_resource_utilization_def Let_def split: sum.splits)

lemma variance_monthly_variance:
  "(case budget_first d pid of
      None \<Rightarrow> True
    | Some b \<Rightarrow>
        (case budget_variance_analysis_try d now uid pid of
           Inl e \<Rightarrow> True
         | Inr r \<Rightarrow> get_budget_variance_analysis d now uid pid = Inr r \<and>
                    vr_monthly_variance r = monthly_variance_of b (expenses_of d pid) now))"
  by (simp add: get_budget_variance_analysis_def budget_variance_analysis_try_def Let_def
           split: sum.splits option.splits)

lemma ex_boundary_get: "get_budget_variance_analysis ex_db_boundary 0 1 1 = Inr ex_variance_boundary"
  by code_simp

lemma ex_boundary_actual:
  "map mv_actual (vr_monthly_variance ex_variance_boundary) = [0, 0, 0, 10, 10, 0]"
  by code_simp

lemma ex_boundary_counted:
  "counted (month_bucket 0 2) (incurred_at ex_expense_boundary) \<and>
   \<not> half_open (month_bucket 0 2) (incurred_at ex_expense_boundary) \<and>
   counted (month_bucket 0 1) (incurred_at ex_expense_boundary)"
  by code_simp

lemma ex_boundary_expenses: "expenses_of ex_db_boundary 1 = [ex_expense_boundary]"
  by code_simp

text \<open>
  C3, as stated, fails. The project has a single expense of 10, incurred at the instant
  that ends the bucket two months back and starts the bucket one month back. The expense
  is not in the half-open interval of the first of the two, yet
  \<open>get_budget_variance_analysis\<close> counts it there, and in the second as well: the six
  monthly actuals are 0, 0, 0, 10, 10, 0.
\<close>

theorem bucket_boundary_counterexample:
  "get_budget_variance_analysis ex_db_boundary 0 1 1 = Inr ex_variance_boundary \<and>
   expenses_of ex_db_boundary 1 = [ex_expense_boundary] \<and>
   map mv_actual (vr_monthly_variance ex_variance_boundary) = [0, 0, 0, 10, 10, 0] \<and>
   incurred_at ex_expense_boundary = snd (month_bucket 0 2) \<and>
   incurred_at ex_expense_boundary = fst (month_bucket 0 1) \<and>
   \<not> half_open (month_bucket 0 2) (incurred_at ex_expense_boundary) \<and>
   counted (month_bucket 0 2) (incurred_at ex_expense_boundary) \<and>
   counted (month_bucket 0 1) (incurred_at ex_expense_boundary)"
proof -
  have "incurred_at ex_expense_boundary = snd (month_bucket 0 2)"
       "incurred_at ex_expense_boundary = fst (month_bucket 0 1)"
    by code_simp+
  then show ?thesis
    using ex_boundary_get ex_boundary_expenses ex_boundary_actual ex_boundary_counted by blast
qed

text \<open>
  C3, amended. In each of the three time-bucketed aggregations (the weekly completed
  tasks of \<open>get_productivity_metrics\<close>, the monthly expenses of
  \<open>get_resource_utilization\<close>, the monthly variance of
  \<open>get_budget_variance_analysis\<close>) the buckets come out in chronological order and a
  record is counted in a bucket iff its timestamp falls in the closed interval
  [bucket_start, bucket_end]. The buckets of the variance analysis share their
  boundaries, so a record whose timestamp equals the boundary of two adjacent buckets is
  counted in both of them.
\<close>

theorem buckets_are_closed_intervals:
  "tasks_completed_per_week (get_productivity_metrics d now clock uid None) =
     week_data clock (filter (\<lambda>t. t_owner_id t = uid) (tasks d)) \<and>
   (i < 12 \<longrightarrow>
      week_data clock ts ! (11 - i) =
        (date_key (fst (week_bucket clock i)),
         length (filter (\<lambda>t. status t = completed \<and>
                   (\<exists>u. last_progress_update t = Some u \<and>
                        fst (week_bucket clock i) \<le> u \<and> u \<le> snd (week_bucket clock i))) ts))) \<and>
   (case get_resource_utilization d clock pid uid of
      Inl e \<Rightarrow> True
    | Inr r \<Rightarrow> ru_monthly_expenses r = monthly_expenses_trend clock (expenses_of d pid)) \<and>
   (i < 12 \<longrightarrow>
      monthly_expenses_trend clock es ! (11 - i) =
        (month_key (fst (month_bucket (clock i) i)),
         sum_list (map amount
           (filter (\<lambda>e. fst (month_bucket (clock i) i) \<le> incurred_at e \<and>
                         incurred_at e \<le> snd (month_bucket (clock i) i)) es)))) \<and>
   (case budget_first d pid of
      None \<Rightarrow> True
    | Some b \<Rightarrow>
        (case budget_variance_analysis_try d now uid pid of
           Inl e \<Rightarrow> True
         | Inr r \<Rightarrow> get_budget_variance_analysis d now uid pid = Inr r \<and>
                    vr_monthly_variance r = monthly_variance_of b (expenses_of d pid) now)) \<and>
   (j < 6 \<longrightarrow>
      mv_actual (monthly_variance_of budget es now ! (5 - j)) =
        py_round 2 (sum_list (map amount
          (filter (\<lambda>e. fst (month_bucket now j) \<le> incurred_at e \<and>
                        incurred_at e \<le> snd (month_bucket now j)) es)))) \<and>
   snd (month_bucket now (Suc j)) = fst (month_bucket now j) \<and>
   (t = fst (month_bucket now j) \<longrightarrow>
      counted (month_bucket now j) t \<and> counted (month_bucket now (Suc j)) t)"
proof -
  have "counted (month_bucket now j) t \<and> counted (month_bucket now (Suc j)) t"
    if "t = fst (month_bucket now j)"
    using that month_bucket_ordered[of now j] month_bucket_ordered[of now "Suc j"]
          month_bucket_adjacent[of now j]
    by (simp add: counted_def)
  then show ?thesis
    using productivity_week_data[of d now clock uid] week_data_nth[of i clock ts]
          resource_monthly_expenses[where d = d and clock = clock and pid = pid and uid = uid]
          monthly_expenses_trend_nth[of i clock es]
          variance_monthly_variance[where d = d and pid = pid and now = now and uid = uid]
          monthly_variance_nth[of j budget es now]
          month_bucket_adjacent[of now j]
    by blast
qed

theorem buckets_are_closed_intervals_witness:
  "(1::nat) < 12 \<and> (1::nat) < 6 \<and>
   budget_first ex_db_boundary 1 = Some ex_budget \<and>
   get_budget_variance_analysis ex_db_boundary 0 1 1 = Inr ex_variance_boundary \<and>
   vr_monthly_variance ex_variance_boundary =
     monthly_variance_of ex_budget (expenses_of ex_db_boundary 1) 0 \<and>
   incurred_at ex_expense_boundary = fst (month_bucket 0 1) \<and>
   counted (month_bucket 0 1) (incurred_at ex_expense_boundary) \<and>
   counted (month_bucket 0 (Suc 1)) (incurred_at ex_expense_boundary) \<and>
   mv_actual (monthly_variance_of ex_budget [ex_expense_boundary] 0 ! (5 - 1)) = 10 \<and>
   mv_actual (monthly_variance_of ex_budget [ex_expense_boundary] 0 ! (5 - 2)) = 10"
proof -
  note t = buckets_are_closed_intervals
             [where d = ex_db_boundary and now = 0 and clock = "\<lambda>_. 0" and uid = 1 and pid = 1
                and i = 1 and j = 1 and ts = "[]" and es = "[ex_expense_boundary]"
                and budget = ex_budget and t = "incurred_at ex_expense_boundary"]
  have b: "budget_first ex_db_boundary 1 = Some ex_budget"
    by code_simp
  have i: "incurred_at ex_expense_boundary = fst (month_bucket 0 1)"
    by code_simp
  have c: "counted (month_bucket 0 1) (incurred_at ex_expense_boundary) \<and>
           counted (month_bucket 0 (Suc 1)) (incurred_at ex_expense_boundary)"
    using t i by blast
  have tr: "budget_variance_analysis_try ex_db_boundary 0 1 1 = Inr ex_variance_boundary"
    by code_simp
  have v: "vr_monthly_variance ex_variance_boundary =
             monthly_variance_of ex_budget (expenses_of ex_db_boundary 1) 0"
    using t b tr by simp
  have a: "mv_actual (monthly_variance_of ex_budget [ex_expense_boundary] 0 ! (5 - 1)) = 10"
          "mv_actual (monthly_variance_of ex_budget [ex_expense_boundary] 0 ! (5 - 2)) = 10"
    by code_simp+
  show ?thesis
    using b ex_boundary_get v i c a by simp
qed

section \<open>Authorization and not-found errors\<close>

lemma not_found_effects:
  assumes "get_project_or_404 d pid = Inl e"
  shows "get_resource_utilization d clock pid uid = Inl e"
    and "get_project_health d now pid uid = Inl e"
    and "get_risk_assessment d now pid uid = Inl e"
    and "get_budget_variance_analysis d now uid pid = Inr (variance_error_response e)"
    and "get_expense_forecasting d now uid pid m = Inr (forecast_error_response e m)"
    and "get_cost_optimization_analysis d uid pid = Inr (optimization_error_response e)"
  using assms
  by (simp_all add: get_resource_utilization_def get_project_health_def get_risk_assessment_def
        get_budget_variance_analysis_def budget_variance_analysis_try_def
        get_expense_forecasting_def expense_forecasting_try_def
        get_cost_optimization_analysis_def cost_optimization_analysis_try_def)

lemma not_member_effects:
  assumes "get_project_or_404 d pid = Inr p" and "\<not> any_member p uid"
  shows "get_resource_utilization d clock pid uid =
           Inl (PermissionError ''User is not a member of this project'')"
    and "get_project_health d now pid uid =
           Inl (PermissionError ''User is not a member of this project'')"
  using assms
  by (simp_all add: get_resource_utilization_def get_project_health_def)

lemma not_member_not_owner_effects:
  assumes "get_project_or_404 d pid = Inr p" and "\<not> any_member p uid" and "owner_id p \<noteq> uid"
  shows "get_risk_assessment d now pid uid =
           Inl (PermissionError ''User is not a member of this project'')"
    and "get_budget_variance_analysis d now uid pid =
           Inr (variance_error_response (PermissionError ''User is not a member of this project''))"
    and "get_expense_forecasting d now uid pid m =
           Inr (forecast_error_response (PermissionError ''User is not a member of this project'') m)"
    and "get_cost_optimization_analysis d uid pid =
           Inr (optimization_error_response
                  (PermissionError ''User is not a member of this project''))"
  using assms
  by (simp_all add: get_risk_assessment_def
        get_budget_variance_analysis_def budget_variance_analysis_try_def
        get_expense_forecasting_def expense_forecasting_try_def
        get_cost_optimization_analysis_def cost_optimization_analysis_try_def)

lemma finance_never_raise:
  "\<exists>r. get_budget_variance_analysis d now uid pid = Inr r"
  "\<exists>r. get_expense_forecasting d now uid pid m = Inr r"
  "\<exists>r. get_cost_optimization_analysis d uid pid = Inr r"
  by (auto simp: get_budget_variance_analysis_def get_expense_forecasting_def
        get_cost_optimization_analysis_def split: sum.splits)

lemma ex_db_project: "get_project_or_404 ex_db 1 = Inr ex_project"
  by (simp add: get_project_or_404_def ex_db_def ex_project_def)

lemma ex_db_no_project: "get_project_or_404 ex_db 2 = Inl NotFound"
  by (simp add: get_project_or_404_def ex_db_def ex_project_def)

lemma ex_stranger: "\<not> any_member ex_project 7" "owner_id ex_project \<noteq> 7"
  by (simp_all add: any_member_def ex_project_def ex_user_def)

text \<open>
  C1, as stated, fails for the three analyses it names. User 7 is neither a member nor
  the owner of project 1, and project 2 does not exist; in both cases each of the three
  returns a normal payload that wraps the error, and nothing reaches the caller as an
  error.
\<close>

theorem finance_analyses_catch_errors_counterexample:
  "get_project_or_404 ex_db 1 = Inr ex_project \<and>
   \<not> any_member ex_project 7 \<and> owner_id ex_project \<noteq> 7 \<and>
   get_budget_variance_analysis ex_db 0 7 1 =
     Inr (variance_error_response (PermissionError ''User is not a member of this project'')) \<and>
   get_expense_forecasting ex_db 0 7 1 3 =
     Inr (forecast_error_response (PermissionError ''User is not a member of this project'') 3) \<and>
   get_cost_optimization_analysis ex_db 7 1 =
     Inr (optimization_error_response (PermissionError ''User is not a member of this project'')) \<and>
   get_project_or_404 ex_db 2 = Inl NotFound \<and>
   get_budget_variance_analysis ex_db 0 7 2 = Inr (variance_error_response NotFound) \<and>
   get_expense_forecasting ex_db 0 7 2 3 = Inr (forecast_error_response NotFound 3) \<and>
   get_cost_optimization_analysis ex_db 7 2 = Inr (optimization_error_response NotFound) \<and>
   vr_status (variance_error_response NotFound) = ''error''"
  using ex_db_project ex_stranger ex_db_no_project
        not_member_not_owner_effects(2-4)[OF ex_db_project ex_stranger]
        not_found_effects(4-6)[OF ex_db_no_project]
  by (simp add: variance_error_response_def)

text \<open>
  C1, amended. \<open>get_resource_utilization\<close>, \<open>get_project_health\<close> and
  \<open>get_risk_assessment\<close>, invoked for a project that does not exist or for a user who
  is not a member of the project (for \<open>get_risk_assessment\<close>: neither a member nor the
  owner), raise the not-found or authorization error, which propagates to the caller
  unmodified. \<open>get_budget_variance_analysis\<close>, \<open>get_expense_forecasting\<close> and
  \<open>get_cost_optimization_analysis\<close> never raise: their handler catches the same errors
  and returns the default payload that carries the text of the error.
\<close>

theorem authorization_errors:
  "(get_project_or_404 d pid = Inl e \<longrightarrow>
      get_resource_utilization d clock pid uid = Inl e \<and>
      get_project_health d now pid uid = Inl e \<and>
      get_risk_assessment d now pid uid = Inl e \<and>
      get_budget_variance_analysis d now uid pid = Inr (variance_error_response e) \<and>
      get_expense_forecasting d now uid pid m = Inr (forecast_error_response e m) \<and>
      get_cost_optimization_analysis d uid pid = Inr (optimization_error_response e)) \<and>
   (get_project_or_404 d pid = Inr p \<and> \<not> any_member p uid \<longrightarrow>
      get_resource_utilization d clock pid uid = Inl (PermissionError ''User is not a member of this project'') \<and>
      get_project_health d now pid uid = Inl (PermissionError ''User is not a member of this project'') \<and>
      (owner_id p \<noteq> uid \<longrightarrow>
         get_risk_assessment d now pid uid = Inl (PermissionError ''User is not a member of this project'') \<and>
         get_budget_variance_analysis d now uid pid =
           Inr (variance_error_response (PermissionError ''User is not a member of this project'')) \<and>
         get_expense_forecasting d now uid pid m =
           Inr (forecast_error_response (PermissionError ''User is not a member of this project'') m) \<and>
         get_cost_optimization_analysis d uid pid =
           Inr (optimization_error_response (PermissionError ''User is not a member of this project'')))) \<and>
   (\<exists>r. get_budget_variance_analysis d now uid pid = Inr r) \<and>
   (\<exists>r. get_expense_forecasting d now uid pid m = Inr r) \<and>
   (\<exists>r. get_cost_optimization_analysis d uid pid = Inr r)"
proof (intro conjI impI)
  assume a: "get_project_or_404 d pid = Inl e"
  show "get_resource_utilization d clock pid uid = Inl e"
       "get_project_health d now pid uid = Inl e"
       "get_risk_assessment d now pid uid = Inl e"
       "get_budget_variance_analysis d now uid pid = Inr (variance_error_response e)"
       "get_expense_forecasting d now uid pid m = Inr (forecast_error_response e m)"
       "get_cost_optimization_analysis d uid pid = Inr (optimization_error_response e)"
    by (rule not_found_effects[OF a])+
next
  assume a: "get_project_or_404 d pid = Inr p \<and> \<not> any_member p uid"
  show "get_resource_utilization d clock pid uid = Inl (PermissionError ''User is not a member of this project'')"
       "get_project_health d now pid uid = Inl (PermissionError ''User is not a member of this project'')"
    using a by (simp_all add: not_member_effects)
  assume o: "owner_id p \<noteq> uid"
  show "get_risk_assessment d now pid uid = Inl (PermissionError ''User is not a member of this project'')"
       "get_budget_variance_analysis d now uid pid =
           Inr (variance_error_response (PermissionError ''User is not a member of this project''))"
       "get_expense_forecasting d now uid pid m =
           Inr (forecast_error_response (PermissionError ''User is not a member of this project'') m)"
       "get_cost_optimization_analysis d uid pid =
           Inr (optimization_error_response (PermissionError ''User is not a member of this project''))"
    using a o by (simp_all add: not_member_not_owner_effects)
next
  show "\<exists>r. get_budget_variance_analysis d now uid pid = Inr r"
       "\<exists>r. get_expense_forecasting d now uid pid m = Inr r"
       "\<exists>r. get_cost_optimization_analysis d uid pid = Inr r"
    by (rule finance_never_raise)+
qed

theorem authorization_errors_witness:
  "get_project_or_404 ex_db 2 = Inl NotFound \<and>
   get_project_health ex_db 0 2 7 = Inl NotFound \<and>
   get_risk_assessment ex_db 0 2 7 = Inl NotFound \<and>
   get_resource_utilization ex_db (\<lambda>_. 0) 2 7 = Inl NotFound \<and>
   get_expense_forecasting ex_db 0 7 2 3 = Inr (forecast_error_response NotFound 3) \<and>
   get_project_or_404 ex_db 1 = Inr ex_project \<and>
   \<not> any_member ex_project 7 \<and> owner_id ex_project \<noteq> 7 \<and>
   get_project_health ex_db 0 1 7 = Inl (PermissionError ''User is not a member of this project'') \<and>
   get_risk_assessment ex_db 0 1 7 = Inl (PermissionError ''User is not a member of this project'') \<and>
   get_resource_utilization ex_db (\<lambda>_. 0) 1 7 = Inl (PermissionError ''User is not a member of this project'') \<and>
   get_cost_optimization_analysis ex_db 7 1 =
     Inr (optimization_error_response (PermissionError ''User is not a member of this project''))"
  using authorization_errors
          [where d = ex_db and pid = 2 and e = NotFound and uid = 7 and now = 0
             and clock = "\<lambda>_. 0" and m = 3]
        authorization_errors
          [where d = ex_db and pid = 1 and p = ex_project and uid = 7 and now = 0
             and clock = "\<lambda>_. 0" and m = 3]
        ex_db_project ex_db_no_project ex_stranger
  by blast

section \<open>The threshold of the expense forecast\<close>

lemma length_add_to: "length (add_to k v kvs) \<le> Suc (length kvs)"
  by (induction kvs) auto

lemma length_fold_add_to:
  "length (fold (\<lambda>e. add_to (f e) (g e)) es acc) \<le> length acc + length es"
proof (induction es arbitrary: acc)
  case Nil
  then show ?case by simp
next
  case (Cons e es)
  have "length (fold (\<lambda>e. add_to (f e) (g e)) es (add_to (f e) (g e) acc))
          \<le> length (add_to (f e) (g e) acc) + length es"
    by (rule Cons.IH)
  also have "\<dots> \<le> Suc (length acc) + length es"
    using length_add_to[of "f e" "g e" acc] by simp
  finally show ?case by simp
qed

lemma monthly_points_le: "length (monthly_expenses_of es) \<le> length es"
  unfolding monthly_expenses_of_def
  using length_fold_add_to[of "\<lambda>e. month_key (incurred_at e)" amount es "[]"] by simp

text \<open>The loop: it completes when no round raises, and the first exception leaves it.\<close>

lemma collect_Inr:
  "(\<And>x. x \<in> set xs \<Longrightarrow> f x = Inr (g x)) \<Longrightarrow> collect f xs = Inr (map g xs)"
  by (induction xs) simp_all

lemma collect_Inl_elem: "collect f xs = Inl e \<Longrightarrow> \<exists>x\<in>set xs. f x = Inl e"
  by (induction xs) (auto split: sum.splits)

lemma collect_Inl_ex: "x \<in> set xs \<Longrightarrow> f x = Inl e \<Longrightarrow> \<exists>e'. collect f xs = Inl e'"
  by (induction xs) (auto split: sum.splits)

lemma datetime_add_days_Inl:
  "datetime_add_days t n = Inl e \<Longrightarrow> \<exists>k. e = OverflowError k"
  by (auto simp: datetime_add_days_def split: if_splits)

text \<open>
  The dates of the forecast are in range when the first and the last are: the span of
  \<open>datetime\<close> is less than 999999999 days.
\<close>

lemma datetime_add_days_in_range:
  assumes "datetime_min \<le> t" and "t + timedelta_days (30 * (m - 1)) \<le> datetime_max"
      and "i < nat m"
  shows "datetime_add_days t (int i * 30) = Inr (t + timedelta_days (int i * 30))"
proof -
  have i: "int i \<le> m - 1" using assms(3) by linarith
  have "usec_per_day * (30 * (m - 1)) \<le> datetime_max - datetime_min"
    using assms(1,2) by (simp add: timedelta_days_def mult.commute)
  then have m: "30 * (m - 1) \<le> (3652059 :: int)"
    by (simp add: datetime_max_def datetime_min_def usec_per_day_def)
  have "int i * 30 \<le> 30 * (m - 1)" using i by simp
  also note m
  finally have "int i * 30 \<le> 999999999" by simp
  moreover have "0 \<le> int i * 30" by simp
  ultimately have a: "\<bar>int i * 30\<bar> \<le> 999999999" by (simp only: abs_of_nonneg)
  have "timedelta_days (int i * 30) \<le> timedelta_days (30 * (m - 1))"
    using i by (simp add: timedelta_days_def usec_per_day_def)
  then have b: "t + timedelta_days (int i * 30) \<le> datetime_max"
    using assms(2) by linarith
  have "0 \<le> timedelta_days (int i * 30)"
    by (simp add: timedelta_days_def usec_per_day_def)
  then have c: "datetime_min \<le> t + timedelta_days (int i * 30)"
    using assms(1) by linarith
  show ?thesis using a b c by (simp add: datetime_add_days_def)
qed

lemma datetime_add_days_out_of_range:
  assumes "0 < m" and "t < datetime_min \<or> datetime_max < t + timedelta_days (30 * (m - 1))"
  shows "\<exists>i e. i < nat m \<and> datetime_add_days t (int i * 30) = Inl e"
proof (cases "t < datetime_min")
  case True
  then have "datetime_add_days t (int 0 * 30) = Inl (OverflowError DateValueOutOfRange)"
    by (simp add: datetime_add_days_def timedelta_days_def)
  moreover have "0 < nat m" using assms(1) by simp
  ultimately show ?thesis by blast
next
  case False
  then have "datetime_max < t + timedelta_days (30 * (m - 1))" using assms(2) by simp
  moreover have "int (nat (m - 1)) * 30 = 30 * (m - 1)" using assms(1) by simp
  ultimately have "\<exists>e. datetime_add_days t (int (nat (m - 1)) * 30) = Inl e"
    by (simp add: datetime_add_days_def)
  moreover have "nat (m - 1) < nat m" using assms(1) by linarith
  ultimately show ?thesis by blast
qed

lemma forecast_points_in_range:
  assumes "m \<le> 0 \<or> datetime_min \<le> t \<and> t + timedelta_days (30 * (m - 1)) \<le> datetime_max"
  shows "\<exists>ps. forecast_points t hs avg slope m = Inr ps \<and> length ps = nat m"
proof -
  let ?g = "\<lambda>i. \<lparr>fp_month = month_key (t + timedelta_days (int i * 30)),
                  fp_predicted_amount =
                    py_round 2 (max 0 (avg + slope * real (length hs + i))),
                  fp_confidence = calculate_forecast_confidence hs slope\<rparr>"
  have "forecast_points t hs avg slope m = Inr (map ?g [0..<nat m])"
    unfolding forecast_points_def
  proof (rule collect_Inr)
    fix i assume "i \<in> set [0..<nat m]"
    then have i: "i < nat m" by simp
    then have "0 < m" by linarith
    then have "datetime_add_days t (int i * 30) = Inr (t + timedelta_days (int i * 30))"
      using assms i datetime_add_days_in_range[of t m i] by simp
    then show "(case datetime_add_days t (int i * 30) of
                  Inl e \<Rightarrow> Inl e
                | Inr future_month \<Rightarrow>
                    Inr \<lparr>fp_month = month_key future_month,
                         fp_predicted_amount =
                           py_round 2 (max 0 (avg + slope * real (length hs + i))),
                         fp_confidence = calculate_forecast_confidence hs slope\<rparr>) =
               Inr (?g i)"
      by simp
  qed
  then show ?thesis by simp
qed

lemma forecast_points_out_of_range:
  assumes "0 < m" and "t < datetime_min \<or> datetime_max < t + timedelta_days (30 * (m - 1))"
  shows "\<exists>k. forecast_points t hs avg slope m = Inl (OverflowError k)"
proof -
  let ?f = "\<lambda>i. case datetime_add_days t (int i * 30) of
               Inl e \<Rightarrow> Inl e
             | Inr future_month \<Rightarrow>
                 Inr \<lparr>fp_month = month_key future_month,
                      fp_predicted_amount =
                        py_round 2 (max 0 (avg + slope * real (length hs + i))),
                      fp_confidence = calculate_forecast_confidence hs slope\<rparr>"
  from datetime_add_days_out_of_range[OF assms] obtain i e where
    i: "i < nat m" and e: "datetime_add_days t (int i * 30) = Inl e"
    by blast
  have "i \<in> set [0..<nat m]" using i by simp
  moreover have "?f i = Inl e" using e by simp
  ultimately obtain e' where c: "collect ?f [0..<nat m] = Inl e'"
    using collect_Inl_ex[of i "[0..<nat m]" ?f e] by blast
  then obtain j where "?f j = Inl e'"
    using collect_Inl_elem[of ?f "[0..<nat m]" e'] by blast
  then have "datetime_add_days t (int j * 30) = Inl e'"
    by (simp split: sum.splits)
  then obtain k where "e' = OverflowError k"
    using datetime_add_days_Inl by blast
  then show ?thesis using c unfolding forecast_points_def by blast
qed

lemma expense_forecast_in_range:
  assumes "m \<le> 0 \<or> datetime_min \<le> replace_day1 now \<and>
             replace_day1 now + timedelta_days (30 * (m - 1)) \<le> datetime_max"
  shows "\<exists>r. expense_forecast now es b m = Inr r \<and> forecast_available r \<and>
             data_points r = None \<and> length (fr_forecast_data r) = nat m \<and>
             map_option months_analyzed (fr_historical_data r)
               = Some (length (monthly_expenses_of es))"
proof -
  let ?hs = "map snd (monthly_expenses_of es)"
  let ?avg = "if length ?hs < 2 then (case ?hs of [] \<Rightarrow> 0 | a # _ \<Rightarrow> a) else mean ?hs"
  let ?slope = "if length ?hs < 2 then 0 else trend_slope_of ?hs"
  from forecast_points_in_range[OF assms, of ?hs ?avg ?slope] obtain ps where
    "forecast_points (replace_day1 now) ?hs ?avg ?slope m = Inr ps" and "length ps = nat m"
    by blast
  then show ?thesis
    by (simp add: expense_forecast_def Let_def)
qed

lemma expense_forecast_out_of_range:
  assumes "0 < m" and "replace_day1 now < datetime_min \<or>
             datetime_max < replace_day1 now + timedelta_days (30 * (m - 1))"
  shows "\<exists>k. expense_forecast now es b m = Inl (OverflowError k)"
proof -
  let ?hs = "map snd (monthly_expenses_of es)"
  let ?avg = "if length ?hs < 2 then (case ?hs of [] \<Rightarrow> 0 | a # _ \<Rightarrow> a) else mean ?hs"
  let ?slope = "if length ?hs < 2 then 0 else trend_slope_of ?hs"
  from forecast_points_out_of_range[OF assms, of ?hs ?avg ?slope] obtain k where
    "forecast_points (replace_day1 now) ?hs ?avg ?slope m = Inl (OverflowError k)"
    by blast
  then show ?thesis
    by (simp add: expense_forecast_def Let_def)
qed

lemma forecasting_member:
  assumes "get_project_or_404 d pid = Inr p" and "any_member p uid \<or> owner_id p = uid"
  shows "get_expense_forecasting d now uid pid m =
           (if length (expenses_of d pid) < 3
            then Inr (insufficient_data_response (length (expenses_of d pid)) m)
            else (case expense_forecast now (expenses_of d pid) (budget_first d pid) m of
                    Inl e \<Rightarrow> Inr (forecast_error_response e m)
                  | Inr r \<Rightarrow> Inr r))"
  using assms
  by (auto simp: get_expense_forecasting_def expense_forecasting_try_def Let_def)

lemma insufficient_fields:
  "\<not> forecast_available (insufficient_data_response n m)"
  "data_points (insufficient_data_response n m) = Some n"
  by (simp_all add: insufficient_data_response_def)

lemma forecast_error_fields:
  "\<not> forecast_available (forecast_error_response e m)"
  "data_points (forecast_error_response e m) = Some 0"
  by (simp_all add: forecast_error_response_def)

lemma ex_three_project: "get_project_or_404 ex_db_three 1 = Inr ex_project"
  by (simp add: get_project_or_404_def ex_db_three_def ex_db_def ex_project_def)

lemma ex_months_project: "get_project_or_404 ex_db_months 1 = Inr ex_project"
  by (simp add: get_project_or_404_def ex_db_months_def ex_db_def ex_project_def)

lemma ex_spent_project: "get_project_or_404 (ex_db_spent 10) 1 = Inr ex_project"
  by (simp add: get_project_or_404_def ex_db_spent_def ex_project_def)

lemma ex_member: "any_member ex_project 1"
  by (simp add: any_member_def ex_project_def ex_user_def)

lemma ex_three_counts:
  "length (expenses_of ex_db_three 1) = 3"
  "length (monthly_expenses_of (expenses_of ex_db_three 1)) = 1"
  by code_simp+

lemma ex_months_counts:
  "length (monthly_expenses_of (expenses_of ex_db_months 1)) = 3"
  by code_simp

lemma ex_spent_counts: "length (expenses_of (ex_db_spent 10) 1) = 1"
  by code_simp

lemma ex_epoch_range:
  "datetime_min \<le> replace_day1 0 \<and>
   replace_day1 0 + timedelta_days (30 * (3 - 1)) \<le> datetime_max"
  by code_simp

text \<open>
  C4, as stated, fails: the threshold is on the number of expenses, not on the number of
  monthly aggregates. Three expenses of the same month give a single monthly point, and
  the forecast is produced all the same.
\<close>

theorem forecast_from_one_month_counterexample:
  "get_project_or_404 ex_db_three 1 = Inr ex_project \<and> any_member ex_project 1 \<and>
   length (monthly_expenses_of (expenses_of ex_db_three 1)) = 1 \<and>
   (\<exists>r. get_expense_forecasting ex_db_three 0 1 1 3 = Inr r \<and> forecast_available r \<and>
        data_points r = None \<and>
        map_option months_analyzed (fr_historical_data r) = Some 1)"
proof -
  from expense_forecast_in_range
         [of 3 0 "expenses_of ex_db_three 1" "budget_first ex_db_three 1"] ex_epoch_range
  obtain r where
    r: "expense_forecast 0 (expenses_of ex_db_three 1) (budget_first ex_db_three 1) 3 = Inr r"
    and f: "forecast_available r" "data_points r = None"
      "map_option months_analyzed (fr_historical_data r)
         = Some (length (monthly_expenses_of (expenses_of ex_db_three 1)))"
    by blast
  have "get_expense_forecasting ex_db_three 0 1 1 3 = Inr r"
    using forecasting_member[OF ex_three_project, of 1 0 3] ex_member ex_three_counts(1) r
    by simp
  then show ?thesis
    using ex_three_project ex_member ex_three_counts(2) f by simp
qed

text \<open>
  C4, amended. \<open>get_expense_forecasting\<close> never raises. Asked by a member or the owner
  of the project, it returns forecast_available = false with data_points equal to the
  number of expenses when the project has fewer than 3 expenses. When the project has 3
  or more expenses, however few months they fall into, it produces a forecast provided
  that the dates of the forecast months exist: the first day of the current month plus
  30 days for each further month must not pass the last \<open>datetime\<close>,
  9999-12-31T23:59:59.999999. In particular it then produces a forecast whenever the
  history yields 3 or more monthly aggregate points. When a date of the forecast is out
  of range, the OverflowError of the date arithmetic is caught, and the result is
  forecast_available = false with data_points 0.
\<close>

theorem forecast_threshold_counts_expenses:
  "(\<exists>r. get_expense_forecasting d now uid pid m = Inr r) \<and>
   (get_project_or_404 d pid = Inr p \<and> (any_member p uid \<or> owner_id p = uid) \<longrightarrow>
      (length (expenses_of d pid) < 3 \<longrightarrow>
         (\<exists>r. get_expense_forecasting d now uid pid m = Inr r \<and> \<not> forecast_available r \<and>
              data_points r = Some (length (expenses_of d pid)))) \<and>
      (3 \<le> length (expenses_of d pid) \<and>
       (m \<le> 0 \<or> datetime_min \<le> replace_day1 now \<and>
                 replace_day1 now + timedelta_days (30 * (m - 1)) \<le> datetime_max) \<longrightarrow>
         (\<exists>r. get_expense_forecasting d now uid pid m = Inr r \<and> forecast_available r \<and>
              length (fr_forecast_data r) = nat m \<and>
              map_option months_analyzed (fr_historical_data r) =
                Some (length (monthly_expenses_of (expenses_of d pid))))) \<and>
      (3 \<le> length (monthly_expenses_of (expenses_of d pid)) \<and>
       (m \<le> 0 \<or> datetime_min \<le> replace_day1 now \<and>
                 replace_day1 now + timedelta_days (30 * (m - 1)) \<le> datetime_max) \<longrightarrow>
         (\<exists>r. get_expense_forecasting d now uid pid m = Inr r \<and> forecast_available r)) \<and>
      (3 \<le> length (expenses_of d pid) \<and> 0 < m \<and>
       (replace_day1 now < datetime_min \<or>
        datetime_max < replace_day1 now + timedelta_days (30 * (m - 1))) \<longrightarrow>
         (\<exists>k. get_expense_forecasting d now uid pid m =
                Inr (forecast_error_response (OverflowError k) m)) \<and>
         (\<exists>r. get_expense_forecasting d now uid pid m = Inr r \<and> \<not> forecast_available r \<and>
              data_points r = Some 0)))"
proof (intro conjI impI)
  show "\<exists>r. get_expense_forecasting d now uid pid m = Inr r"
    by (rule finance_never_raise)
next
  assume a: "get_project_or_404 d pid = Inr p \<and> (any_member p uid \<or> owner_id p = uid)"
  assume "length (expenses_of d pid) < 3"
  then show "\<exists>r. get_expense_forecasting d now uid pid m = Inr r \<and> \<not> forecast_available r \<and>
              data_points r = Some (length (expenses_of d pid))"
    using forecasting_member[of d pid p uid now m] a insufficient_fields by simp
next
  assume a: "get_project_or_404 d pid = Inr p \<and> (any_member p uid \<or> owner_id p = uid)"
  assume b: "3 \<le> length (expenses_of d pid) \<and>
       (m \<le> 0 \<or> datetime_min \<le> replace_day1 now \<and>
                 replace_day1 now + timedelta_days (30 * (m - 1)) \<le> datetime_max)"
  from expense_forecast_in_range[of m now "expenses_of d pid" "budget_first d pid"] b
  obtain r where
    "expense_forecast now (expenses_of d pid) (budget_first d pid) m = Inr r"
    "forecast_available r" "length (fr_forecast_data r) = nat m"
    "map_option months_analyzed (fr_historical_data r)
       = Some (length (monthly_expenses_of (expenses_of d pid)))"
    by blast
  then show "\<exists>r. get_expense_forecasting d now uid pid m = Inr r \<and> forecast_available r \<and>
              length (fr_forecast_data r) = nat m \<and>
              map_option months_analyzed (fr_historical_data r) =
                Some (length (monthly_expenses_of (expenses_of d pid)))"
    using forecasting_member[of d pid p uid now m] a b by simp
next
  assume a: "get_project_or_404 d pid = Inr p \<and> (any_member p uid \<or> owner_id p = uid)"
  assume b: "3 \<le> length (monthly_expenses_of (expenses_of d pid)) \<and>
       (m \<le> 0 \<or> datetime_min \<le> replace_day1 now \<and>
                 replace_day1 now + timedelta_days (30 * (m - 1)) \<le> datetime_max)"
  then have c: "3 \<le> length (expenses_of d pid)"
    using monthly_points_le[of "expenses_of d pid"] by linarith
  from expense_forecast_in_range[of m now "expenses_of d pid" "budget_first d pid"] b
  obtain r where
    "expense_forecast now (expenses_of d pid) (budget_first d pid) m = Inr r"
    "forecast_available r"
    by blast
  then show "\<exists>r. get_expense_forecasting d now uid pid m = Inr r \<and> forecast_available r"
    using forecasting_member[of d pid p uid now m] a c by simp
next
  assume a: "get_project_or_404 d pid = Inr p \<and> (any_member p uid \<or> owner_id p = uid)"
  assume b: "3 \<le> length (expenses_of d pid) \<and> 0 < m \<and>
       (replace_day1 now < datetime_min \<or>
        datetime_max < replace_day1 now + timedelta_days (30 * (m - 1)))"
  from expense_forecast_out_of_range[of m now "expenses_of d pid" "budget_first d pid"] b
  obtain k where
    "expense_forecast now (expenses_of d pid) (budget_first d pid) m = Inl (OverflowError k)"
    by blast
  then have g: "get_expense_forecasting d now uid pid m =
                  Inr (forecast_error_response (OverflowError k) m)"
    using forecasting_member[of d pid p uid now m] a b by simp
  show "\<exists>k. get_expense_forecasting d now uid pid m =
                Inr (forecast_error_response (OverflowError k) m)"
    using g by blast
  show "\<exists>r. get_expense_forecasting d now uid pid m = Inr r \<and> \<not> forecast_available r \<and>
              data_points r = Some 0"
    using g forecast_error_fields by simp
qed

text \<open>
  The clock of the last example reads 2026-11-04, day 20761 after 1970-01-01: the first
  of its month is day 20758, and the 97073rd month of a forecast would begin on day
  20758 + 30 * 97072 = 2932918, after day 2932896, which is 9999-12-31.
\<close>

lemma ex_late_range:
  "replace_day1 (timedelta_days 20761) = timedelta_days 20758"
  "datetime_max < timedelta_days 20758 + timedelta_days (30 * (97073 - 1))"
  "datetime_min \<le> timedelta_days 20758 \<and>
   timedelta_days 20758 + timedelta_days (30 * (97072 - 1)) \<le> datetime_max"
  by code_simp+

theorem forecast_threshold_counts_expenses_witness:
  "get_project_or_404 (ex_db_spent 10) 1 = Inr ex_project \<and> any_member ex_project 1 \<and>
   length (expenses_of (ex_db_spent 10) 1) = 1 \<and>
   get_expense_forecasting (ex_db_spent 10) 0 1 1 3 = Inr (insufficient_data_response 1 3) \<and>
   data_points (insufficient_data_response 1 3) = Some 1 \<and>
   get_project_or_404 ex_db_three 1 = Inr ex_project \<and>
   length (expenses_of ex_db_three 1) = 3 \<and>
   datetime_min \<le> replace_day1 0 \<and>
   replace_day1 0 + timedelta_days (30 * (3 - 1)) \<le> datetime_max \<and>
   (\<exists>r. get_expense_forecasting ex_db_three 0 1 1 3 = Inr r \<and> forecast_available r \<and>
        length (fr_forecast_data r) = 3 \<and>
        map_option months_analyzed (fr_historical_data r) = Some 1) \<and>
   get_project_or_404 ex_db_months 1 = Inr ex_project \<and>
   length (monthly_expenses_of (expenses_of ex_db_months 1)) = 3 \<and>
   (\<exists>r. get_expense_forecasting ex_db_months 0 1 1 3 = Inr r \<and> forecast_available r) \<and>
   replace_day1 (timedelta_days 20761) = timedelta_days 20758 \<and>
   datetime_max < timedelta_days 20758 + timedelta_days (30 * (97073 - 1)) \<and>
   (\<exists>k. get_expense_forecasting ex_db_three (timedelta_days 20761) 1 1 97073 =
          Inr (forecast_error_response (OverflowError k) 97073)) \<and>
   timedelta_days 20758 + timedelta_days (30 * (97072 - 1)) \<le> datetime_max \<and>
   (\<exists>r. get_expense_forecasting ex_db_three (timedelta_days 20761) 1 1 97072 = Inr r \<and>
        forecast_available r \<and> length (fr_forecast_data r) = 97072 \<and>
        map_option months_analyzed (fr_historical_data r) = Some 1)"
proof -
  have 1: "get_expense_forecasting (ex_db_spent 10) 0 1 1 3 = Inr (insufficient_data_response 1 3)"
    using forecast_threshold_counts_expenses
            [where d = "ex_db_spent 10" and pid = 1 and uid = 1 and p = ex_project
               and now = 0 and m = 3]
          forecasting_member[OF ex_spent_project, of 1 0 3]
          ex_spent_project ex_member ex_spent_counts
    by simp
  have 2: "\<exists>r. get_expense_forecasting ex_db_three 0 1 1 3 = Inr r \<and> forecast_available r \<and>
        length (fr_forecast_data r) = 3 \<and>
        map_option months_analyzed (fr_historical_data r) = Some 1"
    using forecast_threshold_counts_expenses
            [where d = ex_db_three and pid = 1 and uid = 1 and p = ex_project
               and now = 0 and m = 3]
          ex_three_project ex_member ex_three_counts ex_epoch_range
    by simp
  have 3: "\<exists>r. get_expense_forecasting ex_db_months 0 1 1 3 = Inr r \<and> forecast_available r"
    using forecast_threshold_counts_expenses
            [where d = ex_db_months and pid = 1 and uid = 1 and p = ex_project
               and now = 0 and m = 3]
          ex_months_project ex_member ex_months_counts ex_epoch_range
    by simp
  have 4: "\<exists>k. get_expense_forecasting ex_db_three (timedelta_days 20761) 1 1 97073 =
          Inr (forecast_error_response (OverflowError k) 97073)"
    using forecast_threshold_counts_expenses
            [where d = ex_db_three and pid = 1 and uid = 1 and p = ex_project
               and now = "timedelta_days 20761" and m = 97073]
          ex_three_project ex_member ex_three_counts(1) ex_late_range(1,2)
    by simp
  have 5: "\<exists>r. get_expense_forecasting ex_db_three (timedelta_days 20761) 1 1 97072 = Inr r \<and>
        forecast_available r \<and> length (fr_forecast_data r) = 97072 \<and>
        map_option months_analyzed (fr_historical_data r) = Some 1"
    using forecast_threshold_counts_expenses
            [where d = ex_db_three and pid = 1 and uid = 1 and p = ex_project
               and now = "timedelta_days 20761" and m = 97072]
          ex_three_project ex_member ex_three_counts ex_late_range(1,3)
    by simp
  show ?thesis
    using 1 2 3 4 5 ex_spent_project ex_member ex_spent_counts insufficient_fields(2)
          ex_three_project ex_three_counts(1) ex_months_project ex_months_counts
          ex_epoch_range ex_late_range
    by simp
qed

end
